(* ===== verification/Prelude.thy ===== *)
theory Prelude
  imports Main "HOL-Library.While_Combinator" "HOL-Library.Sublist"
begin

text \<open>
  Shared vocabulary of the VirtualMK development.
  \<^item> \<open>('a, 's) exec\<close> is the result of a step of the interpreter that may halt the
    process: \<open>Inl s\<close> is the final state after \<^verbatim>\<open>execution()\<close> ended the run
    (the C++ calls \<^verbatim>\<open>exit(0)\<close>, so nothing after it runs), \<open>Inr (a, s)\<close> is a
    normal return of value \<open>a\<close> in state \<open>s\<close>. \<open>bindE\<close> sequences two such steps and
    \<open>final_state\<close> reads the state off either outcome.
  \<^item> \<open>set_back xs x\<close> is \<^verbatim>\<open>v.back() = x\<close> on a non-empty \<^verbatim>\<open>std::vector\<close>
    whose last element is the top of the stack, and \<open>swap_at xs i j\<close> is
    \<^verbatim>\<open>std::swap(v[i], v[j])\<close>.
  The lemmas about them are declared \<open>[simp]\<close> or collected in \<open>vm_simps\<close>.
\<close>

named_theorems vm_simps "characteristic equations of the interpreter's operations"

type_synonym ('a, 's) exec = "'s + ('a \<times> 's)"

definition bindE :: "('a, 's) exec \<Rightarrow> ('a \<Rightarrow> 's \<Rightarrow> ('b, 's) exec) \<Rightarrow> ('b, 's) exec" where
  "bindE m f = (case m of Inl s \<Rightarrow> Inl s | Inr (a, s) \<Rightarrow> f a s)"

definition final_state :: "('a, 's) exec \<Rightarrow> 's" where
  "final_state r = (case r of Inl s \<Rightarrow> s | Inr (_, s) \<Rightarrow> s)"

definition set_back :: "'a list \<Rightarrow> 'a \<Rightarrow> 'a list" where
  "set_back xs x = butlast xs @ [x]"

definition swap_at :: "'a list \<Rightarrow> nat \<Rightarrow> nat \<Rightarrow> 'a list" where
  "swap_at xs i j = xs[i := xs ! j, j := xs ! i]"

subsection \<open>Sequencing of halting steps\<close>

lemma bindE_Inl [simp]: "bindE (Inl s) f = Inl s"
  by (simp add: bindE_def)

lemma bindE_Inr [simp]: "bindE (Inr (a, s)) f = f a s"
  by (simp add: bindE_def)

lemma bindE_split:
  "P (bindE m f) \<longleftrightarrow>
     (\<forall>s. m = Inl s \<longrightarrow> P (Inl s)) \<and> (\<forall>a s. m = Inr (a, s) \<longrightarrow> P (f a s))"
  by (cases m) auto

lemma bindE_split_asm:
  "P (bindE m f) \<longleftrightarrow>
     \<not> ((\<exists>s. m = Inl s \<and> \<not> P (Inl s)) \<or> (\<exists>a s. m = Inr (a, s) \<and> \<not> P (f a s)))"
  by (cases m) auto

lemmas bindE_splits = bindE_split bindE_split_asm

lemma final_state_Inl [simp]: "final_state (Inl s) = s"
  by (simp add: final_state_def)

lemma final_state_Inr [simp]: "final_state (Inr (a, s)) = s"
  by (simp add: final_state_def)

subsection \<open>The top of a vector-backed stack\<close>

lemma last_set_back [simp]: "last (set_back xs x) = x"
  by (simp add: set_back_def)

lemma butlast_set_back [simp]: "butlast (set_back xs x) = butlast xs"
  by (simp add: set_back_def)

lemma set_back_nonempty [simp]: "set_back xs x \<noteq> []"
  by (simp add: set_back_def)

lemma length_set_back [simp]: "xs \<noteq> [] \<Longrightarrow> length (set_back xs x) = length xs"
  by (simp add: set_back_def)

lemma set_back_last [simp]: "xs \<noteq> [] \<Longrightarrow> set_back xs (last xs) = xs"
  by (simp add: set_back_def)

lemma set_back_set_back [simp]: "set_back (set_back xs x) y = set_back xs y"
  by (simp add: set_back_def)

lemma set_back_snoc [simp]: "set_back (xs @ [y]) x = xs @ [x]"
  by (simp add: set_back_def)

lemma butlast_snoc2 [simp]: "butlast (xs @ [b, a]) = xs @ [b]"
  by (induction xs) auto

lemma last_snoc2 [simp]: "last (xs @ [b, a]) = a"
  by (induction xs) auto

lemma butlast_butlast_length:
  "2 \<le> length xs \<Longrightarrow> butlast xs \<noteq> []"
  by (cases xs rule: rev_cases) auto

subsection \<open>Swapping two slots of a vector\<close>

lemma length_swap_at [simp]: "length (swap_at xs i j) = length xs"
  by (simp add: swap_at_def)

lemma swap_at_swap_at [simp]:
  "i < length xs \<Longrightarrow> j < length xs \<Longrightarrow> swap_at (swap_at xs i j) i j = xs"
  by (cases "i = j") (auto simp: swap_at_def nth_list_update list_update_swap)

lemma nth_swap_at:
  "i < length xs \<Longrightarrow> j < length xs \<Longrightarrow>
   swap_at xs i j ! k = (if k = j then xs ! i else if k = i then xs ! j else xs ! k)"
  by (auto simp: swap_at_def nth_list_update)

subsection \<open>Output only grows\<close>

lemma prefix_append_self [simp]: "prefix xs (xs @ ys)"
  by (rule prefixI) simp

lemma prefix_trans_append [intro]: "prefix xs ys \<Longrightarrow> prefix xs (ys @ zs)"
  by simp

end
