(* ===== verification/Numeric.thy ===== *)
theory Numeric
  imports Prelude Complex_Main
begin

text \<open>
  The numeric domain the interpreter computes in. VirtualMK stores every value as a C++
  \<^verbatim>\<open>double\<close> and uses \<^verbatim>\<open>+ - * /\<close>, \<^verbatim>\<open>std::pow\<close>, \<^verbatim>\<open>std::sqrt\<close>,
  \<^verbatim>\<open>std::log10\<close>, \<^verbatim>\<open>std::log\<close>, \<^verbatim>\<open>std::exp\<close>, the comparisons
  \<^verbatim>\<open>x != 0\<close> and \<^verbatim>\<open>x >= 0\<close>, the literal \<^verbatim>\<open>0\<close> and \<^verbatim>\<open>std::stod\<close>.
  The machine model is parametric in these operations: the record \<open>num_dom\<close> is the
  interface between the interpreter and the floating-point library, and every theorem of
  the machine that does not depend on arithmetic holds for any instance.

  \<open>real_dom\<close> is the instance used for concrete runs: exact real arithmetic (no
  rounding, no infinities, no NaN), \<open>powr\<close> for \<^verbatim>\<open>std::pow\<close> (which agrees with
  the C function on positive bases) and \<open>stod_real\<close>, a model of the decimal subset of
  \<^verbatim>\<open>std::stod\<close>: optional sign, digits with an optional fraction, an optional
  exponent, longest valid prefix, failure when no digit is read.
\<close>

record 'v num_dom =
  n_zero :: 'v
  n_add :: "'v \<Rightarrow> 'v \<Rightarrow> 'v"
  n_sub :: "'v \<Rightarrow> 'v \<Rightarrow> 'v"
  n_mul :: "'v \<Rightarrow> 'v \<Rightarrow> 'v"
  n_div :: "'v \<Rightarrow> 'v \<Rightarrow> 'v"
  n_pow :: "'v \<Rightarrow> 'v \<Rightarrow> 'v"
  n_sqrt :: "'v \<Rightarrow> 'v"
  n_log10 :: "'v \<Rightarrow> 'v"
  n_ln :: "'v \<Rightarrow> 'v"
  n_exp :: "'v \<Rightarrow> 'v"
  n_is_zero :: "'v \<Rightarrow> bool"
  n_nonneg :: "'v \<Rightarrow> bool"
  n_stod :: "string \<Rightarrow> 'v option"

subsection \<open>C character classes\<close>

text \<open>\<^verbatim>\<open>islower\<close> and \<^verbatim>\<open>toupper\<close> of \<^verbatim>\<open><cctype>\<close> in the C locale.\<close>

definition islower_c :: "char \<Rightarrow> bool" where
  "islower_c c \<longleftrightarrow> (97::nat) \<le> of_char c \<and> (of_char c :: nat) \<le> 122"

definition toupper_c :: "char \<Rightarrow> char" where
  "toupper_c c = (if islower_c c then char_of (of_char c - (32::nat)) else c)"

subsection \<open>Decimal literals\<close>

definition is_digit :: "char \<Rightarrow> bool" where
  "is_digit c \<longleftrightarrow> (48::nat) \<le> of_char c \<and> of_char c \<le> (57::nat)"

definition digit_val :: "char \<Rightarrow> nat" where
  "digit_val c = of_char c - 48"

fun scan_digits :: "string \<Rightarrow> nat \<Rightarrow> nat \<Rightarrow> nat \<times> nat \<times> string" where
  "scan_digits [] v n = (v, n, [])"
| "scan_digits (c # cs) v n =
     (if is_digit c then scan_digits cs (10 * v + digit_val c) (Suc n) else (v, n, c # cs))"

definition scan_sign :: "string \<Rightarrow> bool \<times> string" where
  "scan_sign cs =
     (case cs of
        [] \<Rightarrow> (False, [])
      | c # r \<Rightarrow>
          if c = CHR ''-'' then (True, r) else if c = CHR ''+'' then (False, r) else (False, cs))"

definition scan_exponent :: "string \<Rightarrow> int" where
  "scan_exponent cs =
     (case cs of
        [] \<Rightarrow> 0
      | c # r \<Rightarrow>
          if c = CHR ''E'' \<or> c = CHR ''e'' then
            (let (neg, r1) = scan_sign r; (v, n, _) = scan_digits r1 0 0
             in if n = 0 then 0 else if neg then - int v else int v)
          else 0)"

definition stod_real :: "string \<Rightarrow> real option" where
  "stod_real tok =
     (let (neg, r1) = scan_sign tok;
          (ipart, ni, r2) = scan_digits r1 0 0;
          (fpart, nf, r3) =
            (case r2 of
               [] \<Rightarrow> (0, 0, [])
             | c # r \<Rightarrow> if c = CHR ''.'' then scan_digits r 0 0 else (0, 0, r2));
          e = scan_exponent r3;
          m = real ipart + real fpart / 10 ^ nf
      in if ni + nf = 0 then None
         else Some ((if neg then - m else m) *
                    (if 0 \<le> e then 10 ^ nat e else 1 / 10 ^ nat (- e))))"

definition real_dom :: "real num_dom" where
  "real_dom =
     \<lparr>n_zero = 0, n_add = (+), n_sub = (-), n_mul = (*), n_div = (/), n_pow = (powr),
      n_sqrt = sqrt, n_log10 = log 10, n_ln = ln, n_exp = exp,
      n_is_zero = (\<lambda>x. x = 0), n_nonneg = (\<lambda>x. 0 \<le> x), n_stod = stod_real\<rparr>"

lemmas stod_simps = stod_real_def scan_sign_def is_digit_def digit_val_def scan_exponent_def

subsection \<open>Properties of the instance\<close>

lemma real_dom_simps [simp]:
  "n_zero real_dom = 0" "n_add real_dom = (+)" "n_sub real_dom = (-)"
  "n_mul real_dom = (*)" "n_div real_dom = (/)" "n_pow real_dom = (powr)"
  "n_sqrt real_dom = sqrt" "n_log10 real_dom = log 10" "n_ln real_dom = ln"
  "n_exp real_dom = exp" "n_is_zero real_dom = (\<lambda>x. x = 0)"
  "n_nonneg real_dom = (\<lambda>x. 0 \<le> x)" "n_stod real_dom = stod_real"
  by (simp_all add: real_dom_def)

end
