(* ===== verification/Machine.thy ===== *)
theory Machine
  imports Numeric
begin

text \<open>
  Machine state and operand resolver of \<^verbatim>\<open>src/VirtualMK/VirtualMK.cpp\<close>.
  The C++ keeps its state in globals (lines 10--46): the mnemonic tables
  \<^verbatim>\<open>instructionSet\<close> and \<^verbatim>\<open>registerSet\<close>, the token vector \<^verbatim>\<open>code\<close>, the
  value \<^verbatim>\<open>stack\<close>, the seven \<^verbatim>\<open>registers\<close>, the iterator
  \<^verbatim>\<open>instructionPointer\<close>, the flag \<^verbatim>\<open>isRunning\<close> and \<^verbatim>\<open>commandCount\<close>.
  They become the record \<open>vm\<close>; the iterator is the index \<open>ip\<close> into \<open>code\<close>, and
  the text printed on \<^verbatim>\<open>std::cout\<close> is the list \<open>out\<close> of \<open>msg\<close> events, one per
  printed block (\<^theory_text>\<open>Output\<close> renders them as text). The value type \<open>'v\<close> is the numeric domain of \<^theory_text>\<open>Numeric\<close>.

  \<^verbatim>\<open>execution()\<close> prints the final dump and calls \<^verbatim>\<open>exit(0)\<close>; it is modelled
  as \<open>execution\<close>, which clears \<open>isRunning\<close> and appends the dump, and every caller
  returns \<open>Inl\<close> of that state, so nothing after it runs.
  The resolvers \<^verbatim>\<open>pointerIncrement\<close>, \<^verbatim>\<open>getInstruction\<close>,
  \<^verbatim>\<open>getRegister\<close> and \<^verbatim>\<open>getNumber\<close> (lines 93--135) are functions of type
  \<open>(_, 'v vm) exec\<close>.
\<close>

datatype 'v err =
    NotEnoughInstructions
  | InstructionUnknown string
  | RegisterUnknown string
  | NumberIncorrect string
  | CouldNotPop
  | StackNotEnoughValues
  | RegisterIncorrect
  | DivideByZero
  | SqrtOfNegative 'v
  | StackIsEmpty
  | StackValueZero
  | RegisterValueZero
  | UnknownInstruction nat

datatype 'v msg =
    Error nat "'v err"
  | Popped 'v
  | StackDump "'v list" "'v list"
  | DoNothing
  | Finished "'v list" "'v list"

record 'v vm =
  code :: "string list"
  stack :: "'v list"
  registers :: "'v list"
  ip :: nat
  isRunning :: bool
  commandCount :: nat
  out :: "'v msg list"

definition instructionSet :: "(string \<times> nat) list" where
  "instructionSet =
     [(''HLT'', 0), (''PSH'', 1), (''POP'', 2), (''ADD'', 3), (''SUB'', 4), (''MUL'', 5),
      (''DIV'', 6), (''POW'', 7), (''SQR'', 8), (''LOG'', 9), (''LON'', 10), (''EXP'', 11),
      (''MOV'', 12), (''SET'', 13), (''PRT'', 14), (''NOP'', 15)]"

definition registerSet :: "(string \<times> nat) list" where
  "registerSet =
     [(''S'', 0), (''A'', 1), (''B'', 2), (''C'', 3), (''D'', 4), (''E'', 5), (''F'', 6)]"

definition init_vm :: "'v num_dom \<Rightarrow> string list \<Rightarrow> 'v vm" where
  "init_vm d prog =
     \<lparr>code = prog, stack = [], registers = replicate (length registerSet) (n_zero d),
      ip = 0, isRunning = True, commandCount = 0, out = []\<rparr>"

text \<open>\<^verbatim>\<open>std::cout << commandCount << " | error: ..."\<close>: one diagnostic line.\<close>

definition report :: "'v vm \<Rightarrow> 'v err \<Rightarrow> 'v vm" where
  "report s e = s\<lparr>out := out s @ [Error (commandCount s) e]\<rparr>"

definition execution :: "'v vm \<Rightarrow> 'v vm" where
  "execution s =
     s\<lparr>isRunning := False,
       out := out s @ [Finished (rev (stack s)) (drop 1 (registers s))]\<rparr>"

definition fatal :: "'v vm \<Rightarrow> 'v err \<Rightarrow> 'v vm" where
  "fatal s e = execution (report s e)"

definition pointerIncrement :: "'v vm \<Rightarrow> (unit, 'v vm) exec" where
  "pointerIncrement s =
     (if commandCount s = 0 then Inr ((), s)
      else if ip s + 1 = length (code s) then
        Inl (fatal (s\<lparr>commandCount := commandCount s + 1\<rparr>) NotEnoughInstructions)
      else Inr ((), s\<lparr>ip := ip s + 1\<rparr>))"

definition getInstruction :: "'v vm \<Rightarrow> (nat, 'v vm) exec" where
  "getInstruction s =
     bindE (pointerIncrement s) (\<lambda>_ s1.
       let s2 = s1\<lparr>commandCount := commandCount s1 + 1\<rparr>; tok = code s2 ! ip s2 in
       (case map_of instructionSet tok of
          None \<Rightarrow> Inl (fatal s2 (InstructionUnknown tok))
        | Some n \<Rightarrow> Inr (n, s2)))"

definition getRegister :: "'v vm \<Rightarrow> (nat, 'v vm) exec" where
  "getRegister s =
     bindE (pointerIncrement s) (\<lambda>_ s1.
       let s2 = s1\<lparr>commandCount := commandCount s1 + 1\<rparr>; tok = code s2 ! ip s2 in
       (case map_of registerSet tok of
          None \<Rightarrow> Inl (fatal s2 (RegisterUnknown tok))
        | Some r \<Rightarrow> Inr (r, s2)))"

definition getNumber :: "'v num_dom \<Rightarrow> 'v vm \<Rightarrow> ('v, 'v vm) exec" where
  "getNumber d s =
     bindE (pointerIncrement s) (\<lambda>_ s1.
       let s2 = s1\<lparr>commandCount := commandCount s1 + 1\<rparr>; tok = code s2 ! ip s2 in
       (case n_stod d tok of
          None \<Rightarrow> Inl (fatal s2 (NumberIncorrect tok))
        | Some v \<Rightarrow> Inr (v, s2)))"

subsection \<open>The cursor\<close>

text \<open>
  \<open>pending s\<close> is the part of the token stream not consumed yet: the first resolver
  call reads the token under the iterator (\<^verbatim>\<open>commandCount == 0\<close>), every later one
  advances first. \<open>advance s\<close> is the state after one successful consumption.
\<close>

definition pending :: "'v vm \<Rightarrow> string list" where
  "pending s = drop (if commandCount s = 0 then ip s else ip s + 1) (code s)"

definition advance :: "'v vm \<Rightarrow> 'v vm" where
  "advance s =
     (if commandCount s = 0 then s else s\<lparr>ip := ip s + 1\<rparr>)\<lparr>commandCount := commandCount s + 1\<rparr>"

lemma advance_fields [simp]:
  "code (advance s) = code s" "stack (advance s) = stack s"
  "registers (advance s) = registers s" "isRunning (advance s) = isRunning s"
  "out (advance s) = out s" "commandCount (advance s) = commandCount s + 1"
  "ip (advance s) = (if commandCount s = 0 then ip s else ip s + 1)"
  by (simp_all add: advance_def)

lemma report_fields [simp]:
  "code (report s e) = code s" "stack (report s e) = stack s"
  "registers (report s e) = registers s" "isRunning (report s e) = isRunning s"
  "ip (report s e) = ip s" "commandCount (report s e) = commandCount s"
  "out (report s e) = out s @ [Error (commandCount s) e]"
  by (simp_all add: report_def)

lemma execution_fields [simp]:
  "code (execution s) = code s" "stack (execution s) = stack s"
  "registers (execution s) = registers s" "isRunning (execution s) = False"
  "ip (execution s) = ip s" "commandCount (execution s) = commandCount s"
  "out (execution s) = out s @ [Finished (rev (stack s)) (drop 1 (registers s))]"
  by (simp_all add: execution_def)

lemma fatal_fields [simp]:
  "code (fatal s e) = code s" "stack (fatal s e) = stack s"
  "registers (fatal s e) = registers s" "isRunning (fatal s e) = False"
  "ip (fatal s e) = ip s" "commandCount (fatal s e) = commandCount s"
  "out (fatal s e) =
     out s @ [Error (commandCount s) e, Finished (rev (stack s)) (drop 1 (registers s))]"
  by (simp_all add: fatal_def)

lemma pending_nth:
  assumes "pending s = t # ts"
  shows "code s ! (if commandCount s = 0 then ip s else ip s + 1) = t"
    and "(if commandCount s = 0 then ip s else ip s + 1) < length (code s)"
proof -
  let ?i = "if commandCount s = 0 then ip s else ip s + 1"
  from assms have d: "drop ?i (code s) = t # ts" by (simp add: pending_def)
  show i: "?i < length (code s)"
    using d by (cases "?i < length (code s)") auto
  from d show "code s ! ?i = t"
    using hd_drop_conv_nth [OF i] by simp
qed

lemma pending_advance:
  assumes "pending s = t # ts"
  shows "pending (advance s) = ts"
proof -
  let ?i = "if commandCount s = 0 then ip s else ip s + 1"
  have step: "\<And>i xs. drop i xs = t # ts \<Longrightarrow> drop (Suc i) xs = ts"
    by (metis drop_Suc list.sel(3) tl_drop)
  from assms have "drop ?i (code s) = t # ts" by (simp add: pending_def)
  then have "drop (Suc ?i) (code s) = ts" by (rule step)
  then show ?thesis by (simp add: pending_def)
qed

lemma pointerIncrement_pending:
  assumes "pending s = t # ts"
  obtains s1 where "pointerIncrement s = Inr ((), s1)"
    and "s1\<lparr>commandCount := commandCount s1 + 1\<rparr> = advance s"
proof -
  have "commandCount s \<noteq> 0 \<Longrightarrow> ip s + 1 \<noteq> length (code s)"
    using pending_nth(2) [OF assms] by auto
  then show ?thesis
    using that by (cases "commandCount s = 0") (auto simp: pointerIncrement_def advance_def)
qed

lemma advance_token:
  assumes "pending s = t # ts"
  shows "code (advance s) ! ip (advance s) = t"
  using pending_nth(1) [OF assms] by simp

lemma pointerIncrement_exhausted:
  assumes "pending s = []" and "commandCount s \<noteq> 0" and "ip s < length (code s)"
  shows "pointerIncrement s =
           Inl (fatal (s\<lparr>commandCount := commandCount s + 1\<rparr>) NotEnoughInstructions)"
  using assms by (simp add: pending_def pointerIncrement_def)

lemma getRegister_pending:
  assumes "pending s = t # ts"
  shows "getRegister s =
           (case map_of registerSet t of
              None \<Rightarrow> Inl (fatal (advance s) (RegisterUnknown t))
            | Some r \<Rightarrow> Inr (r, advance s))"
proof -
  obtain s1 where p: "pointerIncrement s = Inr ((), s1)"
    and a: "s1\<lparr>commandCount := commandCount s1 + 1\<rparr> = advance s"
    using pointerIncrement_pending [OF assms] by blast
  show ?thesis
    unfolding getRegister_def p bindE_Inr Let_def a advance_token [OF assms] ..
qed

lemma getInstruction_pending:
  assumes "pending s = t # ts"
  shows "getInstruction s =
           (case map_of instructionSet t of
              None \<Rightarrow> Inl (fatal (advance s) (InstructionUnknown t))
            | Some n \<Rightarrow> Inr (n, advance s))"
proof -
  obtain s1 where p: "pointerIncrement s = Inr ((), s1)"
    and a: "s1\<lparr>commandCount := commandCount s1 + 1\<rparr> = advance s"
    using pointerIncrement_pending [OF assms] by blast
  show ?thesis
    unfolding getInstruction_def p bindE_Inr Let_def a advance_token [OF assms] ..
qed

lemma getNumber_pending:
  assumes "pending s = t # ts"
  shows "getNumber d s =
           (case n_stod d t of
              None \<Rightarrow> Inl (fatal (advance s) (NumberIncorrect t))
            | Some v \<Rightarrow> Inr (v, advance s))"
proof -
  obtain s1 where p: "pointerIncrement s = Inr ((), s1)"
    and a: "s1\<lparr>commandCount := commandCount s1 + 1\<rparr> = advance s"
    using pointerIncrement_pending [OF assms] by blast
  show ?thesis
    unfolding getNumber_def p bindE_Inr Let_def a advance_token [OF assms] ..
qed

lemma pending_advance_tl [simp]: "pending (advance s) = tl (pending s)"
  by (simp add: pending_def advance_def drop_Suc tl_drop)

lemma pending_updates [simp]:
  "pending (s\<lparr>stack := xs\<rparr>) = pending s" "pending (s\<lparr>registers := rs\<rparr>) = pending s"
  "pending (s\<lparr>out := ms\<rparr>) = pending s" "pending (s\<lparr>isRunning := b\<rparr>) = pending s"
  "pending (report s e) = pending s" "pending (execution s) = pending s"
  "pending (fatal s e) = pending s"
  by (simp_all add: pending_def report_def execution_def fatal_def)

lemma advance_updates [simp]:
  "advance (s\<lparr>stack := xs\<rparr>) = (advance s)\<lparr>stack := xs\<rparr>"
  "advance (s\<lparr>registers := rs\<rparr>) = (advance s)\<lparr>registers := rs\<rparr>"
  "advance (s\<lparr>out := ms\<rparr>) = (advance s)\<lparr>out := ms\<rparr>"
  "advance (report s e) = (advance s)\<lparr>out := out s @ [Error (commandCount s) e]\<rparr>"
  by (simp_all add: advance_def report_def)

lemma getRegister_next [vm_simps]:
  assumes "pending s \<noteq> []"
  shows "getRegister s =
           (case map_of registerSet (hd (pending s)) of
              None \<Rightarrow> Inl (fatal (advance s) (RegisterUnknown (hd (pending s))))
            | Some r \<Rightarrow> Inr (r, advance s))"
  using assms getRegister_pending [of s "hd (pending s)" "tl (pending s)"] by simp

lemma getInstruction_next [vm_simps]:
  assumes "pending s \<noteq> []"
  shows "getInstruction s =
           (case map_of instructionSet (hd (pending s)) of
              None \<Rightarrow> Inl (fatal (advance s) (InstructionUnknown (hd (pending s))))
            | Some n \<Rightarrow> Inr (n, advance s))"
  using assms getInstruction_pending [of s "hd (pending s)" "tl (pending s)"] by simp

lemma getNumber_next [vm_simps]:
  assumes "pending s \<noteq> []"
  shows "getNumber d s =
           (case n_stod d (hd (pending s)) of
              None \<Rightarrow> Inl (fatal (advance s) (NumberIncorrect (hd (pending s))))
            | Some v \<Rightarrow> Inr (v, advance s))"
  using assms getNumber_pending [of s "hd (pending s)" "tl (pending s)"] by simp

lemma resolvers_exhausted:
  assumes "pending s = []" and "commandCount s \<noteq> 0" and "ip s < length (code s)"
  shows "getRegister s = Inl (fatal (s\<lparr>commandCount := commandCount s + 1\<rparr>) NotEnoughInstructions)"
    and "getInstruction s =
           Inl (fatal (s\<lparr>commandCount := commandCount s + 1\<rparr>) NotEnoughInstructions)"
    and "getNumber d s = Inl (fatal (s\<lparr>commandCount := commandCount s + 1\<rparr>) NotEnoughInstructions)"
  using pointerIncrement_exhausted [OF assms]
  by (simp_all add: getRegister_def getInstruction_def getNumber_def)

lemma getRegister_Inr_frame:
  assumes "getRegister s = Inr (r, s1)"
  shows "registers s1 = registers s \<and> stack s1 = stack s \<and> out s1 = out s \<and>
         isRunning s1 = isRunning s \<and> code s1 = code s \<and> map_of registerSet (code s1 ! ip s1) = Some r"
  using assms
  by (auto simp: getRegister_def pointerIncrement_def Let_def split: if_splits option.splits)

lemma pending_init [simp]: "pending (init_vm d prog) = prog"
  by (simp add: pending_def init_vm_def)

lemma init_vm_fields [simp]:
  "code (init_vm d prog) = prog" "stack (init_vm d prog) = []"
  "registers (init_vm d prog) = replicate 7 (n_zero d)" "ip (init_vm d prog) = 0"
  "isRunning (init_vm d prog) = True" "commandCount (init_vm d prog) = 0"
  "out (init_vm d prog) = []"
  by (simp_all add: init_vm_def registerSet_def eval_nat_numeral)

subsection \<open>The mnemonic tables\<close>

lemma registerSet_range: "map_of registerSet t = Some r \<Longrightarrow> r \<le> 6"
  by (auto simp: registerSet_def split: if_splits)

lemma instructionSet_range: "map_of instructionSet t = Some n \<Longrightarrow> n < 16"
  by (auto simp: instructionSet_def split: if_splits)

end
