(* ===== verification/Executor.thy ===== *)
theory Executor
  imports Machine
begin

text \<open>
  The opcode executor: \<^verbatim>\<open>operations()\<close> of \<^verbatim>\<open>src/VirtualMK/VirtualMK.cpp\<close>
  (lines 137--866). Each \<^verbatim>\<open>case\<close> of the outer \<^verbatim>\<open>switch\<close> is one handler
  \<open>exec_X\<close>, written with the branches of the C++ in their order: a register
  \<^verbatim>\<open>switch\<close> with \<^verbatim>\<open>case 0\<close>, \<^verbatim>\<open>case 1 .. 6\<close> and \<^verbatim>\<open>default\<close> is an
  \<open>if r = 0 \<dots> else if r \<le> 6 \<dots> else \<dots>\<close> chain. \<^verbatim>\<open>execution()\<close> after an
  error message is \<open>Inl (fatal s e)\<close>; a recoverable message is \<open>report\<close> and the handler
  returns normally. The stack's top is the last element of the list (the vector's
  \<^verbatim>\<open>back()\<close>). \<open>exec_op\<close> is the dispatch on the opcode number and \<open>operations\<close>
  one fetch-decode-execute cycle.
\<close>

definition exec_HLT :: "'v vm \<Rightarrow> (unit, 'v vm) exec" where
  "exec_HLT s = Inl (execution s)"

definition exec_PSH :: "'v num_dom \<Rightarrow> 'v vm \<Rightarrow> (unit, 'v vm) exec" where
  "exec_PSH d s = bindE (getNumber d s) (\<lambda>v s1. Inr ((), s1\<lparr>stack := stack s1 @ [v]\<rparr>))"

definition exec_POP :: "'v vm \<Rightarrow> (unit, 'v vm) exec" where
  "exec_POP s =
     (if stack s \<noteq> [] then
        Inr ((), s\<lparr>out := out s @ [Popped (last (stack s))], stack := butlast (stack s)\<rparr>)
      else Inr ((), report s CouldNotPop))"

definition exec_ADD :: "'v num_dom \<Rightarrow> 'v vm \<Rightarrow> (unit, 'v vm) exec" where
  "exec_ADD d s =
     bindE (getRegister s) (\<lambda>regFirst s1.
       if regFirst = 0 then
         (if 2 \<le> length (stack s1) then
            (let s2 = s1\<lparr>registers := (registers s1)[0 := last (stack s1)],
                         stack := butlast (stack s1)\<rparr>
             in Inr ((), s2\<lparr>stack := set_back (stack s2)
                              (n_add d (registers s2 ! 0) (last (stack s2)))\<rparr>))
          else Inr ((), report s1 StackNotEnoughValues))
       else if regFirst \<le> 6 then
         bindE (getRegister s1) (\<lambda>regSecond s2.
           if regFirst \<noteq> regSecond then
             (if regSecond = 0 then Inl (fatal s2 RegisterIncorrect)
              else if regSecond \<le> 6 then
                bindE (getRegister s2) (\<lambda>regTarget s3.
                  if regTarget = 0 then Inl (fatal s3 RegisterIncorrect)
                  else if regTarget \<le> 6 then
                    Inr ((), s3\<lparr>registers := (registers s3)[regTarget :=
                      n_add d (registers s3 ! regFirst) (registers s3 ! regSecond)]\<rparr>)
                  else Inl (fatal s3 RegisterIncorrect))
              else Inl (fatal s2 RegisterIncorrect))
           else Inl (fatal s2 RegisterIncorrect))
       else Inl (fatal s1 RegisterIncorrect))"

definition exec_SUB :: "'v num_dom \<Rightarrow> 'v vm \<Rightarrow> (unit, 'v vm) exec" where
  "exec_SUB d s =
     bindE (getRegister s) (\<lambda>regFirst s1.
       if regFirst = 0 then
         (if 2 \<le> length (stack s1) then
            (let s2 = s1\<lparr>registers := (registers s1)[0 := last (stack s1)],
                         stack := butlast (stack s1)\<rparr>
             in Inr ((), s2\<lparr>stack := set_back (stack s2)
                              (n_sub d (registers s2 ! 0) (last (stack s2)))\<rparr>))
          else Inr ((), report s1 StackNotEnoughValues))
       else if regFirst \<le> 6 then
         bindE (getRegister s1) (\<lambda>regSecond s2.
           if regFirst \<noteq> regSecond then
             (if regSecond = 0 then Inl (fatal s2 RegisterIncorrect)
              else if regSecond \<le> 6 then
                bindE (getRegister s2) (\<lambda>regTarget s3.
                  if regTarget = 0 then Inl (fatal s3 RegisterIncorrect)
                  else if regTarget \<le> 6 then
                    Inr ((), s3\<lparr>registers := (registers s3)[regTarget :=
                      n_sub d (registers s3 ! regFirst) (registers s3 ! regSecond)]\<rparr>)
                  else Inl (fatal s3 RegisterIncorrect))
              else Inl (fatal s2 RegisterIncorrect))
           else Inl (fatal s2 RegisterIncorrect))
       else Inl (fatal s1 RegisterIncorrect))"

definition exec_MUL :: "'v num_dom \<Rightarrow> 'v vm \<Rightarrow> (unit, 'v vm) exec" where
  "exec_MUL d s =
     bindE (getRegister s) (\<lambda>regFirst s1.
       if regFirst = 0 then
         (if 2 \<le> length (stack s1) then
            (let s2 = s1\<lparr>registers := (registers s1)[0 := last (stack s1)],
                         stack := butlast (stack s1)\<rparr>
             in Inr ((), s2\<lparr>stack := set_back (stack s2)
                              (n_mul d (registers s2 ! 0) (last (stack s2)))\<rparr>))
          else Inr ((), report s1 StackNotEnoughValues))
       else if regFirst \<le> 6 then
         bindE (getRegister s1) (\<lambda>regSecond s2.
           if regFirst \<noteq> regSecond then
             (if regSecond = 0 then Inl (fatal s2 RegisterIncorrect)
              else if regSecond \<le> 6 then
                bindE (getRegister s2) (\<lambda>regTarget s3.
                  if regTarget = 0 then Inl (fatal s3 RegisterIncorrect)
                  else if regTarget \<le> 6 then
                    Inr ((), s3\<lparr>registers := (registers s3)[regTarget :=
                      n_mul d (registers s3 ! regFirst) (registers s3 ! regSecond)]\<rparr>)
                  else Inl (fatal s3 RegisterIncorrect))
              else Inl (fatal s2 RegisterIncorrect))
           else Inl (fatal s2 RegisterIncorrect))
       else Inl (fatal s1 RegisterIncorrect))"

text \<open>
  DIV (lines 386--471) differs from the other four: in stack mode the two top values are
  tested for zero before anything changes; in register mode the zero test on
  \<^verbatim>\<open>registers[regFirst]\<close> and \<^verbatim>\<open>registers[regSecond]\<close> comes before the
  distinctness and range checks of the second register, and the skipped division still
  consumes the destination token with \<^verbatim>\<open>getRegister(ip)\<close>, whose value is ignored.
\<close>

definition exec_DIV :: "'v num_dom \<Rightarrow> 'v vm \<Rightarrow> (unit, 'v vm) exec" where
  "exec_DIV d s =
     bindE (getRegister s) (\<lambda>regFirst s1.
       if regFirst = 0 then
         (if 2 \<le> length (stack s1) then
            (if \<not> n_is_zero d (last (stack s1)) \<and> \<not> n_is_zero d (last (butlast (stack s1))) then
               (let s2 = s1\<lparr>registers := (registers s1)[0 := last (stack s1)],
                            stack := butlast (stack s1)\<rparr>
                in Inr ((), s2\<lparr>stack := set_back (stack s2)
                                 (n_div d (registers s2 ! 0) (last (stack s2)))\<rparr>))
             else Inr ((), report s1 DivideByZero))
          else Inr ((), report s1 StackNotEnoughValues))
       else if regFirst \<le> 6 then
         bindE (getRegister s1) (\<lambda>regSecond s2.
           if \<not> n_is_zero d (registers s2 ! regFirst) \<and> \<not> n_is_zero d (registers s2 ! regSecond) then
             (if regFirst \<noteq> regSecond then
                (if regSecond = 0 then Inl (fatal s2 RegisterIncorrect)
                 else if regSecond \<le> 6 then
                   bindE (getRegister s2) (\<lambda>regTarget s3.
                     if regTarget = 0 then Inl (fatal s3 RegisterIncorrect)
                     else if regTarget \<le> 6 then
                       Inr ((), s3\<lparr>registers := (registers s3)[regTarget :=
                         n_div d (registers s3 ! regFirst) (registers s3 ! regSecond)]\<rparr>)
                     else Inl (fatal s3 RegisterIncorrect))
                 else Inl (fatal s2 RegisterIncorrect))
              else Inl (fatal s2 RegisterIncorrect))
           else bindE (getRegister (report s2 DivideByZero)) (\<lambda>_ s3. Inr ((), s3)))
       else Inl (fatal s1 RegisterIncorrect))"

definition exec_POW :: "'v num_dom \<Rightarrow> 'v vm \<Rightarrow> (unit, 'v vm) exec" where
  "exec_POW d s =
     bindE (getRegister s) (\<lambda>regFirst s1.
       if regFirst = 0 then
         (if 2 \<le> length (stack s1) then
            (let s2 = s1\<lparr>registers := (registers s1)[0 := last (stack s1)],
                         stack := butlast (stack s1)\<rparr>
             in Inr ((), s2\<lparr>stack := set_back (stack s2)
                              (n_pow d (registers s2 ! 0) (last (stack s2)))\<rparr>))
          else Inr ((), report s1 StackNotEnoughValues))
       else if regFirst \<le> 6 then
         bindE (getRegister s1) (\<lambda>regSecond s2.
           if regFirst \<noteq> regSecond then
             (if regSecond = 0 then Inl (fatal s2 RegisterIncorrect)
              else if regSecond \<le> 6 then
                bindE (getRegister s2) (\<lambda>regTarget s3.
                  if regTarget = 0 then Inl (fatal s3 RegisterIncorrect)
                  else if regTarget \<le> 6 then
                    Inr ((), s3\<lparr>registers := (registers s3)[regTarget :=
                      n_pow d (registers s3 ! regFirst) (registers s3 ! regSecond)]\<rparr>)
                  else Inl (fatal s3 RegisterIncorrect))
              else Inl (fatal s2 RegisterIncorrect))
           else Inl (fatal s2 RegisterIncorrect))
       else Inl (fatal s1 RegisterIncorrect))"

text \<open>The unary operations (lines 549--689) work in place on the stack top or a register.\<close>

definition exec_SQR :: "'v num_dom \<Rightarrow> 'v vm \<Rightarrow> (unit, 'v vm) exec" where
  "exec_SQR d s =
     bindE (getRegister s) (\<lambda>regFirst s1.
       if regFirst = 0 then
         (if stack s1 \<noteq> [] then
            (if n_nonneg d (last (stack s1)) then
               Inr ((), s1\<lparr>stack := set_back (stack s1) (n_sqrt d (last (stack s1)))\<rparr>)
             else Inr ((), report s1 (SqrtOfNegative (last (stack s1)))))
          else Inr ((), report s1 StackIsEmpty))
       else if regFirst \<le> 6 then
         (if n_nonneg d (registers s1 ! regFirst) then
            Inr ((), s1\<lparr>registers := (registers s1)[regFirst :=
                                      n_sqrt d (registers s1 ! regFirst)]\<rparr>)
          else Inr ((), report s1 (SqrtOfNegative (registers s1 ! regFirst))))
       else Inl (fatal s1 RegisterIncorrect))"

definition exec_LOG :: "'v num_dom \<Rightarrow> 'v vm \<Rightarrow> (unit, 'v vm) exec" where
  "exec_LOG d s =
     bindE (getRegister s) (\<lambda>regFirst s1.
       if regFirst = 0 then
         (if stack s1 \<noteq> [] then
            (if \<not> n_is_zero d (last (stack s1)) then
               Inr ((), s1\<lparr>stack := set_back (stack s1) (n_log10 d (last (stack s1)))\<rparr>)
             else Inr ((), report s1 StackValueZero))
          else Inr ((), report s1 StackIsEmpty))
       else if regFirst \<le> 6 then
         (if \<not> n_is_zero d (registers s1 ! regFirst) then
            Inr ((), s1\<lparr>registers := (registers s1)[regFirst :=
                                      n_log10 d (registers s1 ! regFirst)]\<rparr>)
          else Inr ((), report s1 RegisterValueZero))
       else Inl (fatal s1 RegisterIncorrect))"

definition exec_LON :: "'v num_dom \<Rightarrow> 'v vm \<Rightarrow> (unit, 'v vm) exec" where
  "exec_LON d s =
     bindE (getRegister s) (\<lambda>regFirst s1.
       if regFirst = 0 then
         (if stack s1 \<noteq> [] then
            (if \<not> n_is_zero d (last (stack s1)) then
               Inr ((), s1\<lparr>stack := set_back (stack s1) (n_ln d (last (stack s1)))\<rparr>)
             else Inr ((), report s1 StackValueZero))
          else Inr ((), report s1 StackIsEmpty))
       else if regFirst \<le> 6 then
         (if \<not> n_is_zero d (registers s1 ! regFirst) then
            Inr ((), s1\<lparr>registers := (registers s1)[regFirst :=
                                      n_ln d (registers s1 ! regFirst)]\<rparr>)
          else Inr ((), report s1 RegisterValueZero))
       else Inl (fatal s1 RegisterIncorrect))"

definition exec_EXP :: "'v num_dom \<Rightarrow> 'v vm \<Rightarrow> (unit, 'v vm) exec" where
  "exec_EXP d s =
     bindE (getRegister s) (\<lambda>regFirst s1.
       if regFirst = 0 then
         (if stack s1 \<noteq> [] then
            Inr ((), s1\<lparr>stack := set_back (stack s1) (n_exp d (last (stack s1)))\<rparr>)
          else Inr ((), report s1 StackIsEmpty))
       else if regFirst \<le> 6 then
         Inr ((), s1\<lparr>registers := (registers s1)[regFirst := n_exp d (registers s1 ! regFirst)]\<rparr>)
       else Inl (fatal s1 RegisterIncorrect))"

text \<open>
  MOV (lines 691--769) swaps two locations, SET (lines 771--849) copies the second into
  the first. With \<^verbatim>\<open>S\<close> first, the stack is tested before the second register is
  read; an empty stack ends the run.
\<close>

definition exec_MOV :: "'v vm \<Rightarrow> (unit, 'v vm) exec" where
  "exec_MOV s =
     bindE (getRegister s) (\<lambda>regFirst s1.
       if regFirst = 0 then
         (if stack s1 \<noteq> [] then
            bindE (getRegister s1) (\<lambda>regSecond s2.
              if regSecond = 0 then Inl (fatal s2 RegisterIncorrect)
              else if regSecond \<le> 6 then
                Inr ((), s2\<lparr>registers := (registers s2)[regSecond := last (stack s2)],
                            stack := set_back (stack s2) (registers s2 ! regSecond)\<rparr>)
              else Inl (fatal s2 RegisterIncorrect))
          else Inl (fatal s1 StackIsEmpty))
       else if regFirst \<le> 6 then
         bindE (getRegister s1) (\<lambda>regSecond s2.
           if regSecond = 0 then
             (if stack s2 \<noteq> [] then
                Inr ((), s2\<lparr>registers := (registers s2)[regFirst := last (stack s2)],
                            stack := set_back (stack s2) (registers s2 ! regFirst)\<rparr>)
              else Inl (fatal s2 StackIsEmpty))
           else if regSecond \<le> 6 then
             (if regFirst \<noteq> regSecond then
                Inr ((), s2\<lparr>registers := swap_at (registers s2) regFirst regSecond\<rparr>)
              else Inl (fatal s2 RegisterIncorrect))
           else Inl (fatal s2 RegisterIncorrect))
       else Inl (fatal s1 RegisterIncorrect))"

definition exec_SET :: "'v vm \<Rightarrow> (unit, 'v vm) exec" where
  "exec_SET s =
     bindE (getRegister s) (\<lambda>regFirst s1.
       if regFirst = 0 then
         (if stack s1 \<noteq> [] then
            bindE (getRegister s1) (\<lambda>regSecond s2.
              if regSecond = 0 then Inl (fatal s2 RegisterIncorrect)
              else if regSecond \<le> 6 then
                Inr ((), s2\<lparr>stack := set_back (stack s2) (registers s2 ! regSecond)\<rparr>)
              else Inl (fatal s2 RegisterIncorrect))
          else Inl (fatal s1 StackIsEmpty))
       else if regFirst \<le> 6 then
         bindE (getRegister s1) (\<lambda>regSecond s2.
           if regSecond = 0 then
             (if stack s2 \<noteq> [] then
                Inr ((), s2\<lparr>registers := (registers s2)[regFirst := last (stack s2)]\<rparr>)
              else Inl (fatal s2 StackIsEmpty))
           else if regSecond \<le> 6 then
             (if regFirst \<noteq> regSecond then
                Inr ((), s2\<lparr>registers := (registers s2)[regFirst := registers s2 ! regSecond]\<rparr>)
              else Inl (fatal s2 RegisterIncorrect))
           else Inl (fatal s2 RegisterIncorrect))
       else Inl (fatal s1 RegisterIncorrect))"

definition exec_PRT :: "'v vm \<Rightarrow> (unit, 'v vm) exec" where
  "exec_PRT s = Inr ((), s\<lparr>out := out s @ [StackDump (rev (stack s)) (drop 1 (registers s))]\<rparr>)"

definition exec_NOP :: "'v vm \<Rightarrow> (unit, 'v vm) exec" where
  "exec_NOP s = Inr ((), s\<lparr>out := out s @ [DoNothing]\<rparr>)"

definition exec_op :: "'v num_dom \<Rightarrow> nat \<Rightarrow> 'v vm \<Rightarrow> (unit, 'v vm) exec" where
  "exec_op d opc s =
     (if opc = 0 then exec_HLT s
      else if opc = 1 then exec_PSH d s
      else if opc = 2 then exec_POP s
      else if opc = 3 then exec_ADD d s
      else if opc = 4 then exec_SUB d s
      else if opc = 5 then exec_MUL d s
      else if opc = 6 then exec_DIV d s
      else if opc = 7 then exec_POW d s
      else if opc = 8 then exec_SQR d s
      else if opc = 9 then exec_LOG d s
      else if opc = 10 then exec_LON d s
      else if opc = 11 then exec_EXP d s
      else if opc = 12 then exec_MOV s
      else if opc = 13 then exec_SET s
      else if opc = 14 then exec_PRT s
      else if opc = 15 then exec_NOP s
      else Inr ((), report s (UnknownInstruction opc)))"

definition operations :: "'v num_dom \<Rightarrow> 'v vm \<Rightarrow> 'v vm" where
  "operations d s = final_state (bindE (getInstruction s) (exec_op d))"

end
