(* ===== verification/Invariant.thy ===== *)
theory Invariant
  imports Executor
begin

text \<open>
  The machine invariant and the frame of one step. \<open>vm_inv\<close> says what every state of
  a run keeps: the iterator points into the program, the register vector has its seven
  slots, and \<open>commandCount\<close> is tied to the iterator (it counts the consumed tokens,
  one more than the index once the first token is read, two more after the final
  "not enough instructions" increment). \<open>vm_step s s'\<close> relates a state to a later one
  of the same run: same program, invariant kept, cursor and counter never move back,
  the pending tokens never grow, and output is only appended. \<open>handler_ok\<close> lifts it
  to results: a normal return is still running, an \<open>Inl\<close> has halted and its last
  printed line is the final dump (\<open>dumped\<close>).
\<close>

definition vm_inv :: "'v vm \<Rightarrow> bool" where
  "vm_inv s \<longleftrightarrow>
     ip s < length (code s) \<and> length (registers s) = length registerSet \<and>
     (commandCount s = 0 \<and> ip s = 0 \<or> commandCount s = ip s + 1 \<or>
      \<not> isRunning s \<and> commandCount s = ip s + 2 \<and> ip s + 1 = length (code s))"

definition vm_step :: "'v vm \<Rightarrow> 'v vm \<Rightarrow> bool" where
  "vm_step s s' \<longleftrightarrow>
     code s' = code s \<and> vm_inv s' \<and> ip s \<le> ip s' \<and> commandCount s \<le> commandCount s' \<and>
     length (pending s') \<le> length (pending s) \<and> prefix (out s) (out s')"

text \<open>
  \<open>dumped s\<close>: the last line printed is the final dump of the current stack and registers,
  as \<^verbatim>\<open>execution()\<close> prints it just before \<^verbatim>\<open>exit(0)\<close>.
\<close>

definition dumped :: "'v vm \<Rightarrow> bool" where
  "dumped s \<longleftrightarrow> out s \<noteq> [] \<and> last (out s) = Finished (rev (stack s)) (drop 1 (registers s))"

definition handler_ok :: "'v vm \<Rightarrow> ('a, 'v vm) exec \<Rightarrow> bool" where
  "handler_ok s r \<longleftrightarrow>
     (case r of
        Inl s' \<Rightarrow> vm_step s s' \<and> \<not> isRunning s' \<and> dumped s'
      | Inr (_, s') \<Rightarrow> vm_step s s' \<and> isRunning s')"

subsection \<open>The frame relation\<close>

lemma dumped_execution [simp]: "dumped (execution s)"
  by (simp add: dumped_def)

lemma dumped_fatal [simp]: "dumped (fatal s e)"
  by (simp add: dumped_def)

lemma vm_step_refl: "vm_inv s \<Longrightarrow> vm_step s s"
  by (simp add: vm_step_def)

lemma vm_step_trans: "vm_step s1 s2 \<Longrightarrow> vm_step s2 s3 \<Longrightarrow> vm_step s1 s3"
  by (auto simp: vm_step_def intro: prefix_order.order_trans)

lemma vm_step_inv: "vm_step s s' \<Longrightarrow> vm_inv s'"
  by (simp add: vm_step_def)

lemma handler_ok_bindE:
  assumes "handler_ok s m"
    and "\<And>a s1. m = Inr (a, s1) \<Longrightarrow> vm_inv s1 \<Longrightarrow> isRunning s1 \<Longrightarrow> handler_ok s1 (f a s1)"
  shows "handler_ok s (bindE m f)"
proof (cases m)
  case (Inl s')
  with assms(1) show ?thesis by (simp add: handler_ok_def)
next
  case (Inr p)
  then obtain a s1 where m: "m = Inr (a, s1)" by (cases p) auto
  with assms(1) have st: "vm_step s s1" and r: "isRunning s1" by (simp_all add: handler_ok_def)
  then have "handler_ok s1 (f a s1)" using assms(2) [OF m] vm_step_inv by blast
  with st show ?thesis
    by (auto simp: handler_ok_def m split: sum.splits intro: vm_step_trans)
qed

lemma handler_ok_Inr:
  assumes "vm_inv s" and "isRunning s" and "isRunning s'" and "code s' = code s" and "ip s' = ip s"
    and "commandCount s' = commandCount s" and "length (registers s') = length (registers s)"
    and "prefix (out s) (out s')"
  shows "handler_ok s (Inr (a, s'))"
proof -
  have "pending s' = pending s" using assms(4-6) by (simp add: pending_def)
  with assms show ?thesis by (auto simp: handler_ok_def vm_step_def vm_inv_def)
qed

lemma vm_inv_fatal [simp]: "vm_inv s \<Longrightarrow> vm_inv (fatal s e)"
  by (auto simp: vm_inv_def)

lemma vm_inv_execution [simp]: "vm_inv s \<Longrightarrow> vm_inv (execution s)"
  by (auto simp: vm_inv_def)

lemma handler_ok_fatal [simp]: "vm_inv s \<Longrightarrow> handler_ok s (Inl (fatal s e))"
  by (auto simp: handler_ok_def vm_step_def)

lemma handler_ok_execution [simp]: "vm_inv s \<Longrightarrow> handler_ok s (Inl (execution s))"
  by (auto simp: handler_ok_def vm_step_def)

lemma handler_ok_report_pre:
  assumes "vm_inv s" and "handler_ok (report s e) r"
  shows "handler_ok s r"
proof -
  have "vm_step s (report s e)" using assms(1) by (simp add: vm_step_def vm_inv_def)
  with assms(2) show ?thesis
    by (auto simp: handler_ok_def split: sum.splits intro: vm_step_trans)
qed

lemma vm_step_fatal: "vm_step s s1 \<Longrightarrow> vm_step s (fatal s1 e)"
  by (auto simp: vm_step_def)

lemma vm_step_advance:
  assumes "vm_inv s" and "isRunning s" and "pending s \<noteq> []"
  shows "vm_step s (advance s)"
proof -
  have "(if commandCount s = 0 then ip s else ip s + 1) < length (code s)"
    using assms(3) pending_nth(2) [of s "hd (pending s)" "tl (pending s)"] by simp
  with assms(1,2) show ?thesis by (auto simp: vm_step_def vm_inv_def)
qed

lemma pending_nonempty_first:
  assumes "vm_inv s" and "commandCount s = 0"
  shows "pending s \<noteq> []"
  using assms by (auto simp: vm_inv_def pending_def)

lemma vm_step_exhausted:
  assumes "vm_inv s" and "isRunning s" and "pending s = []" and "commandCount s \<noteq> 0"
  shows "vm_step s (fatal (s\<lparr>commandCount := commandCount s + 1\<rparr>) NotEnoughInstructions)"
  using assms by (auto simp: vm_step_def vm_inv_def pending_def)

subsection \<open>The resolvers keep the invariant\<close>

lemma resolver_ok_cases:
  assumes inv: "vm_inv s" "isRunning s"
    and empty: "pending s = [] \<Longrightarrow> commandCount s \<noteq> 0 \<Longrightarrow>
              r = Inl (fatal (s\<lparr>commandCount := commandCount s + 1\<rparr>) NotEnoughInstructions)"
    and next_: "pending s \<noteq> [] \<Longrightarrow> (\<exists>e. r = Inl (fatal (advance s) e)) \<or> (\<exists>a. r = Inr (a, advance s))"
  shows "handler_ok s r"
proof (cases "pending s = []")
  case True
  with inv have c: "commandCount s \<noteq> 0" using pending_nonempty_first by blast
  have "vm_step s (fatal (s\<lparr>commandCount := commandCount s + 1\<rparr>) NotEnoughInstructions)"
    using inv True c by (rule vm_step_exhausted)
  with empty [OF True c] show ?thesis by (simp add: handler_ok_def)
next
  case False
  with inv have st: "vm_step s (advance s)" by (rule vm_step_advance)
  from next_ [OF False] show ?thesis
    using st inv(2) by (auto simp: handler_ok_def vm_step_fatal)
qed

lemma getRegister_ok: "vm_inv s \<Longrightarrow> isRunning s \<Longrightarrow> handler_ok s (getRegister s)"
  by (rule resolver_ok_cases)
     (auto simp: resolvers_exhausted vm_inv_def getRegister_next split: option.split)

lemma getInstruction_ok: "vm_inv s \<Longrightarrow> isRunning s \<Longrightarrow> handler_ok s (getInstruction s)"
  by (rule resolver_ok_cases)
     (auto simp: resolvers_exhausted vm_inv_def getInstruction_next split: option.split)

lemma getNumber_ok: "vm_inv s \<Longrightarrow> isRunning s \<Longrightarrow> handler_ok s (getNumber d s)"
  by (rule resolver_ok_cases)
     (auto simp: resolvers_exhausted vm_inv_def getNumber_next split: option.split)

lemmas resolvers_ok = getRegister_ok getInstruction_ok getNumber_ok

subsection \<open>Every handler keeps the invariant\<close>

lemma getRegister_report_ok:
  assumes "vm_inv s" and "isRunning s"
  shows "handler_ok s (getRegister (report s e))"
proof -
  have "vm_inv (report s e)" using assms(1) by (simp add: vm_inv_def)
  then have "handler_ok (report s e) (getRegister (report s e))"
    using assms(2) by (simp add: getRegister_ok)
  with assms(1) show ?thesis by (rule handler_ok_report_pre)
qed

lemmas handler_intros = handler_ok_bindE resolvers_ok handler_ok_Inr getRegister_report_ok

lemma exec_ADD_ok: "vm_inv s \<Longrightarrow> isRunning s \<Longrightarrow> handler_ok s (exec_ADD d s)"
  unfolding exec_ADD_def Let_def by (auto intro!: handler_intros)

lemma exec_SUB_ok: "vm_inv s \<Longrightarrow> isRunning s \<Longrightarrow> handler_ok s (exec_SUB d s)"
  unfolding exec_SUB_def Let_def by (auto intro!: handler_intros)

lemma exec_MUL_ok: "vm_inv s \<Longrightarrow> isRunning s \<Longrightarrow> handler_ok s (exec_MUL d s)"
  unfolding exec_MUL_def Let_def by (auto intro!: handler_intros)

lemma exec_DIV_ok: "vm_inv s \<Longrightarrow> isRunning s \<Longrightarrow> handler_ok s (exec_DIV d s)"
  unfolding exec_DIV_def Let_def by (auto intro!: handler_intros)

lemma exec_POW_ok: "vm_inv s \<Longrightarrow> isRunning s \<Longrightarrow> handler_ok s (exec_POW d s)"
  unfolding exec_POW_def Let_def by (auto intro!: handler_intros)

lemma exec_SQR_ok: "vm_inv s \<Longrightarrow> isRunning s \<Longrightarrow> handler_ok s (exec_SQR d s)"
  unfolding exec_SQR_def by (auto intro!: handler_intros)

lemma exec_LOG_ok: "vm_inv s \<Longrightarrow> isRunning s \<Longrightarrow> handler_ok s (exec_LOG d s)"
  unfolding exec_LOG_def by (auto intro!: handler_intros)

lemma exec_LON_ok: "vm_inv s \<Longrightarrow> isRunning s \<Longrightarrow> handler_ok s (exec_LON d s)"
  unfolding exec_LON_def by (auto intro!: handler_intros)

lemma exec_EXP_ok: "vm_inv s \<Longrightarrow> isRunning s \<Longrightarrow> handler_ok s (exec_EXP d s)"
  unfolding exec_EXP_def by (auto intro!: handler_intros)

lemma exec_MOV_ok: "vm_inv s \<Longrightarrow> isRunning s \<Longrightarrow> handler_ok s (exec_MOV s)"
  unfolding exec_MOV_def by (auto intro!: handler_intros)

lemma exec_SET_ok: "vm_inv s \<Longrightarrow> isRunning s \<Longrightarrow> handler_ok s (exec_SET s)"
  unfolding exec_SET_def by (auto intro!: handler_intros)

lemma exec_simple_ok:
  assumes "vm_inv s" and "isRunning s"
  shows "handler_ok s (exec_HLT s)" and "handler_ok s (exec_PSH d s)"
    and "handler_ok s (exec_POP s)" and "handler_ok s (exec_PRT s)"
    and "handler_ok s (exec_NOP s)"
  using assms
  by (auto simp: exec_HLT_def exec_PSH_def exec_POP_def exec_PRT_def exec_NOP_def
           intro!: handler_intros)

lemma exec_op_ok: "vm_inv s \<Longrightarrow> isRunning s \<Longrightarrow> handler_ok s (exec_op d opc s)"
  unfolding exec_op_def
  by (simp add: exec_ADD_ok exec_SUB_ok exec_MUL_ok exec_DIV_ok exec_POW_ok exec_SQR_ok
                exec_LOG_ok exec_LON_ok exec_EXP_ok exec_MOV_ok exec_SET_ok exec_simple_ok
                handler_ok_Inr)

end
