(* ===== verification/Run.thy ===== *)
theory Run
  imports Invariant
begin

text \<open>
  The interpreter loop of \<^verbatim>\<open>main()\<close> (lines 894--898):
  \<^verbatim>\<open>while (isRunning) operations(instructionPointer);\<close> started on the loaded token
  vector with the iterator at \<^verbatim>\<open>code.begin()\<close>. It is \<open>while_option\<close>, so a run
  that never stops would be \<open>None\<close>; \<open>run_terminates\<close> below shows that it always stops
  on a non-empty program.
\<close>

definition run :: "'v num_dom \<Rightarrow> string list \<Rightarrow> 'v vm option" where
  "run d prog = while_option isRunning (operations d) (init_vm d prog)"

subsection \<open>One cycle\<close>

lemma getInstruction_Inr:
  assumes "getInstruction s = Inr (n, s1)" and "vm_inv s"
  shows "pending s \<noteq> [] \<and> s1 = advance s"
proof (cases "pending s = []")
  case True
  with assms(2) have "commandCount s \<noteq> 0" using pending_nonempty_first by blast
  with True assms(2) have "getInstruction s =
      Inl (fatal (s\<lparr>commandCount := commandCount s + 1\<rparr>) NotEnoughInstructions)"
    by (simp add: resolvers_exhausted vm_inv_def)
  with assms(1) show ?thesis by simp
next
  case False
  with assms(1) show ?thesis by (simp add: getInstruction_next split: option.splits)
qed

text \<open>
  One fetch-decode-execute cycle keeps the invariant, never moves the cursor back, only
  appends output, and, when the machine is still running afterwards, has consumed at
  least one token: the opcode.
\<close>

lemma operations_step:
  assumes "vm_inv s" and "isRunning s"
  shows "vm_step s (operations d s)"
    and "isRunning (operations d s) \<Longrightarrow> length (pending (operations d s)) < length (pending s)"
proof -
  have h: "handler_ok s (getInstruction s)" using assms by (rule getInstruction_ok)
  have "vm_step s (operations d s) \<and>
        (isRunning (operations d s) \<longrightarrow> length (pending (operations d s)) < length (pending s))"
  proof (cases "getInstruction s")
    case (Inl s')
    with h show ?thesis by (simp add: operations_def handler_ok_def)
  next
    case (Inr p)
    then obtain n s1 where g: "getInstruction s = Inr (n, s1)" by (cases p) auto
    with assms(1) have ne: "pending s \<noteq> []" and s1: "s1 = advance s"
      by (auto dest: getInstruction_Inr)
    from h g have st1: "vm_step s s1" and r1: "isRunning s1" by (simp_all add: handler_ok_def)
    have "handler_ok s1 (exec_op d n s1)"
      using vm_step_inv [OF st1] r1 by (rule exec_op_ok)
    then have st2: "vm_step s1 (operations d s)"
      and run2: "isRunning (operations d s) \<Longrightarrow> length (pending (operations d s)) \<le> length (pending s1)"
      by (auto simp: operations_def g handler_ok_def vm_step_def split: sum.splits)
    have "length (pending s1) < length (pending s)" using ne s1 by simp
    with st1 st2 run2 show ?thesis by (auto intro: vm_step_trans)
  qed
  then show "vm_step s (operations d s)"
    and "isRunning (operations d s) \<Longrightarrow> length (pending (operations d s)) < length (pending s)"
    by blast+
qed

lemma operations_dumped:
  assumes "vm_inv s" and "isRunning s" and "\<not> isRunning (operations d s)"
  shows "dumped (operations d s)"
proof -
  have "handler_ok s (bindE (getInstruction s) (exec_op d))"
    using assms(1,2) by (auto intro!: handler_ok_bindE getInstruction_ok exec_op_ok)
  then show ?thesis using assms(3)
    by (auto simp: operations_def handler_ok_def split: sum.splits)
qed

lemma operations_exhausted:
  assumes "vm_inv s" and "pending s = []"
  shows "operations d s = fatal (s\<lparr>commandCount := commandCount s + 1\<rparr>) NotEnoughInstructions"
proof -
  have "commandCount s \<noteq> 0" using assms pending_nonempty_first by blast
  with assms show ?thesis by (simp add: operations_def resolvers_exhausted vm_inv_def)
qed

lemma vm_inv_init: "prog \<noteq> [] \<Longrightarrow> vm_inv (init_vm d prog)"
  by (simp add: vm_inv_def init_vm_def)

subsection \<open>The loop\<close>

definition run_measure :: "'v vm \<Rightarrow> nat" where
  "run_measure s = length (pending s) + (if isRunning s then 1 else 0)"

lemma run_measure_decreases:
  assumes "vm_inv s" and "isRunning s"
  shows "vm_inv (operations d s) \<and> run_measure (operations d s) < run_measure s"
proof -
  have st: "vm_step s (operations d s)" using assms by (rule operations_step)
  show ?thesis
  proof (cases "isRunning (operations d s)")
    case True
    with operations_step(2) [OF assms] st assms(2) show ?thesis
      by (simp add: run_measure_def vm_step_def)
  next
    case False
    with st assms(2) show ?thesis by (auto simp: run_measure_def vm_step_def)
  qed
qed

lemma run_Some:
  assumes "prog \<noteq> []"
  shows "\<exists>s. run d prog = Some s"
  unfolding run_def
  by (rule measure_while_option_Some [where P = vm_inv and f = run_measure,
        OF run_measure_decreases vm_inv_init [OF assms]])

lemma run_result:
  assumes "run d prog = Some s" and "prog \<noteq> []"
  shows "vm_inv s" and "\<not> isRunning s" and "code s = prog" and "dumped s"
proof -
  let ?P = "\<lambda>t. vm_inv t \<and> code t = prog \<and> (\<not> isRunning t \<longrightarrow> dumped t)"
  have step: "?P (operations d t)" if "?P t" and "isRunning t" for t
    using that operations_step(1) [of t d] operations_dumped [of t d] by (auto simp: vm_step_def)
  have init: "?P (init_vm d prog)"
    using vm_inv_init [OF assms(2)] by (simp add: init_vm_def)
  have r: "while_option isRunning (operations d) (init_vm d prog) = Some s"
    using assms(1) by (simp add: run_def)
  have p: "?P s" by (rule while_option_rule [where P = ?P, OF step r init])
  show h: "\<not> isRunning s" using r by (rule while_option_stop)
  from p h show "vm_inv s" and "code s = prog" and "dumped s" by simp_all
qed

text \<open>
  \<open>run_eval_simps\<close> unfolds every operation of a cycle, for evaluating a run of a concrete
  program by \<open>simp\<close>.
\<close>

lemmas run_eval_simps =
  run_def init_vm_def operations_def getInstruction_def getRegister_def getNumber_def
  pointerIncrement_def exec_op_def instructionSet_def registerSet_def stod_simps
  exec_HLT_def exec_PSH_def exec_POP_def exec_ADD_def exec_SUB_def exec_MUL_def exec_DIV_def
  exec_POW_def exec_SQR_def exec_LOG_def exec_LON_def exec_EXP_def exec_MOV_def exec_SET_def
  exec_PRT_def exec_NOP_def fatal_def execution_def report_def set_back_def swap_at_def
  while_option_unfold Let_def

text \<open>
  \<open>cycle_simps\<close> computes one cycle from the pending tokens, for reasoning about an
  instruction over an arbitrary state.
\<close>

lemmas cycle_simps =
  operations_def getInstruction_next getRegister_next getNumber_next exec_op_def
  instructionSet_def

subsection \<open>Properties of the loop\<close>

text \<open>
  C1. The interpreter loop of \<^verbatim>\<open>main()\<close> stops on every non-empty program, for any
  numeric domain: the run returns a final state, and that state is halted.
\<close>

theorem run_terminates:
  assumes "prog \<noteq> []"
  shows "\<exists>s. run d prog = Some s \<and> \<not> isRunning s"
proof -
  obtain s where r: "run d prog = Some s" using run_Some [OF assms] by blast
  then have "\<not> isRunning s" using assms by (rule run_result(2))
  with r show ?thesis by blast
qed

theorem run_terminates_witness: "\<exists>s. run (real_dom) [''NOP''] = Some s \<and> \<not> isRunning s"
  by (rule run_terminates) simp

text \<open>
  C2. One fetch-decode-execute cycle from a running well-formed state keeps the machine
  invariant (cursor inside the program, seven registers, instruction counter tied to the
  cursor), never changes the program, never moves the cursor back and only appends output.
\<close>

theorem operations_preserves_inv:
  assumes "vm_inv s" and "isRunning s"
  shows "vm_inv (operations d s) \<and> code (operations d s) = code s \<and>
         ip s \<le> ip (operations d s) \<and> prefix (out s) (out (operations d s))"
  using operations_step(1) [OF assms, of d] by (simp add: vm_step_def)

theorem operations_preserves_inv_witness:
  "vm_inv (operations real_dom (init_vm real_dom [''PSH'', ''1'', ''NOP'']))"
  using operations_preserves_inv [of "init_vm real_dom [''PSH'', ''1'', ''NOP'']" real_dom]
  by (simp add: vm_inv_init)

text \<open>
  C3. A cycle after which the machine is still running has consumed at least one token:
  the pending part of the token stream is strictly shorter.
\<close>

theorem operations_consumes:
  assumes "vm_inv s" and "isRunning s" and "isRunning (operations d s)"
  shows "length (pending (operations d s)) < length (pending s)"
  using operations_step(2) [OF assms(1,2) assms(3)] .

theorem operations_consumes_witness:
  "length (pending (operations real_dom (init_vm real_dom [''NOP'', ''NOP'']))) < 2"
proof -
  let ?s = "init_vm real_dom [''NOP'', ''NOP'']"
  have r: "isRunning (operations real_dom ?s)"
    by (simp add: operations_def getInstruction_next exec_op_def exec_NOP_def instructionSet_def)
  show ?thesis
    using operations_consumes [of ?s real_dom] r by (simp add: vm_inv_init)
qed

text \<open>
  C4. \<^verbatim>\<open>commandCount\<close> never exceeds the number of tokens plus one, the value it reaches
  when the "not enough instructions" error increments it past the last token; the cursor
  stays on a token of the program. So the C++ \<^verbatim>\<open>int\<close> counter cannot overflow on a
  program of fewer than 2147483647 tokens.
\<close>

theorem command_count_bound:
  assumes "run d prog = Some s" and "prog \<noteq> []"
  shows "commandCount s \<le> length prog + 1 \<and> ip s < length prog"
proof -
  have "vm_inv s" and "code s = prog" using run_result [OF assms] by simp_all
  then show ?thesis by (auto simp: vm_inv_def)
qed

theorem command_count_bound_witness:
  "commandCount (the (run real_dom [''NOP''])) \<le> 2 \<and> ip (the (run real_dom [''NOP''])) < 1"
proof -
  obtain s where r: "run real_dom [''NOP''] = Some s" using run_Some [of "[''NOP'']"] by auto
  show ?thesis using command_count_bound [OF r] r by simp
qed

text \<open>
  C28. Liveness of the halt: on every non-empty program the loop reaches a halted state,
  and the last line it printed is the final dump of that state's stack and registers,
  whether the halt came from HLT or from a fatal error.
\<close>

theorem run_ends_with_dump:
  assumes "prog \<noteq> []"
  shows "\<exists>s. run d prog = Some s \<and> \<not> isRunning s \<and> dumped s"
proof -
  obtain s where r: "run d prog = Some s" using run_Some [OF assms] by blast
  with run_result(2,4) [OF r assms] show ?thesis by blast
qed

theorem run_ends_with_dump_witness:
  "\<exists>s. run real_dom [''NOP''] = Some s \<and> \<not> isRunning s \<and> dumped s"
  using run_ends_with_dump [of "[''NOP'']" real_dom] by simp

end
