(* ===== verification/Semantics.thy ===== *)
theory Semantics
  imports Run
begin

text \<open>
  What one instruction does, stated over the token stream: a state whose pending tokens
  start with an instruction and its operands is run through \<open>operations\<close>, and the
  result is described by its stack, registers, output and running flag. These are the
  per-opcode contracts of section 4 of the spec, proved of the translation of
  \<^verbatim>\<open>operations()\<close> with the unfolding equations \<open>cycle_simps\<close> of one cycle.
\<close>

subsection \<open>Stack round trip\<close>

text \<open>
  C6. PSH followed by POP round-trips the pushed value: the stack is as before, the only output is the popped value, and the machine keeps running.
\<close>

lemma psh_pop_roundtrip:
  assumes "pending s = ''PSH'' # t # ''POP'' # rest" and "n_stod d t = Some v"
  shows "stack (operations d (operations d s)) = stack s \<and>
         out (operations d (operations d s)) = out s @ [Popped v] \<and>
         isRunning (operations d (operations d s)) = isRunning s \<and>
         pending (operations d (operations d s)) = rest"
  using assms by (simp add: cycle_simps exec_PSH_def exec_POP_def)

subsection \<open>Register exchange and copy\<close>

text \<open>
  C7. MOV is self-inverse: two MOV instructions with the same distinct operands (a named register, or S over a non-empty stack) restore the registers and the stack and print nothing.
\<close>

lemma mov_self_inverse:
  assumes "pending s = ''MOV'' # x # y # ''MOV'' # x # y # rest"
    and "map_of registerSet x = Some i" and "map_of registerSet y = Some j" and "i \<noteq> j"
    and "i = 0 \<or> j = 0 \<Longrightarrow> stack s \<noteq> []"
    and "length (registers s) = length registerSet"
  shows "registers (operations d (operations d s)) = registers s \<and>
         stack (operations d (operations d s)) = stack s \<and>
         out (operations d (operations d s)) = out s \<and>
         isRunning (operations d (operations d s)) = isRunning s"
  using assms registerSet_range [OF assms(2)] registerSet_range [OF assms(3)]
  by (auto simp: cycle_simps exec_MOV_def registerSet_def nth_list_update)

text \<open>
  C8. SET is idempotent: a second SET with the same operands leaves the registers and the stack as the first one left them.
\<close>

lemma set_idempotent:
  assumes "pending s = ''SET'' # x # y # ''SET'' # x # y # rest"
    and "map_of registerSet x = Some i" and "map_of registerSet y = Some j" and "i \<noteq> j"
    and "i = 0 \<or> j = 0 \<Longrightarrow> stack s \<noteq> []"
    and "length (registers s) = length registerSet"
  shows "registers (operations d (operations d s)) = registers (operations d s) \<and>
         stack (operations d (operations d s)) = stack (operations d s) \<and>
         out (operations d (operations d s)) = out s \<and>
         isRunning (operations d (operations d s)) = isRunning s"
  using assms registerSet_range [OF assms(2)] registerSet_range [OF assms(3)]
  by (auto simp: cycle_simps exec_SET_def registerSet_def nth_list_update)

text \<open>
  C22. SET with two distinct named registers copies the source into the destination: only the destination changes, the stack and output are untouched, and the machine keeps running.
\<close>

lemma set_register_copy:
  assumes "pending s = ''SET'' # x # y # rest"
    and "map_of registerSet x = Some i" and "map_of registerSet y = Some j"
    and "0 < i" and "0 < j" and "i \<noteq> j"
  shows "registers (operations d s) = (registers s)[i := registers s ! j] \<and>
         stack (operations d s) = stack s \<and> out (operations d s) = out s \<and>
         isRunning (operations d s) = isRunning s \<and> pending (operations d s) = rest"
  using assms registerSet_range [OF assms(2)] registerSet_range [OF assms(3)]
  by (simp add: cycle_simps exec_SET_def)

subsection \<open>Binary arithmetic\<close>

text \<open>
  C9. SUB S pops the top value a and replaces the new top b by a - b; the popped value is also left in register slot 0, the scratch slot the stack modes of the binary operations write.
\<close>

lemma sub_stack_mode:
  assumes "pending s = ''SUB'' # ''S'' # rest" and "stack s = st @ [b, a]"
    and "length (registers s) = length registerSet"
  shows "stack (operations d s) = st @ [n_sub d a b] \<and>
         registers (operations d s) = (registers s)[0 := a] \<and>
         out (operations d s) = out s \<and>
         isRunning (operations d s) = isRunning s \<and> pending (operations d s) = rest"
  using assms by (simp add: cycle_simps exec_SUB_def registerSet_def Let_def)

text \<open>
  C10. SUB X Y Z with named registers X different from Y stores registers[X] - registers[Y] into Z and changes nothing else.
\<close>

lemma sub_register_mode:
  assumes "pending s = ''SUB'' # x # y # z # rest"
    and "map_of registerSet x = Some i" and "map_of registerSet y = Some j"
    and "map_of registerSet z = Some k" and "0 < i" and "0 < j" and "0 < k" and "i \<noteq> j"
  shows "registers (operations d s) =
           (registers s)[k := n_sub d (registers s ! i) (registers s ! j)] \<and>
         stack (operations d s) = stack s \<and> out (operations d s) = out s \<and>
         isRunning (operations d s) = isRunning s \<and> pending (operations d s) = rest"
  using assms registerSet_range [OF assms(2)] registerSet_range [OF assms(3)]
    registerSet_range [OF assms(4)]
  by (simp add: cycle_simps exec_SUB_def)

text \<open>
  C5. PSH a, PSH b, ADD S over any state pushes one value, the sum of b and a computed as the code does (the popped top b, staged in register slot 0, plus the value below it): the rest of the stack is untouched, slot 0 keeps b, nothing is printed and the machine keeps running. This is the spec's first scenario, stated for every starting state.
\<close>

lemma push_push_add_stack:
  assumes "pending s = ''PSH'' # x # ''PSH'' # y # ''ADD'' # ''S'' # rest"
    and "n_stod d x = Some a" and "n_stod d y = Some b" and "registers s \<noteq> []"
  shows "stack (operations d (operations d (operations d s))) = stack s @ [n_add d b a] \<and>
         registers (operations d (operations d (operations d s))) = (registers s)[0 := b] \<and>
         out (operations d (operations d (operations d s))) = out s \<and>
         isRunning (operations d (operations d (operations d s))) = isRunning s \<and>
         pending (operations d (operations d (operations d s))) = rest"
  using assms by (simp add: cycle_simps exec_PSH_def exec_ADD_def registerSet_def set_back_def Let_def)

text \<open>
  C13. A binary operation in stack mode on fewer than two values is a recoverable error: nothing changes, one diagnostic is printed, the machine keeps running.
\<close>

lemma arith_short_stack:
  assumes "pending s = opc # ''S'' # rest" and "opc \<in> {''ADD'', ''SUB'', ''MUL'', ''DIV'', ''POW''}"
    and "length (stack s) < 2"
  shows "stack (operations d s) = stack s \<and> registers (operations d s) = registers s \<and>
         out (operations d s) = out s @ [Error (commandCount s + 2) StackNotEnoughValues] \<and>
         isRunning (operations d s) = isRunning s \<and> pending (operations d s) = rest"
  using assms(2)
proof (elim insertE emptyE)
  assume "opc = ''ADD''"
  with assms(1,3) show ?thesis by (simp add: cycle_simps registerSet_def exec_ADD_def)
next
  assume "opc = ''SUB''"
  with assms(1,3) show ?thesis by (simp add: cycle_simps registerSet_def exec_SUB_def)
next
  assume "opc = ''MUL''"
  with assms(1,3) show ?thesis by (simp add: cycle_simps registerSet_def exec_MUL_def)
next
  assume "opc = ''DIV''"
  with assms(1,3) show ?thesis by (simp add: cycle_simps registerSet_def exec_DIV_def)
next
  assume "opc = ''POW''"
  with assms(1,3) show ?thesis by (simp add: cycle_simps registerSet_def exec_POW_def)
qed

subsection \<open>Division guard\<close>

text \<open>
  C11. DIV X Y Z in register mode with a zero operand is a recoverable error: no register or stack value changes, exactly one diagnostic is printed, and the destination token Z is still consumed. This holds for any second and destination register, S or the same register as X included.
\<close>

lemma div_zero_register:
  assumes "pending s = ''DIV'' # x # y # z # rest"
    and "map_of registerSet x = Some i" and "map_of registerSet y = Some j"
    and "map_of registerSet z = Some k" and "0 < i"
    and "n_is_zero d (registers s ! i) \<or> n_is_zero d (registers s ! j)"
  shows "registers (operations d s) = registers s \<and> stack (operations d s) = stack s \<and>
         out (operations d s) = out s @ [Error (commandCount s + 3) DivideByZero] \<and>
         isRunning (operations d s) = isRunning s \<and> pending (operations d s) = rest"
  using assms registerSet_range [OF assms(2)]
  by (auto simp: cycle_simps exec_DIV_def)

text \<open>
  C12. DIV S with a zero among the two top values is a recoverable error: the stack and registers are untouched and exactly one diagnostic is printed.
\<close>

lemma div_zero_stack:
  assumes "pending s = ''DIV'' # ''S'' # rest" and "stack s = st @ [b, a]"
    and "n_is_zero d a \<or> n_is_zero d b"
  shows "registers (operations d s) = registers s \<and> stack (operations d s) = stack s \<and>
         out (operations d s) = out s @ [Error (commandCount s + 2) DivideByZero] \<and>
         isRunning (operations d s) = isRunning s \<and> pending (operations d s) = rest"
  using assms by (auto simp: cycle_simps exec_DIV_def registerSet_def)

text \<open>
  C19. DIV X Y Z as the last instruction of a running machine, with a zero in X or Y: the division by zero is reported at count c + 3 (c the count before the DIV, so the count of the destination Z), the machine keeps running, the next fetch finds no token and fails with "not enough instructions" at count c + 5, and the final dump follows; the stack and the registers are never changed.
\<close>

lemma div_zero_then_exhausted:
  assumes "vm_inv s" and "isRunning s" and "pending s = [''DIV'', x, y, z]"
    and "map_of registerSet x = Some i" and "map_of registerSet y = Some j"
    and "map_of registerSet z = Some k" and "0 < i"
    and "n_is_zero d (registers s ! i) \<or> n_is_zero d (registers s ! j)"
  shows "\<not> isRunning (operations d (operations d s)) \<and>
         registers (operations d (operations d s)) = registers s \<and>
         stack (operations d (operations d s)) = stack s \<and>
         out (operations d (operations d s)) =
           out s @ [Error (commandCount s + 3) DivideByZero,
                    Error (commandCount s + 5) NotEnoughInstructions,
                    Finished (rev (stack s)) (drop 1 (registers s))]"
proof -
  let ?s1 = "operations d s"
  have s1: "registers ?s1 = registers s \<and> stack ?s1 = stack s \<and>
            out ?s1 = out s @ [Error (commandCount s + 3) DivideByZero] \<and>
            isRunning ?s1 \<and> pending ?s1 = [] \<and> commandCount ?s1 = commandCount s + 4"
    using assms registerSet_range [OF assms(4)] by (auto simp: cycle_simps exec_DIV_def)
  have "vm_inv ?s1" using operations_step(1) [OF assms(1,2)] by (rule vm_step_inv)
  then have "operations d ?s1 = fatal (?s1\<lparr>commandCount := commandCount ?s1 + 1\<rparr>) NotEnoughInstructions"
    using s1 by (simp add: operations_exhausted)
  with s1 show ?thesis by simp
qed


subsection \<open>Unary operations\<close>

text \<open>
  C15. SQR S over a non-negative top of stack replaces it with its square root; nothing else changes.
\<close>

lemma sqr_stack_mode:
  assumes "pending s = ''SQR'' # ''S'' # rest" and "stack s \<noteq> []"
    and "n_nonneg d (last (stack s))"
  shows "stack (operations d s) = butlast (stack s) @ [n_sqrt d (last (stack s))] \<and>
         registers (operations d s) = registers s \<and> out (operations d s) = out s \<and>
         isRunning (operations d s) = isRunning s \<and> pending (operations d s) = rest"
  using assms by (simp add: cycle_simps exec_SQR_def registerSet_def set_back_def)


text \<open>
  C14. SQR on a register holding a negative value leaves it unchanged, prints exactly one diagnostic naming the value, and continues.
\<close>

lemma sqr_negative_register:
  assumes "pending s = ''SQR'' # x # rest" and "map_of registerSet x = Some i" and "0 < i"
    and "\<not> n_nonneg d (registers s ! i)"
  shows "registers (operations d s) = registers s \<and> stack (operations d s) = stack s \<and>
         out (operations d s) =
           out s @ [Error (commandCount s + 2) (SqrtOfNegative (registers s ! i))] \<and>
         isRunning (operations d s) = isRunning s \<and> pending (operations d s) = rest"
  using assms registerSet_range [OF assms(2)]
  by (simp add: cycle_simps exec_SQR_def)

subsection \<open>Halting\<close>

text \<open>
  C16. HLT halts at once: the machine stops, the stack and registers are kept, and the final dump (stack top to bottom, registers A to F) is the only output.
\<close>

lemma hlt_halts:
  assumes "pending s = ''HLT'' # rest"
  shows "\<not> isRunning (operations d s) \<and> stack (operations d s) = stack s \<and>
         registers (operations d s) = registers s \<and>
         out (operations d s) = out s @ [Finished (rev (stack s)) (drop 1 (registers s))]"
  using assms by (simp add: cycle_simps exec_HLT_def)

text \<open>
  C17. An unknown mnemonic is fatal: one "instruction unknown" diagnostic, then the final dump, and the machine stops.
\<close>

lemma unknown_instruction_fatal:
  assumes "pending s = t # rest" and "map_of instructionSet t = None"
  shows "\<not> isRunning (operations d s) \<and> stack (operations d s) = stack s \<and>
         registers (operations d s) = registers s \<and>
         out (operations d s) = out s @ [Error (commandCount s + 1) (InstructionUnknown t),
                                         Finished (rev (stack s)) (drop 1 (registers s))]"
  using assms by (simp add: operations_def getInstruction_next)

text \<open>
  C18. MOV S over an empty stack is fatal, unlike the arithmetic operations: the second operand is not read, one "stack is empty" diagnostic and the final dump are printed, and the machine stops.
\<close>

lemma mov_empty_stack_fatal:
  assumes "pending s = ''MOV'' # ''S'' # rest" and "stack s = []"
  shows "\<not> isRunning (operations d s) \<and> registers (operations d s) = registers s \<and>
         out (operations d s) = out s @ [Error (commandCount s + 2) StackIsEmpty,
                                         Finished [] (drop 1 (registers s))] \<and>
         pending (operations d s) = rest"
  using assms by (simp add: cycle_simps exec_MOV_def registerSet_def)

text \<open>
  An instruction whose first operand is missing: the operand resolvers report
  "not enough instructions" at the count of the missing token.
\<close>

lemma first_operand_exhausted:
  assumes "vm_inv s" and "pending s = [m]"
  shows "getRegister (advance s) =
           Inl (fatal ((advance s)\<lparr>commandCount := commandCount s + 2\<rparr>) NotEnoughInstructions)"
    and "getNumber d (advance s) =
           Inl (fatal ((advance s)\<lparr>commandCount := commandCount s + 2\<rparr>) NotEnoughInstructions)"
proof -
  have ip: "ip (advance s) < length (code (advance s))"
    using pending_nth(2) [of s m "[]"] assms(2) by simp
  have p: "pending (advance s) = []" using assms(2) by simp
  have c: "commandCount (advance s) \<noteq> 0" by simp
  note r = resolvers_exhausted [OF p c ip]
  show "getRegister (advance s) =
           Inl (fatal ((advance s)\<lparr>commandCount := commandCount s + 2\<rparr>) NotEnoughInstructions)"
    using r(1) by simp
  show "getNumber d (advance s) =
           Inl (fatal ((advance s)\<lparr>commandCount := commandCount s + 2\<rparr>) NotEnoughInstructions)"
    using r(3) by simp
qed

text \<open>
  C20. A program that ends right after an opcode that needs an operand halts with "not enough instructions" at the operand's count, followed by the final dump; stack and registers are kept.
\<close>

lemma operand_exhausted_fatal:
  assumes "vm_inv s" and "pending s = [m]"
    and "m \<in> {''PSH'', ''ADD'', ''SUB'', ''MUL'', ''DIV'', ''POW'', ''SQR'', ''LOG'', ''LON'', ''EXP'', ''MOV'', ''SET''}"
  shows "\<not> isRunning (operations d s) \<and> stack (operations d s) = stack s \<and>
         registers (operations d s) = registers s \<and>
         out (operations d s) = out s @ [Error (commandCount s + 2) NotEnoughInstructions,
                                         Finished (rev (stack s)) (drop 1 (registers s))]"
proof -
  note e = first_operand_exhausted [OF assms(1,2)]
  have g: "getInstruction s = (case map_of instructionSet m of
              None \<Rightarrow> Inl (fatal (advance s) (InstructionUnknown m)) | Some n \<Rightarrow> Inr (n, advance s))"
    using getInstruction_pending [of s m "[]"] assms(2) by simp
  from assms(3) show ?thesis
  proof (elim insertE emptyE)
    assume "m = ''PSH''" with g e show ?thesis by (simp add: operations_def instructionSet_def exec_op_def exec_PSH_def)
  next
    assume "m = ''ADD''" with g e show ?thesis by (simp add: operations_def instructionSet_def exec_op_def exec_ADD_def)
  next
    assume "m = ''SUB''" with g e show ?thesis by (simp add: operations_def instructionSet_def exec_op_def exec_SUB_def)
  next
    assume "m = ''MUL''" with g e show ?thesis by (simp add: operations_def instructionSet_def exec_op_def exec_MUL_def)
  next
    assume "m = ''DIV''" with g e show ?thesis by (simp add: operations_def instructionSet_def exec_op_def exec_DIV_def)
  next
    assume "m = ''POW''" with g e show ?thesis by (simp add: operations_def instructionSet_def exec_op_def exec_POW_def)
  next
    assume "m = ''SQR''" with g e show ?thesis by (simp add: operations_def instructionSet_def exec_op_def exec_SQR_def)
  next
    assume "m = ''LOG''" with g e show ?thesis by (simp add: operations_def instructionSet_def exec_op_def exec_LOG_def)
  next
    assume "m = ''LON''" with g e show ?thesis by (simp add: operations_def instructionSet_def exec_op_def exec_LON_def)
  next
    assume "m = ''EXP''" with g e show ?thesis by (simp add: operations_def instructionSet_def exec_op_def exec_EXP_def)
  next
    assume "m = ''MOV''" with g e show ?thesis by (simp add: operations_def instructionSet_def exec_op_def exec_MOV_def)
  next
    assume "m = ''SET''" with g e show ?thesis by (simp add: operations_def instructionSet_def exec_op_def exec_SET_def)
  qed
qed


subsection \<open>The contracts at concrete inputs\<close>

theorem psh_pop_roundtrip_witness:
  "stack (operations real_dom (operations real_dom (init_vm real_dom [''PSH'', ''7'', ''POP'']))) = [] \<and>
   out (operations real_dom (operations real_dom (init_vm real_dom [''PSH'', ''7'', ''POP'']))) =
     [Popped 7]"
  using psh_pop_roundtrip [of "init_vm real_dom [''PSH'', ''7'', ''POP'']" "''7''" "[]" real_dom 7]
  by (simp add: stod_simps)

theorem mov_self_inverse_witness:
  "registers (operations real_dom (operations real_dom
     ((init_vm real_dom [''MOV'', ''S'', ''A'', ''MOV'', ''S'', ''A''])\<lparr>stack := [4]\<rparr>))) =
   replicate 7 0 \<and>
   stack (operations real_dom (operations real_dom
     ((init_vm real_dom [''MOV'', ''S'', ''A'', ''MOV'', ''S'', ''A''])\<lparr>stack := [4]\<rparr>))) = [4]"
  using mov_self_inverse [of "(init_vm real_dom [''MOV'', ''S'', ''A'', ''MOV'', ''S'', ''A''])\<lparr>stack := [4]\<rparr>"
      "''S''" "''A''" "[]" 0 1 real_dom]
  by (simp add: registerSet_def)

theorem set_idempotent_witness:
  "registers (operations real_dom (operations real_dom
     ((init_vm real_dom [''SET'', ''A'', ''S'', ''SET'', ''A'', ''S''])\<lparr>stack := [3]\<rparr>))) =
   registers (operations real_dom
     ((init_vm real_dom [''SET'', ''A'', ''S'', ''SET'', ''A'', ''S''])\<lparr>stack := [3]\<rparr>))"
  using set_idempotent [of "(init_vm real_dom [''SET'', ''A'', ''S'', ''SET'', ''A'', ''S''])\<lparr>stack := [3]\<rparr>"
      "''A''" "''S''" "[]" 1 0 real_dom]
  by (simp add: registerSet_def)

theorem sub_stack_mode_witness:
  "stack (operations real_dom ((init_vm real_dom [''SUB'', ''S''])\<lparr>stack := [2, 7]\<rparr>)) = [5] \<and>
   registers (operations real_dom ((init_vm real_dom [''SUB'', ''S''])\<lparr>stack := [2, 7]\<rparr>)) =
     [7, 0, 0, 0, 0, 0, 0]"
  using sub_stack_mode [of "(init_vm real_dom [''SUB'', ''S''])\<lparr>stack := [2, 7]\<rparr>" "[]" "[]" 2 7 real_dom]
  by (simp add: registerSet_def eval_nat_numeral)

theorem sub_register_mode_witness:
  "registers (operations real_dom
     ((init_vm real_dom [''SUB'', ''A'', ''B'', ''C''])\<lparr>registers := [0, 9, 4, 0, 0, 0, 0]\<rparr>)) =
   [0, 9, 4, 5, 0, 0, 0]"
  using sub_register_mode
      [of "(init_vm real_dom [''SUB'', ''A'', ''B'', ''C''])\<lparr>registers := [0, 9, 4, 0, 0, 0, 0]\<rparr>"
          "''A''" "''B''" "''C''" "[]" 1 2 3 real_dom]
  by (simp add: registerSet_def)

theorem div_zero_register_witness:
  "registers (operations real_dom (init_vm real_dom [''DIV'', ''A'', ''A'', ''S''])) = replicate 7 0 \<and>
   out (operations real_dom (init_vm real_dom [''DIV'', ''A'', ''A'', ''S''])) = [Error 3 DivideByZero] \<and>
   isRunning (operations real_dom (init_vm real_dom [''DIV'', ''A'', ''A'', ''S'']))"
  using div_zero_register [of "init_vm real_dom [''DIV'', ''A'', ''A'', ''S'']" "''A''" "''A''" "''S''"
      "[]" 1 1 0 real_dom]
  by (simp add: registerSet_def)

theorem div_zero_stack_witness:
  "stack (operations real_dom ((init_vm real_dom [''DIV'', ''S''])\<lparr>stack := [0, 5]\<rparr>)) = [0, 5] \<and>
   out (operations real_dom ((init_vm real_dom [''DIV'', ''S''])\<lparr>stack := [0, 5]\<rparr>)) =
     [Error 2 DivideByZero]"
  using div_zero_stack [of "(init_vm real_dom [''DIV'', ''S''])\<lparr>stack := [0, 5]\<rparr>" "[]" "[]" 0 5 real_dom]
  by simp

theorem arith_short_stack_witness:
  "out (operations real_dom ((init_vm real_dom [''POW'', ''S''])\<lparr>stack := [2]\<rparr>)) =
     [Error 2 StackNotEnoughValues] \<and>
   isRunning (operations real_dom ((init_vm real_dom [''POW'', ''S''])\<lparr>stack := [2]\<rparr>))"
  using arith_short_stack [of "(init_vm real_dom [''POW'', ''S''])\<lparr>stack := [2]\<rparr>" "''POW''" "[]" real_dom]
  by simp

theorem sqr_negative_register_witness:
  "out (operations real_dom
     ((init_vm real_dom [''SQR'', ''B''])\<lparr>registers := [0, 0, -4, 0, 0, 0, 0]\<rparr>)) =
   [Error 2 (SqrtOfNegative (-4))]"
  using sqr_negative_register
      [of "(init_vm real_dom [''SQR'', ''B''])\<lparr>registers := [0, 0, -4, 0, 0, 0, 0]\<rparr>" "''B''" "[]" 2 real_dom]
  by (simp add: registerSet_def)

theorem hlt_halts_witness:
  "\<not> isRunning (operations real_dom (init_vm real_dom [''HLT''])) \<and>
   out (operations real_dom (init_vm real_dom [''HLT''])) = [Finished [] [0, 0, 0, 0, 0, 0]]"
  using hlt_halts [of "init_vm real_dom [''HLT'']" "[]" real_dom] by (simp add: eval_nat_numeral)

theorem unknown_instruction_fatal_witness:
  "out (operations real_dom (init_vm real_dom [''JMP'', ''A''])) =
   [Error 1 (InstructionUnknown ''JMP''), Finished [] [0, 0, 0, 0, 0, 0]]"
  using unknown_instruction_fatal [of "init_vm real_dom [''JMP'', ''A'']" "''JMP''" "[''A'']" real_dom]
  by (simp add: instructionSet_def eval_nat_numeral)

theorem mov_empty_stack_fatal_witness:
  "\<not> isRunning (operations real_dom (init_vm real_dom [''MOV'', ''S'', ''A''])) \<and>
   out (operations real_dom (init_vm real_dom [''MOV'', ''S'', ''A''])) =
   [Error 2 StackIsEmpty, Finished [] [0, 0, 0, 0, 0, 0]]"
  using mov_empty_stack_fatal [of "init_vm real_dom [''MOV'', ''S'', ''A'']" "[''A'']" real_dom]
  by (simp add: eval_nat_numeral)


theorem push_push_add_stack_witness:
  "stack (operations real_dom (operations real_dom (operations real_dom
     (init_vm real_dom [''PSH'', ''5'', ''PSH'', ''3'', ''ADD'', ''S''])))) = [8] \<and>
   registers (operations real_dom (operations real_dom (operations real_dom
     (init_vm real_dom [''PSH'', ''5'', ''PSH'', ''3'', ''ADD'', ''S''])))) = [3, 0, 0, 0, 0, 0, 0]"
  using push_push_add_stack [of "init_vm real_dom [''PSH'', ''5'', ''PSH'', ''3'', ''ADD'', ''S'']"
      "''5''" "''3''" "[]" real_dom 5 3]
  by (simp add: stod_simps eval_nat_numeral)

theorem sqr_stack_mode_witness:
  "stack (operations real_dom ((init_vm real_dom [''SQR'', ''S''])\<lparr>stack := [4]\<rparr>)) = [2]"
  using sqr_stack_mode [of "(init_vm real_dom [''SQR'', ''S''])\<lparr>stack := [4]\<rparr>" "[]" real_dom]
  by simp

theorem set_register_copy_witness:
  "registers (operations real_dom
     ((init_vm real_dom [''SET'', ''A'', ''B''])\<lparr>registers := [0, 1, 2, 0, 0, 0, 0]\<rparr>)) =
   [0, 2, 2, 0, 0, 0, 0]"
  using set_register_copy
      [of "(init_vm real_dom [''SET'', ''A'', ''B''])\<lparr>registers := [0, 1, 2, 0, 0, 0, 0]\<rparr>"
          "''A''" "''B''" "[]" 1 2 real_dom]
  by (simp add: registerSet_def)

theorem div_zero_then_exhausted_witness:
  "out (operations real_dom (operations real_dom (init_vm real_dom [''DIV'', ''A'', ''B'', ''C'']))) =
   [Error 3 DivideByZero, Error 5 NotEnoughInstructions, Finished [] [0, 0, 0, 0, 0, 0]]"
  using div_zero_then_exhausted [of "init_vm real_dom [''DIV'', ''A'', ''B'', ''C'']" "''A''" "''B''" "''C''"
      1 2 3 real_dom] vm_inv_init [of "[''DIV'', ''A'', ''B'', ''C'']" real_dom]
  by (simp add: registerSet_def eval_nat_numeral)

theorem operand_exhausted_fatal_witness:
  "\<not> isRunning (operations real_dom (init_vm real_dom [''PSH''])) \<and>
   out (operations real_dom (init_vm real_dom [''PSH''])) =
     [Error 2 NotEnoughInstructions, Finished [] [0, 0, 0, 0, 0, 0]]"
  using operand_exhausted_fatal [of "init_vm real_dom [''PSH'']" "''PSH''" real_dom]
    vm_inv_init [of "[''PSH'']" real_dom]
  by (simp add: eval_nat_numeral)

end
