(* ===== verification/Refactor.thy ===== *)
theory Refactor
  imports Executor
begin

text \<open>
  The redesign proposed in section 9 of the spec, as a reference semantics: register
  operands are a tagged choice \<open>operand\<close> (the stack, or a named register A--F) instead of
  a raw index, and the four near-identical blocks ADD, SUB, MUL and POW are one handler
  \<open>binop_ref\<close> parameterised by the operator. \<open>div_ref\<close> is DIV as section 4.2 of the
  spec describes it: operand validation first, then the zero guard, and the destination
  token consumed in the skipped case.

  The theorems below show that the four C++ blocks are exactly \<open>binop_ref\<close> with their
  operator (so the copy-pasted blocks agree with each other), and that the C++ DIV agrees
  with \<open>div_ref\<close> on valid operands but not on invalid ones.
\<close>

datatype operand = Stk | Named nat

definition operand_of :: "nat \<Rightarrow> operand option" where
  "operand_of r = (if r = 0 then Some Stk else if r \<le> 6 then Some (Named r) else None)"

definition stack_binop :: "('v \<Rightarrow> 'v \<Rightarrow> 'v) \<Rightarrow> 'v vm \<Rightarrow> (unit, 'v vm) exec" where
  "stack_binop f s =
     (case rev (stack s) of
        a # b # rest \<Rightarrow>
          Inr ((), s\<lparr>registers := (registers s)[0 := a], stack := rev rest @ [f a b]\<rparr>)
      | _ \<Rightarrow> Inr ((), report s StackNotEnoughValues))"

definition binop_ref :: "('v \<Rightarrow> 'v \<Rightarrow> 'v) \<Rightarrow> 'v vm \<Rightarrow> (unit, 'v vm) exec" where
  "binop_ref f s =
     bindE (getRegister s) (\<lambda>r1 s1.
       case operand_of r1 of
         None \<Rightarrow> Inl (fatal s1 RegisterIncorrect)
       | Some Stk \<Rightarrow> stack_binop f s1
       | Some (Named a) \<Rightarrow>
           bindE (getRegister s1) (\<lambda>r2 s2.
             case operand_of r2 of
               Some (Named b) \<Rightarrow>
                 if a = b then Inl (fatal s2 RegisterIncorrect)
                 else bindE (getRegister s2) (\<lambda>r3 s3.
                   case operand_of r3 of
                     Some (Named c) \<Rightarrow>
                       Inr ((), s3\<lparr>registers := (registers s3)[c :=
                                     f (registers s3 ! a) (registers s3 ! b)]\<rparr>)
                   | _ \<Rightarrow> Inl (fatal s3 RegisterIncorrect))
             | _ \<Rightarrow> Inl (fatal s2 RegisterIncorrect)))"

definition div_ref :: "'v num_dom \<Rightarrow> 'v vm \<Rightarrow> (unit, 'v vm) exec" where
  "div_ref d s =
     bindE (getRegister s) (\<lambda>r1 s1.
       case operand_of r1 of
         None \<Rightarrow> Inl (fatal s1 RegisterIncorrect)
       | Some Stk \<Rightarrow>
           if 2 \<le> length (stack s1) \<and>
              (n_is_zero d (last (stack s1)) \<or> n_is_zero d (last (butlast (stack s1))))
           then Inr ((), report s1 DivideByZero)
           else stack_binop (n_div d) s1
       | Some (Named a) \<Rightarrow>
           bindE (getRegister s1) (\<lambda>r2 s2.
             case operand_of r2 of
               Some (Named b) \<Rightarrow>
                 if a = b then Inl (fatal s2 RegisterIncorrect)
                 else if n_is_zero d (registers s2 ! a) \<or> n_is_zero d (registers s2 ! b) then
                   bindE (getRegister (report s2 DivideByZero)) (\<lambda>_ s3. Inr ((), s3))
                 else bindE (getRegister s2) (\<lambda>r3 s3.
                   case operand_of r3 of
                     Some (Named c) \<Rightarrow>
                       Inr ((), s3\<lparr>registers := (registers s3)[c :=
                                     n_div d (registers s3 ! a) (registers s3 ! b)]\<rparr>)
                   | _ \<Rightarrow> Inl (fatal s3 RegisterIncorrect))
             | _ \<Rightarrow> Inl (fatal s2 RegisterIncorrect)))"

subsection \<open>Helper lemmas\<close>

lemma bindE_cong:
  assumes "\<And>a s'. m = Inr (a, s') \<Longrightarrow> f a s' = g a s'"
  shows "bindE m f = bindE m g"
  using assms by (cases m) auto

lemma operand_of_simps [simp]:
  "operand_of 0 = Some Stk"
  "0 < r \<Longrightarrow> r \<le> 6 \<Longrightarrow> operand_of r = Some (Named r)"
  "6 < r \<Longrightarrow> operand_of r = None"
  by (simp_all add: operand_of_def)

lemma stack_binop_eq:
  "stack_binop f s =
     (if 2 \<le> length (stack s) then
        Inr ((), s\<lparr>registers := (registers s)[0 := last (stack s)],
                   stack := set_back (butlast (stack s)) (f (last (stack s)) (last (butlast (stack s))))\<rparr>)
      else Inr ((), report s StackNotEnoughValues))"
proof (cases "2 \<le> length (stack s)")
  case True
  then obtain rest b a where st: "stack s = rest @ [b, a]"
    by (metis append_butlast_last_id butlast_butlast_length length_0_conv not_numeral_le_zero
        append.assoc append_Cons append_Nil)
  then show ?thesis by (simp add: stack_binop_def set_back_def)
next
  case False
  then have "length (rev (stack s)) < 2" by simp
  then have "\<forall>a b rest. rev (stack s) \<noteq> a # b # rest" by auto
  with False show ?thesis by (simp add: stack_binop_def split: list.split)
qed

lemma getRegister_Inr_registers:
  "getRegister s = Inr (r, s1) \<Longrightarrow> registers s1 = registers s"
  by (auto dest: getRegister_Inr_frame)

lemma arith_body_ref:
  assumes "registers s \<noteq> []"
    and "h = (\<lambda>f s. bindE (getRegister s) (\<lambda>regFirst s1.
       if regFirst = 0 then
         (if 2 \<le> length (stack s1) then
            (let s2 = s1\<lparr>registers := (registers s1)[0 := last (stack s1)],
                         stack := butlast (stack s1)\<rparr>
             in Inr ((), s2\<lparr>stack := set_back (stack s2) (f (registers s2 ! 0) (last (stack s2)))\<rparr>))
          else Inr ((), report s1 StackNotEnoughValues))
       else if regFirst \<le> 6 then
         bindE (getRegister s1) (\<lambda>regSecond s2.
           if regFirst \<noteq> regSecond then
             (if regSecond = 0 then Inl (fatal s2 RegisterIncorrect)
              else if regSecond \<le> 6 then
                bindE (getRegister s2) (\<lambda>regTarget s3.
                  if regTarget = 0 then Inl (fatal s3 RegisterIncorrect)
                  else if regTarget \<le> 6 then
                    Inr ((), s3\<lparr>registers := (registers s3)[regTarget :=
                      f (registers s3 ! regFirst) (registers s3 ! regSecond)]\<rparr>)
                  else Inl (fatal s3 RegisterIncorrect))
              else Inl (fatal s2 RegisterIncorrect))
           else Inl (fatal s2 RegisterIncorrect))
       else Inl (fatal s1 RegisterIncorrect)))"
  shows "h f s = binop_ref f s"
proof -
  have ne: "\<And>r1 s1. getRegister s = Inr (r1, s1) \<Longrightarrow> registers s1 \<noteq> []"
    using assms(1) by (auto dest: getRegister_Inr_registers)
  show ?thesis
    unfolding assms(2) binop_ref_def
    by (rule bindE_cong)
       (auto simp: ne operand_of_def stack_binop_eq Let_def intro!: bindE_cong
             split: operand.split option.split)
qed

subsection \<open>The four arithmetic blocks are one handler\<close>

text \<open>
  C23. On a machine with its register vector, the C++ blocks of ADD, SUB, MUL and POW
  behave exactly as the single tagged-operand handler \<open>binop_ref\<close> instantiated with
  their operator: same stack mode, same register mode, same errors in the same places.
\<close>

theorem arith_handlers_refactor:
  assumes "registers s \<noteq> []"
  shows "exec_ADD d s = binop_ref (n_add d) s \<and> exec_SUB d s = binop_ref (n_sub d) s \<and>
         exec_MUL d s = binop_ref (n_mul d) s \<and> exec_POW d s = binop_ref (n_pow d) s"
  using arith_body_ref [OF assms refl]
  by (simp add: exec_ADD_def exec_SUB_def exec_MUL_def exec_POW_def)

theorem arith_handlers_refactor_witness:
  "exec_SUB real_dom (init_vm real_dom [''SUB'', ''S'']) =
   binop_ref (-) (init_vm real_dom [''SUB'', ''S''])"
  using arith_handlers_refactor [of "init_vm real_dom [''SUB'', ''S'']" real_dom]
  by simp

subsection \<open>DIV against the spec's DIV\<close>

text \<open>
  C24. When the operand tokens are valid in the spec's sense (the first is S, or the second
  is a named register other than the first), the C++ DIV behaves exactly as the spec's
  DIV \<open>div_ref\<close>: the zero guard, the consumption of the destination in the skipped
  case and every error agree.
\<close>

theorem exec_DIV_ref_valid:
  assumes "pending s = x # y # rest"
    and "map_of registerSet x = Some a" and "map_of registerSet y = Some b"
    and "a = 0 \<or> (0 < b \<and> b \<noteq> a)" and "registers s \<noteq> []"
  shows "exec_DIV d s = div_ref d s"
proof (cases "a = 0")
  case True
  with assms show ?thesis
    by (auto simp: exec_DIV_def div_ref_def getRegister_next stack_binop_eq Let_def)
next
  case False
  with assms(4) have b: "0 < b" "b \<noteq> a" by auto
  have a6: "a \<le> 6" and b6: "b \<le> 6"
    using registerSet_range assms(2,3) by blast+
  show ?thesis
    using assms(1-3,5) False b a6 b6
    by (auto simp: exec_DIV_def div_ref_def getRegister_next operand_of_def intro!: bindE_cong
             split: operand.split option.split)
qed

theorem exec_DIV_ref_valid_witness:
  "exec_DIV real_dom (init_vm real_dom [''A'', ''B'', ''C'']) =
   div_ref real_dom (init_vm real_dom [''A'', ''B'', ''C''])"
  using exec_DIV_ref_valid [of "init_vm real_dom [''A'', ''B'', ''C'']" "''A''" "''B''" "[''C'']" 1 2 real_dom]
  by (simp add: registerSet_def)

text \<open>
  C25. On invalid operands the two differ: whenever DIV names the same register twice
  and that register holds zero, the C++ tests the values before the operands and reports a
  recoverable division by zero (the running flag is unchanged), while the spec's DIV
  rejects the repeated register as a fatal error.
\<close>

theorem exec_DIV_ref_differs:
  assumes "pending s = x # x # z # rest" and "map_of registerSet x = Some a" and "0 < a"
    and "map_of registerSet z = Some c" and "n_is_zero d (registers s ! a)"
  shows "isRunning (final_state (exec_DIV d s)) = isRunning s \<and>
         \<not> isRunning (final_state (div_ref d s))"
  using assms registerSet_range [OF assms(2)]
  by (simp add: exec_DIV_def div_ref_def getRegister_next)

theorem exec_DIV_ref_differs_witness:
  "isRunning (final_state (exec_DIV real_dom (init_vm real_dom [''A'', ''A'', ''B'']))) \<and>
   \<not> isRunning (final_state (div_ref real_dom (init_vm real_dom [''A'', ''A'', ''B''])))"
  using exec_DIV_ref_differs [of "init_vm real_dom [''A'', ''A'', ''B'']" "''A''" "''B''" "[]" 1 2 real_dom]
  by (simp add: registerSet_def)

end
