(* ===== verification/Program.thy ===== *)
theory Program
  imports Refactor Run
begin

text \<open>
  An instruction-level view of VirtualMK. A token stream whose instructions all have
  well-formed operands is a list of decoded instructions \<open>instr\<close>: \<open>tokens_of\<close> prints an
  instruction back to its tokens and \<open>parse\<close> decodes a token list (\<open>None\<close> when an
  instruction is malformed or truncated). Operands use the tagged \<open>operand\<close> of
  \<^theory_text>\<open>Refactor\<close>; register-mode binary operations name their three registers.
  \<open>astep\<close> is the meaning of one instruction on an abstract machine that has only what the
  program can observe (stack, registers, counter, output, halted flag), and \<open>aexec\<close> runs
  a program; the refinement theorem at the end says that the C++ interpreter loop computes
  exactly \<open>aexec\<close> on every well-formed program.
\<close>

datatype aop = AAdd | ASub | AMul | ADiv | APow

datatype uop = USqr | ULog | ULon | UExp

datatype instr =
    IHlt
  | IPsh string
  | IPop
  | IBinS aop
  | IBinR aop nat nat nat
  | IUn uop operand
  | IMov operand operand
  | ISet operand operand
  | IPrt
  | INop

primrec aop_name :: "aop \<Rightarrow> string" where
  "aop_name AAdd = ''ADD''"
| "aop_name ASub = ''SUB''"
| "aop_name AMul = ''MUL''"
| "aop_name ADiv = ''DIV''"
| "aop_name APow = ''POW''"

primrec uop_name :: "uop \<Rightarrow> string" where
  "uop_name USqr = ''SQR''"
| "uop_name ULog = ''LOG''"
| "uop_name ULon = ''LON''"
| "uop_name UExp = ''EXP''"

definition reg_name :: "nat \<Rightarrow> string" where
  "reg_name r = fst (registerSet ! r)"

primrec operand_name :: "operand \<Rightarrow> string" where
  "operand_name Stk = ''S''"
| "operand_name (Named r) = reg_name r"

primrec tokens_of :: "instr \<Rightarrow> string list" where
  "tokens_of IHlt = [''HLT'']"
| "tokens_of (IPsh t) = [''PSH'', t]"
| "tokens_of IPop = [''POP'']"
| "tokens_of (IBinS f) = [aop_name f, ''S'']"
| "tokens_of (IBinR f a b c) = [aop_name f, reg_name a, reg_name b, reg_name c]"
| "tokens_of (IUn u x) = [uop_name u, operand_name x]"
| "tokens_of (IMov x y) = [''MOV'', operand_name x, operand_name y]"
| "tokens_of (ISet x y) = [''SET'', operand_name x, operand_name y]"
| "tokens_of IPrt = [''PRT'']"
| "tokens_of INop = [''NOP'']"

text \<open>Decoding, with the operand rules of section 4.2 of the spec.\<close>

definition named_reg :: "string \<Rightarrow> nat option" where
  "named_reg t = (case map_of registerSet t of Some r \<Rightarrow> if 0 < r then Some r else None | None \<Rightarrow> None)"

definition operand_tok :: "string \<Rightarrow> operand option" where
  "operand_tok t = (case map_of registerSet t of Some r \<Rightarrow> operand_of r | None \<Rightarrow> None)"

definition aop_of :: "string \<Rightarrow> aop option" where
  "aop_of m = map_of [(''ADD'', AAdd), (''SUB'', ASub), (''MUL'', AMul), (''DIV'', ADiv), (''POW'', APow)] m"

definition uop_of :: "string \<Rightarrow> uop option" where
  "uop_of m = map_of [(''SQR'', USqr), (''LOG'', ULog), (''LON'', ULon), (''EXP'', UExp)] m"

definition wf_pair :: "operand \<Rightarrow> operand \<Rightarrow> bool" where
  "wf_pair x y \<longleftrightarrow> x \<noteq> y"

text \<open>
  \<open>decode ts\<close> reads one instruction from the front of \<open>ts\<close> and returns it with the rest.
\<close>

definition decode :: "string list \<Rightarrow> (instr \<times> string list) option" where
  "decode ts =
     (case ts of
        [] \<Rightarrow> None
      | m # r \<Rightarrow>
          if m = ''HLT'' then Some (IHlt, r)
          else if m = ''POP'' then Some (IPop, r)
          else if m = ''PRT'' then Some (IPrt, r)
          else if m = ''NOP'' then Some (INop, r)
          else if m = ''PSH'' then (case r of t # r' \<Rightarrow> Some (IPsh t, r') | [] \<Rightarrow> None)
          else if m = ''MOV'' \<or> m = ''SET'' then
            (case r of
               x # y # r' \<Rightarrow>
                 (case (operand_tok x, operand_tok y) of
                    (Some ox, Some oy) \<Rightarrow>
                      if wf_pair ox oy then
                        Some (if m = ''MOV'' then IMov ox oy else ISet ox oy, r')
                      else None
                  | _ \<Rightarrow> None)
             | _ \<Rightarrow> None)
          else (case uop_of m of
            Some u \<Rightarrow>
              (case r of x # r' \<Rightarrow> map_option (\<lambda>opd. (IUn u opd, r')) (operand_tok x) | [] \<Rightarrow> None)
          | None \<Rightarrow>
              (case aop_of m of
                 None \<Rightarrow> None
               | Some f \<Rightarrow>
                   (case r of
                      x # r' \<Rightarrow>
                        if x = ''S'' then Some (IBinS f, r')
                        else (case r' of
                                y # z # r'' \<Rightarrow>
                                  (case (named_reg x, named_reg y, named_reg z) of
                                     (Some a, Some b, Some c) \<Rightarrow>
                                       if a \<noteq> b then Some (IBinR f a b c, r'') else None
                                   | _ \<Rightarrow> None)
                              | _ \<Rightarrow> None)
                    | [] \<Rightarrow> None))))"

function parse :: "string list \<Rightarrow> instr list option" where
  "parse ts =
     (if ts = [] then Some []
      else (case decode ts of
              None \<Rightarrow> None
            | Some (i, r) \<Rightarrow> map_option (Cons i) (parse r)))"
  by pat_completeness auto
termination
  by (relation "measure length")
     (auto simp: decode_def split: list.splits if_splits option.splits prod.splits)

declare parse.simps [simp del]

subsection \<open>Well-formed instructions\<close>

primrec valid_operand :: "operand \<Rightarrow> bool" where
  "valid_operand Stk = True"
| "valid_operand (Named r) = (0 < r \<and> r \<le> 6)"

primrec operand_idx :: "operand \<Rightarrow> nat" where
  "operand_idx Stk = 0"
| "operand_idx (Named r) = r"

fun wf_instr :: "instr \<Rightarrow> bool" where
  "wf_instr (IBinR f a b c) = (0 < a \<and> a \<le> 6 \<and> 0 < b \<and> b \<le> 6 \<and> 0 < c \<and> c \<le> 6 \<and> a \<noteq> b)"
| "wf_instr (IUn u x) = valid_operand x"
| "wf_instr (IMov x y) = (valid_operand x \<and> valid_operand y \<and> x \<noteq> y)"
| "wf_instr (ISet x y) = (valid_operand x \<and> valid_operand y \<and> x \<noteq> y)"
| "wf_instr _ = True"

subsection \<open>The abstract machine\<close>

record 'v astate =
  astack :: "'v list"
  aregs :: "'v list"
  acount :: nat
  aout :: "'v msg list"
  ahalted :: bool

definition vm_abs :: "'v vm \<Rightarrow> 'v astate" where
  "vm_abs s =
     \<lparr>astack = stack s, aregs = registers s, acount = commandCount s, aout = out s,
      ahalted = \<not> isRunning s\<rparr>"

primrec aop_fun :: "'v num_dom \<Rightarrow> aop \<Rightarrow> 'v \<Rightarrow> 'v \<Rightarrow> 'v" where
  "aop_fun d AAdd = n_add d"
| "aop_fun d ASub = n_sub d"
| "aop_fun d AMul = n_mul d"
| "aop_fun d ADiv = n_div d"
| "aop_fun d APow = n_pow d"

primrec uop_fun :: "'v num_dom \<Rightarrow> uop \<Rightarrow> 'v \<Rightarrow> 'v" where
  "uop_fun d USqr = n_sqrt d"
| "uop_fun d ULog = n_log10 d"
| "uop_fun d ULon = n_ln d"
| "uop_fun d UExp = n_exp d"

text \<open>\<open>uop_check d u x v\<close>: \<open>None\<close> when the domain guard of \<open>u\<close> accepts \<open>v\<close>, else the error.\<close>

primrec uop_check :: "'v num_dom \<Rightarrow> uop \<Rightarrow> operand \<Rightarrow> 'v \<Rightarrow> 'v err option" where
  "uop_check d USqr x v = (if n_nonneg d v then None else Some (SqrtOfNegative v))"
| "uop_check d ULog x v =
     (if \<not> n_is_zero d v then None else Some (if x = Stk then StackValueZero else RegisterValueZero))"
| "uop_check d ULon x v =
     (if \<not> n_is_zero d v then None else Some (if x = Stk then StackValueZero else RegisterValueZero))"
| "uop_check d UExp x v = None"

definition a_emit :: "'v astate \<Rightarrow> nat \<Rightarrow> 'v err \<Rightarrow> 'v astate" where
  "a_emit a n e = a\<lparr>aout := aout a @ [Error n e]\<rparr>"

definition a_halt :: "'v astate \<Rightarrow> 'v astate" where
  "a_halt a =
     a\<lparr>ahalted := True, aout := aout a @ [Finished (rev (astack a)) (drop 1 (aregs a))]\<rparr>"

definition a_tick :: "'v astate \<Rightarrow> nat \<Rightarrow> 'v astate" where
  "a_tick a k = a\<lparr>acount := acount a + k\<rparr>"

text \<open>
  \<open>astep d i a\<close>: the effect of instruction \<open>i\<close>. The counter advances by the number of
  tokens read; a diagnostic carries the count at the moment it is printed.
\<close>

fun astep :: "'v num_dom \<Rightarrow> instr \<Rightarrow> 'v astate \<Rightarrow> 'v astate" where
  "astep d IHlt a = a_halt (a_tick a 1)"
| "astep d (IPsh t) a =
     (case n_stod d t of
        Some v \<Rightarrow> (a_tick a 2)\<lparr>astack := astack a @ [v]\<rparr>
      | None \<Rightarrow> a_halt (a_emit (a_tick a 2) (acount a + 2) (NumberIncorrect t)))"
| "astep d IPop a =
     (if astack a = [] then a_emit (a_tick a 1) (acount a + 1) CouldNotPop
      else (a_tick a 1)\<lparr>astack := butlast (astack a),
                        aout := aout a @ [Popped (last (astack a))]\<rparr>)"
| "astep d (IBinS f) a =
     (if length (astack a) < 2 then a_emit (a_tick a 2) (acount a + 2) StackNotEnoughValues
      else
        (let x = last (astack a); y = last (butlast (astack a)) in
         if f = ADiv \<and> (n_is_zero d x \<or> n_is_zero d y)
         then a_emit (a_tick a 2) (acount a + 2) DivideByZero
         else (a_tick a 2)\<lparr>aregs := (aregs a)[0 := x],
                           astack := butlast (butlast (astack a)) @ [aop_fun d f x y]\<rparr>))"
| "astep d (IBinR f r1 r2 r3) a =
     (if f = ADiv \<and> (n_is_zero d (aregs a ! r1) \<or> n_is_zero d (aregs a ! r2))
      then a_emit (a_tick a 4) (acount a + 3) DivideByZero
      else (a_tick a 4)\<lparr>aregs := (aregs a)[r3 := aop_fun d f (aregs a ! r1) (aregs a ! r2)]\<rparr>)"
| "astep d (IUn u Stk) a =
     (if astack a = [] then a_emit (a_tick a 2) (acount a + 2) StackIsEmpty
      else (case uop_check d u Stk (last (astack a)) of
              Some e \<Rightarrow> a_emit (a_tick a 2) (acount a + 2) e
            | None \<Rightarrow> (a_tick a 2)\<lparr>astack := set_back (astack a) (uop_fun d u (last (astack a)))\<rparr>))"
| "astep d (IUn u (Named r)) a =
     (case uop_check d u (Named r) (aregs a ! r) of
        Some e \<Rightarrow> a_emit (a_tick a 2) (acount a + 2) e
      | None \<Rightarrow> (a_tick a 2)\<lparr>aregs := (aregs a)[r := uop_fun d u (aregs a ! r)]\<rparr>)"
| "astep d (IMov Stk (Named r)) a =
     (if astack a = [] then a_halt (a_emit (a_tick a 2) (acount a + 2) StackIsEmpty)
      else (a_tick a 3)\<lparr>aregs := (aregs a)[r := last (astack a)],
                        astack := set_back (astack a) (aregs a ! r)\<rparr>)"
| "astep d (IMov (Named r) Stk) a =
     (if astack a = [] then a_halt (a_emit (a_tick a 3) (acount a + 3) StackIsEmpty)
      else (a_tick a 3)\<lparr>aregs := (aregs a)[r := last (astack a)],
                        astack := set_back (astack a) (aregs a ! r)\<rparr>)"
| "astep d (IMov (Named r) (Named q)) a = (a_tick a 3)\<lparr>aregs := swap_at (aregs a) r q\<rparr>"
| "astep d (ISet Stk (Named r)) a =
     (if astack a = [] then a_halt (a_emit (a_tick a 2) (acount a + 2) StackIsEmpty)
      else (a_tick a 3)\<lparr>astack := set_back (astack a) (aregs a ! r)\<rparr>)"
| "astep d (ISet (Named r) Stk) a =
     (if astack a = [] then a_halt (a_emit (a_tick a 3) (acount a + 3) StackIsEmpty)
      else (a_tick a 3)\<lparr>aregs := (aregs a)[r := last (astack a)]\<rparr>)"
| "astep d (ISet (Named r) (Named q)) a = (a_tick a 3)\<lparr>aregs := (aregs a)[r := aregs a ! q]\<rparr>"
| "astep d IPrt a =
     (a_tick a 1)\<lparr>aout := aout a @ [StackDump (rev (astack a)) (drop 1 (aregs a))]\<rparr>"
| "astep d INop a = (a_tick a 1)\<lparr>aout := aout a @ [DoNothing]\<rparr>"
| "astep d _ a = a_halt (a_emit (a_tick a 3) (acount a + 3) RegisterIncorrect)"

text \<open>
  A program runs instruction by instruction until one halts; a program that runs off its
  end fails on the next fetch with "not enough instructions", as the C++ does.
\<close>

fun aexec :: "'v num_dom \<Rightarrow> instr list \<Rightarrow> 'v astate \<Rightarrow> 'v astate" where
  "aexec d [] a =
     (if ahalted a then a
      else a_halt (a_emit (a_tick a 1) (acount a + 1) NotEnoughInstructions))"
| "aexec d (i # is) a = (if ahalted a then a else aexec d is (astep d i a))"

text \<open>The abstract machine a program starts on, as \<^verbatim>\<open>main()\<close> sets it up.\<close>

definition a_init :: "'v num_dom \<Rightarrow> 'v astate" where
  "a_init d = \<lparr>astack = [], aregs = replicate 7 (n_zero d), acount = 0, aout = [], ahalted = False\<rparr>"

text \<open>
  \<open>fatal_instr d i st\<close>: instruction \<open>i\<close> on stack \<open>st\<close> is one of the fatal conditions of
  section 7 of the spec (HLT, an unparsable literal, MOV or SET on the empty stack); all
  other conditions of a well-formed instruction are recoverable.
\<close>

fun fatal_instr :: "'v num_dom \<Rightarrow> instr \<Rightarrow> 'v list \<Rightarrow> bool" where
  "fatal_instr d IHlt st = True"
| "fatal_instr d (IPsh t) st = (n_stod d t = None)"
| "fatal_instr d (IMov x y) st = ((x = Stk \<or> y = Stk) \<and> st = [])"
| "fatal_instr d (ISet x y) st = ((x = Stk \<or> y = Stk) \<and> st = [])"
| "fatal_instr d _ st = False"

definition is_psh :: "instr \<Rightarrow> bool" where
  "is_psh i = (case i of IPsh _ \<Rightarrow> True | _ \<Rightarrow> False)"

subsection \<open>Helper lemmas: names, dispatch and abstraction\<close>

lemma reg_name_lookup [simp]: "r \<le> 6 \<Longrightarrow> map_of registerSet (reg_name r) = Some r"
proof -
  assume "r \<le> 6"
  then have "r \<in> {0, 1, 2, 3, 4, 5, 6}" by auto
  then show ?thesis by (auto simp: reg_name_def registerSet_def)
qed

lemma operations_dispatch:
  assumes "pending s = m # rest" and "map_of instructionSet m = Some n"
  shows "operations d s = final_state (exec_op d n (advance s))"
  using assms by (simp add: operations_def getInstruction_next)

lemma vm_abs_advance [simp]: "vm_abs (advance s) = a_tick (vm_abs s) 1"
  by (simp add: vm_abs_def a_tick_def)

lemma vm_abs_report [simp]: "vm_abs (report s e) = a_emit (vm_abs s) (commandCount s) e"
  by (simp add: vm_abs_def a_emit_def report_def)

lemma vm_abs_execution [simp]: "vm_abs (execution s) = a_halt (vm_abs s)"
  by (simp add: vm_abs_def a_halt_def execution_def)

lemma vm_abs_fatal [simp]:
  "vm_abs (fatal s e) = a_halt (a_emit (vm_abs s) (commandCount s) e)"
  by (simp add: fatal_def a_emit_def a_halt_def vm_abs_def execution_def report_def)

lemma operand_lookup [simp]:
  assumes "valid_operand x"
  shows "map_of registerSet (operand_name x) = Some (operand_idx x)"
proof (cases x)
  case Stk
  then show ?thesis by (simp add: registerSet_def)
next
  case (Named r)
  with assms show ?thesis by simp
qed

lemma registerSet_S [simp]: "map_of registerSet ''S'' = Some 0"
  by (simp add: registerSet_def)

lemmas dispatch_simps = operations_dispatch instructionSet_def exec_op_def getRegister_next
  getNumber_next

lemmas abs_simps = vm_abs_def a_halt_def a_emit_def a_tick_def

subsection \<open>Each instruction refines its abstract step\<close>

text \<open>
  One call of \<open>operations\<close> on a state whose pending tokens start with the tokens of a
  well-formed instruction moves the abstract view exactly as \<open>astep\<close> does, and, unless
  the machine halted, leaves the tokens after the instruction pending.
\<close>

lemma refine_binR:
  assumes "pending s = tokens_of (IBinR f a b c) @ rest" and "wf_instr (IBinR f a b c)"
  shows "vm_abs (operations d s) = astep d (IBinR f a b c) (vm_abs s) \<and>
         (isRunning (operations d s) \<longrightarrow> pending (operations d s) = rest)"
  using assms
  by (cases f; simp add: dispatch_simps exec_ADD_def exec_SUB_def exec_MUL_def exec_DIV_def
        exec_POW_def; simp add: abs_simps)

lemma refine_binS:
  assumes "pending s = tokens_of (IBinS f) @ rest" and "registers s \<noteq> []"
  shows "vm_abs (operations d s) = astep d (IBinS f) (vm_abs s) \<and>
         (isRunning (operations d s) \<longrightarrow> pending (operations d s) = rest)"
  using assms
  by (cases f; simp add: dispatch_simps exec_ADD_def exec_SUB_def exec_MUL_def exec_DIV_def
        exec_POW_def; simp add: abs_simps Let_def set_back_def)

lemma refine_un:
  assumes "pending s = tokens_of (IUn u x) @ rest" and "wf_instr (IUn u x)"
  shows "vm_abs (operations d s) = astep d (IUn u x) (vm_abs s) \<and>
         (isRunning (operations d s) \<longrightarrow> pending (operations d s) = rest)"
  using assms
  by (cases u; cases x; simp add: dispatch_simps exec_SQR_def exec_LOG_def exec_LON_def
        exec_EXP_def; simp add: abs_simps)

lemma refine_mov:
  assumes "pending s = tokens_of (IMov x y) @ rest" and "wf_instr (IMov x y)"
  shows "vm_abs (operations d s) = astep d (IMov x y) (vm_abs s) \<and>
         (isRunning (operations d s) \<longrightarrow> pending (operations d s) = rest)"
  using assms
  by (cases x; cases y; simp add: dispatch_simps exec_MOV_def; simp add: abs_simps)

lemma refine_set:
  assumes "pending s = tokens_of (ISet x y) @ rest" and "wf_instr (ISet x y)"
  shows "vm_abs (operations d s) = astep d (ISet x y) (vm_abs s) \<and>
         (isRunning (operations d s) \<longrightarrow> pending (operations d s) = rest)"
  using assms
  by (cases x; cases y; simp add: dispatch_simps exec_SET_def; simp add: abs_simps)

lemma refine_nullary:
  assumes "pending s = tokens_of i @ rest" and "i \<in> {IHlt, IPop, IPrt, INop} \<or> (\<exists>t. i = IPsh t)"
  shows "vm_abs (operations d s) = astep d i (vm_abs s) \<and>
         (isRunning (operations d s) \<longrightarrow> pending (operations d s) = rest)"
  using assms
  by (auto simp: dispatch_simps exec_HLT_def exec_POP_def exec_PSH_def exec_PRT_def exec_NOP_def
        abs_simps split: option.split)

lemma refine_step:
  assumes "pending s = tokens_of i @ rest" and "wf_instr i" and "registers s \<noteq> []"
  shows "vm_abs (operations d s) = astep d i (vm_abs s) \<and>
         (isRunning (operations d s) \<longrightarrow> pending (operations d s) = rest)"
proof (cases i)
  case (IBinS f)
  then show ?thesis using refine_binS [of s f rest d] assms by simp
next
  case (IBinR f a b c)
  then show ?thesis using refine_binR [of s f a b c rest d] assms by simp
next
  case (IUn u x)
  then show ?thesis using refine_un [of s u x rest d] assms by simp
next
  case (IMov x y)
  then show ?thesis using refine_mov [of s x y rest d] assms by simp
next
  case (ISet x y)
  then show ?thesis using refine_set [of s x y rest d] assms by simp
qed (use assms refine_nullary [of s i rest d] in simp_all)

subsection \<open>The loop refines \<open>aexec\<close>\<close>

lemma aexec_halted: "ahalted a \<Longrightarrow> aexec d ins a = a"
  by (cases ins) simp_all

lemma while_option_running:
  "b s \<Longrightarrow> while_option b c s = while_option b c (c s)"
  by (subst while_option_unfold) simp

lemma while_option_stopped:
  "\<not> b s \<Longrightarrow> while_option b c s = Some s"
  by (subst while_option_unfold) simp

lemma loop_refines:
  assumes "vm_inv s" and "isRunning s" and "pending s = concat (map tokens_of is)"
    and "\<forall>i\<in>set is. wf_instr i"
  shows "map_option vm_abs (while_option isRunning (operations d) s) = Some (aexec d is (vm_abs s))"
  using assms
proof (induction "is" arbitrary: s)
  case Nil
  then have op: "operations d s = fatal (s\<lparr>commandCount := commandCount s + 1\<rparr>) NotEnoughInstructions"
    by (simp add: operations_exhausted)
  then have "while_option isRunning (operations d) s = Some (operations d s)"
    using Nil.prems(2) by (simp add: while_option_running while_option_stopped)
  with op Nil.prems(2) show ?case by (simp add: abs_simps)
next
  case (Cons i "is")
  have regs: "registers s \<noteq> []" using Cons.prems(1) by (auto simp: vm_inv_def registerSet_def)
  have r: "vm_abs (operations d s) = astep d i (vm_abs s) \<and>
           (isRunning (operations d s) \<longrightarrow> pending (operations d s) = concat (map tokens_of is))"
    using refine_step [of s i "concat (map tokens_of is)" d] Cons.prems(3,4) regs by simp
  have go: "\<not> ahalted (vm_abs s)" using Cons.prems(2) by (simp add: vm_abs_def)
  have w: "while_option isRunning (operations d) s = while_option isRunning (operations d) (operations d s)"
    using Cons.prems(2) by (rule while_option_running)
  show ?case
  proof (cases "isRunning (operations d s)")
    case True
    have "vm_inv (operations d s)"
      using operations_step(1) [OF Cons.prems(1,2)] by (rule vm_step_inv)
    with True r Cons.prems(4) Cons.IH [of "operations d s"] w go show ?thesis by simp
  next
    case False
    then have "ahalted (astep d i (vm_abs s))" using r by (metis vm_abs_def astate.select_convs(5))
    with False r w go show ?thesis by (simp add: while_option_stopped aexec_halted)
  qed
qed

subsection \<open>Decoding and printing\<close>

lemma reg_name_of:
  assumes "map_of registerSet t = Some r"
  shows "reg_name r = t"
proof -
  have "(t, r) \<in> set registerSet" using assms by (rule map_of_SomeD)
  then show ?thesis by (auto simp: reg_name_def registerSet_def)
qed

lemma reg_name_zero [simp]: "reg_name 0 = ''S''"
  by (simp add: reg_name_def registerSet_def)

lemma operand_tok_Some:
  "operand_tok t = Some x \<Longrightarrow> operand_name x = t \<and> valid_operand x"
  by (auto simp: operand_tok_def operand_of_def reg_name_of registerSet_range
        split: option.splits if_splits dest: reg_name_of)

lemma named_reg_Some:
  "named_reg t = Some a \<Longrightarrow> reg_name a = t \<and> 0 < a \<and> a \<le> 6"
  by (auto simp: named_reg_def registerSet_range split: option.splits if_splits dest: reg_name_of)

lemma aop_of_Some: "aop_of m = Some f \<Longrightarrow> aop_name f = m"
  by (auto simp: aop_of_def split: if_splits)

lemma uop_of_Some: "uop_of m = Some u \<Longrightarrow> uop_name u = m"
  by (auto simp: uop_of_def split: if_splits)

lemma decode_sound:
  assumes "decode ts = Some (i, r)"
  shows "ts = tokens_of i @ r \<and> wf_instr i"
  using assms
  by (auto simp: decode_def wf_pair_def split: list.splits if_splits option.splits
        dest!: operand_tok_Some named_reg_Some aop_of_Some uop_of_Some)

lemma parse_sound:
  "parse ts = Some ins \<Longrightarrow> ts = concat (map tokens_of ins) \<and> (\<forall>i\<in>set ins. wf_instr i)"
proof (induction ts arbitrary: ins rule: parse.induct)
  case (1 ts)
  show ?case
  proof (cases "ts = []")
    case True
    with "1.prems" show ?thesis by (simp add: parse.simps)
  next
    case False
    with "1.prems" obtain i r ins' where d: "decode ts = Some (i, r)" and p: "parse r = Some ins'"
      and ins: "ins = i # ins'"
      by (auto simp: parse.simps split: option.splits)
    with "1.IH" [OF False d] decode_sound [OF d] show ?thesis by simp
  qed
qed

lemma operand_tok_name [simp]: "valid_operand x \<Longrightarrow> operand_tok (operand_name x) = Some x"
  by (cases x) (simp_all add: operand_tok_def operand_of_def)

lemma named_reg_name [simp]: "0 < a \<Longrightarrow> a \<le> 6 \<Longrightarrow> named_reg (reg_name a) = Some a"
  by (simp add: named_reg_def)

lemma reg_name_not_S: "0 < a \<Longrightarrow> a \<le> 6 \<Longrightarrow> reg_name a \<noteq> ''S''"
  using reg_name_lookup [of a] by (auto simp: registerSet_def)

lemma decode_tokens_of:
  assumes "wf_instr i"
  shows "decode (tokens_of i @ r) = Some (i, r)"
proof (cases i)
  case (IBinS f)
  then show ?thesis by (cases f) (simp_all add: decode_def aop_of_def uop_of_def)
next
  case (IBinR f a b c)
  with assms reg_name_not_S [of a] show ?thesis
    by (cases f) (simp_all add: decode_def aop_of_def uop_of_def)
next
  case (IUn u x)
  with assms show ?thesis by (cases u) (simp_all add: decode_def uop_of_def)
next
  case (IMov x y)
  with assms show ?thesis by (simp add: decode_def wf_pair_def)
next
  case (ISet x y)
  with assms show ?thesis by (simp add: decode_def wf_pair_def)
qed (simp_all add: decode_def)

lemma tokens_of_nonempty: "tokens_of i \<noteq> []"
  by (cases i) simp_all

lemma vm_abs_init: "vm_abs (init_vm d prog) = a_init d"
  by (simp add: vm_abs_def a_init_def)

text \<open>Printing well-formed instructions and parsing the tokens gives them back.\<close>

lemma parse_tokens_of:
  "\<forall>i\<in>set ins. wf_instr i \<Longrightarrow> parse (concat (map tokens_of ins)) = Some ins"
proof (induction ins)
  case Nil
  then show ?case by (simp add: parse.simps)
next
  case (Cons i ins)
  then show ?case
    by (subst parse.simps) (simp add: tokens_of_nonempty decode_tokens_of)
qed

subsection \<open>The interpreter computes the abstract semantics\<close>

text \<open>
  C26. Refinement: on every non-empty token list that decodes into instructions, the C++
  interpreter loop (\<open>run\<close>: \<^verbatim>\<open>while (isRunning) operations(...)\<close>) ends, and its
  final stack, registers, counter, output and halted flag are exactly those of the
  abstract instruction semantics \<open>aexec\<close> run from the initial abstract machine.
\<close>

theorem run_refines:
  assumes "parse prog = Some ins" and "prog \<noteq> []"
  shows "map_option vm_abs (run d prog) = Some (aexec d ins (a_init d))"
proof -
  have "prog = concat (map tokens_of ins)" and "\<forall>i\<in>set ins. wf_instr i"
    using parse_sound [OF assms(1)] by simp_all
  then show ?thesis
    using loop_refines [of "init_vm d prog" ins d] vm_inv_init [of prog d, OF assms(2)]
    by (simp add: run_def vm_abs_init)
qed

theorem run_refines_witness:
  "map_option vm_abs (run real_dom [''PSH'', ''5'', ''HLT'']) =
   Some (aexec real_dom [IPsh ''5'', IHlt] (a_init real_dom))"
  using run_refines [of "[''PSH'', ''5'', ''HLT'']" "[IPsh ''5'', IHlt]" real_dom]
  by (simp add: parse.simps decode_def)

subsection \<open>Consequences of the refinement\<close>

lemma vm_abs_sel [simp]:
  "astack (vm_abs s) = stack s" "ahalted (vm_abs s) = (\<not> isRunning s)"
  by (simp_all add: vm_abs_def)

lemma astep_halted:
  assumes "\<not> ahalted a" and "wf_instr i"
  shows "ahalted (astep d i a) \<longleftrightarrow> fatal_instr d i (astack a)"
  using assms
proof (cases i)
  case (IUn u x)
  with assms show ?thesis by (cases x; cases u) (auto simp: abs_simps split: option.split)
next
  case (IMov x y)
  with assms show ?thesis by (cases x; cases y) (auto simp: abs_simps)
next
  case (ISet x y)
  with assms show ?thesis by (cases x; cases y) (auto simp: abs_simps)
qed (auto simp: abs_simps Let_def split: option.split)

lemma astep_stack_length:
  "length (astack (astep d i a)) \<le> length (astack a) + (if is_psh i then 1 else 0)"
proof (cases i)
  case (IUn u x)
  then show ?thesis by (cases x; cases u) (auto simp: abs_simps set_back_def split: option.split)
next
  case (IMov x y)
  then show ?thesis by (cases x; cases y) (auto simp: abs_simps set_back_def)
next
  case (ISet x y)
  then show ?thesis by (cases x; cases y) (auto simp: abs_simps set_back_def)
qed (auto simp: abs_simps Let_def is_psh_def split: option.split)

lemma aexec_stack_length:
  "length (astack (aexec d ins a)) \<le> length (astack a) + length (filter is_psh ins)"
proof (induction ins arbitrary: a)
  case Nil
  then show ?case by (simp add: abs_simps)
next
  case (Cons i ins)
  show ?case
    using Cons.IH [of "astep d i a"] astep_stack_length [of d i a] by auto
qed

lemma fatal_instr_empty: "fatal_instr d i st \<Longrightarrow> fatal_instr d i []"
  by (cases "(d, i, st)" rule: fatal_instr.cases) auto

lemma astep_count:
  assumes "wf_instr i" and "\<not> fatal_instr d i (astack a)"
  shows "acount (astep d i a) = acount a + length (tokens_of i)"
  using assms
proof (cases i)
  case (IUn u x)
  with assms show ?thesis by (cases x; cases u) (auto simp: abs_simps split: option.split)
next
  case (IMov x y)
  with assms show ?thesis by (cases x; cases y) (auto simp: abs_simps)
next
  case (ISet x y)
  with assms show ?thesis by (cases x; cases y) (auto simp: abs_simps)
qed (auto simp: abs_simps Let_def split: option.split)

lemma aexec_runs_off:
  assumes "\<not> ahalted a" and "\<forall>i\<in>set ins. wf_instr i \<and> \<not> fatal_instr d i []"
  shows "ahalted (aexec d ins a) \<and>
         acount (aexec d ins a) = acount a + length (concat (map tokens_of ins)) + 1 \<and>
         (\<exists>pre. aout (aexec d ins a) =
            pre @ [Error (acount a + length (concat (map tokens_of ins)) + 1) NotEnoughInstructions,
                   Finished (rev (astack (aexec d ins a))) (drop 1 (aregs (aexec d ins a)))])"
  using assms
proof (induction ins arbitrary: a)
  case Nil
  then show ?case by (simp add: abs_simps)
next
  case (Cons i ins)
  have nf: "\<not> fatal_instr d i (astack a)" and wf: "wf_instr i"
    using Cons.prems(2) fatal_instr_empty by auto
  have "\<not> ahalted (astep d i a)" using astep_halted [OF Cons.prems(1) wf] nf by simp
  with Cons.IH [of "astep d i a"] Cons.prems astep_count [OF wf nf] show ?case by (simp add: add.assoc)
qed

text \<open>
  C37. Fatal and recoverable conditions (section 7 of the spec): one cycle on a
  well-formed instruction halts the machine exactly when the instruction is HLT, a PSH of
  an unparsable literal, or a MOV/SET naming S while the stack is empty. An empty POP, a
  short stack, a division by zero, a square root of a negative or a logarithm of zero
  never halt it.
\<close>

theorem operations_halts_iff:
  assumes "pending s = tokens_of i @ rest" and "wf_instr i" and "vm_inv s" and "isRunning s"
  shows "\<not> isRunning (operations d s) \<longleftrightarrow> fatal_instr d i (stack s)"
proof -
  have regs: "registers s \<noteq> []" using assms(3) by (auto simp: vm_inv_def registerSet_def)
  have r: "vm_abs (operations d s) = astep d i (vm_abs s)"
    using refine_step [OF assms(1,2) regs] by simp
  have "\<not> ahalted (vm_abs s)" using assms(4) by simp
  from astep_halted [OF this assms(2), of d] arg_cong [OF r, of ahalted] show ?thesis by simp
qed

theorem operations_halts_iff_witness:
  "\<not> isRunning (operations real_dom (init_vm real_dom [''PSH'', ''X''])) \<and>
   isRunning (operations real_dom (init_vm real_dom [''POP'']))"
proof -
  have "\<not> isRunning (operations real_dom (init_vm real_dom [''PSH'', ''X'']))"
    using operations_halts_iff [of "init_vm real_dom [''PSH'', ''X'']" "IPsh ''X''" "[]" real_dom]
      vm_inv_init [of "[''PSH'', ''X'']" real_dom]
    by (simp add: stod_simps)
  moreover have "isRunning (operations real_dom (init_vm real_dom [''POP'']))"
    using operations_halts_iff [of "init_vm real_dom [''POP'']" IPop "[]" real_dom]
      vm_inv_init [of "[''POP'']" real_dom]
    by simp
  ultimately show ?thesis by blast
qed

text \<open>
  C38. Stack bound: on a program that decodes, the final stack holds at most as many
  values as the program has PSH instructions.
\<close>

theorem run_stack_bound:
  assumes "parse prog = Some ins" and "prog \<noteq> []"
  shows "\<exists>s. run d prog = Some s \<and> length (stack s) \<le> length (filter is_psh ins)"
proof -
  have p: "prog = concat (map tokens_of ins)" and wf: "\<forall>i\<in>set ins. wf_instr i"
    using parse_sound [OF assms(1)] by simp_all
  have "map_option vm_abs (run d prog) = Some (aexec d ins (vm_abs (init_vm d prog)))"
    using loop_refines [of "init_vm d prog" ins d] vm_inv_init [of prog d, OF assms(2)] p wf
    by (simp add: run_def)
  then obtain s where r: "run d prog = Some s" and a: "vm_abs s = aexec d ins (vm_abs (init_vm d prog))"
    by auto
  have "length (astack (aexec d ins (vm_abs (init_vm d prog)))) \<le> length (filter is_psh ins)"
    using aexec_stack_length [of d ins "vm_abs (init_vm d prog)"] by (simp add: vm_abs_def)
  with r arg_cong [OF a, of astack] show ?thesis by auto
qed

theorem run_stack_bound_witness:
  "\<exists>s. run real_dom [''PSH'', ''1'', ''HLT''] = Some s \<and>
       length (stack s) \<le> length (filter is_psh [IPsh ''1'', IHlt])"
  using run_stack_bound [of "[''PSH'', ''1'', ''HLT'']" "[IPsh ''1'', IHlt]" real_dom]
  by (simp add: parse.simps decode_def)

text \<open>
  C27. A program that decodes and contains no instruction that can halt the machine (no
  HLT, no PSH of an unparsable literal, no MOV or SET naming S) is read to its last token:
  the run ends, the counter is the number of tokens plus one, and the output ends with
  "not enough instructions" at that count followed by the final dump.
\<close>

theorem run_consumes_all:
  assumes "parse prog = Some ins" and "prog \<noteq> []" and "\<forall>i\<in>set ins. \<not> fatal_instr d i []"
  shows "\<exists>s. run d prog = Some s \<and> \<not> isRunning s \<and> commandCount s = length prog + 1 \<and>
             (\<exists>pre. out s = pre @ [Error (length prog + 1) NotEnoughInstructions,
                                  Finished (rev (stack s)) (drop 1 (registers s))])"
proof -
  have p: "prog = concat (map tokens_of ins)" and wf: "\<forall>i\<in>set ins. wf_instr i"
    using parse_sound [OF assms(1)] by simp_all
  have "map_option vm_abs (run d prog) = Some (aexec d ins (vm_abs (init_vm d prog)))"
    using loop_refines [of "init_vm d prog" ins d] vm_inv_init [of prog d, OF assms(2)] p wf
    by (simp add: run_def)
  then obtain s where r: "run d prog = Some s" and a: "vm_abs s = aexec d ins (vm_abs (init_vm d prog))"
    by auto
  have n0: "\<not> ahalted (vm_abs (init_vm d prog))" and c0: "acount (vm_abs (init_vm d prog)) = 0"
    by (simp_all add: vm_abs_init a_init_def)
  have ok: "\<forall>i\<in>set ins. wf_instr i \<and> \<not> fatal_instr d i []" using wf assms(3) by simp
  have "ahalted (vm_abs s) \<and> acount (vm_abs s) = length prog + 1 \<and>
        (\<exists>pre. aout (vm_abs s) = pre @ [Error (length prog + 1) NotEnoughInstructions,
            Finished (rev (astack (vm_abs s))) (drop 1 (aregs (vm_abs s)))])"
    unfolding a using aexec_runs_off [OF n0 ok] c0 p by simp
  with r show ?thesis by (simp add: vm_abs_def)
qed

theorem run_consumes_all_witness:
  "\<exists>s. run real_dom [''PSH'', ''2'', ''NOP''] = Some s \<and> \<not> isRunning s \<and> commandCount s = 4 \<and>
       (\<exists>pre. out s = pre @ [Error 4 NotEnoughInstructions,
                            Finished (rev (stack s)) (drop 1 (registers s))])"
  using run_consumes_all [of "[''PSH'', ''2'', ''NOP'']" "[IPsh ''2'', INop]" real_dom]
  by (simp add: parse.simps decode_def stod_simps numeral_eq_Suc)

end
