(* ===== verification/Double.thy ===== *)
theory Double
  imports Run
begin

text \<open>
  A model of the C++ \<^verbatim>\<open>double\<close> closer to IEEE 754 than the exact reals of
  \<^theory_text>\<open>Numeric\<close>: a value is a finite real, the negative zero \<open>NZero\<close> (\<open>Fin 0\<close> is
  \<open>+0\<close>), an infinity or NaN (\<open>xreal\<close>). The operations follow IEEE 754 and C99
  Annex F on the special values and on the sign of zero (NaN propagates, \<open>inf - inf\<close>
  and \<open>0 * inf\<close> are NaN, an exact zero sum is \<open>+0\<close> unless both addends are \<open>-0\<close>,
  products and quotients take the exclusive or of the signs, \<^verbatim>\<open>sqrt(-0)\<close> is \<open>-0\<close>,
  \<^verbatim>\<open>sqrt\<close>, \<^verbatim>\<open>log10\<close> and \<^verbatim>\<open>log\<close> of a negative are NaN, \<^verbatim>\<open>log(0)\<close> is
  \<open>-inf\<close>, the special cases of \<^verbatim>\<open>pow\<close>). A finite result is rounded to nearest,
  ties to even, on the grid of doubles, subnormals included, and becomes an infinity when
  its magnitude reaches the overflow threshold \<open>(2 - 2^-53) * 2^1023\<close> (\<open>rnd_s\<close>). The
  basic operations and \<^verbatim>\<open>sqrt\<close> are correctly rounded as IEEE 754 requires;
  \<^verbatim>\<open>pow\<close>, \<^verbatim>\<open>exp\<close> and the logarithms are modelled as correctly rounded too, which
  the C library promises only to within an ulp. NaN carries no sign or payload.
  \<open>stod_double\<close> is \<^verbatim>\<open>std::stod\<close>: an optional sign, then \<^verbatim>\<open>INF\<close>/\<^verbatim>\<open>INFINITY\<close>,
  \<^verbatim>\<open>NAN\<close>, a hexadecimal literal \<^verbatim>\<open>0X...[P...]\<close> or a decimal one; a value out of the
  range of normal doubles makes \<^verbatim>\<open>strtod\<close> set \<^verbatim>\<open>ERANGE\<close>, and \<^verbatim>\<open>std::stod\<close>
  throws \<^verbatim>\<open>std::out_of_range\<close> (caught by \<^verbatim>\<open>getNumber\<close>: "number incorrect").
\<close>

datatype xreal = Fin real | NZero | PInf | NInf | NaN

definition ovf_bound :: real where
  "ovf_bound = (2 - 1 / 2 ^ 53) * 2 ^ 1023"

definition min_normal :: real where
  "min_normal = 1 / 2 ^ 1022"

text \<open>
  Round to nearest, ties to even, on the grid of doubles: \<open>ulp_exp x\<close> is the exponent of
  the last place of a double of the magnitude of \<open>x\<close> (53 significant bits, at least
  \<open>-1074\<close>, so subnormal results are rounded to the subnormal grid and tiny ones to 0).
  A result whose magnitude reaches \<open>ovf_bound\<close> rounds to an infinity.
\<close>

definition round_even :: "real \<Rightarrow> int" where
  "round_even y =
     (let f = \<lfloor>y\<rfloor>; r = y - of_int f
      in if r < 1 / 2 then f else if 1 / 2 < r then f + 1 else if even f then f else f + 1)"

definition ulp_exp :: "real \<Rightarrow> int" where
  "ulp_exp x = max (\<lfloor>log 2 \<bar>x\<bar>\<rfloor> - 52) (- 1074)"

definition round53 :: "real \<Rightarrow> real" where
  "round53 x =
     (if x = 0 then 0
      else of_int (round_even (x / 2 powr of_int (ulp_exp x))) * 2 powr of_int (ulp_exp x))"

text \<open>
  \<open>mkfin neg v\<close> is the double of the already rounded value \<open>v\<close>; a zero carries the sign
  \<open>neg\<close>. \<open>rnd_s zneg x\<close> rounds \<open>x\<close>; when \<open>x\<close> is exactly zero the sign of the zero is
  \<open>zneg\<close> (it depends on the operation), otherwise a result that rounds to zero keeps the
  sign of \<open>x\<close>.
\<close>

definition mkfin :: "bool \<Rightarrow> real \<Rightarrow> xreal" where
  "mkfin neg v = (if v = 0 then (if neg then NZero else Fin 0) else Fin v)"

definition rnd_s :: "bool \<Rightarrow> real \<Rightarrow> xreal" where
  "rnd_s zneg x =
     (if ovf_bound \<le> x then PInf else if x \<le> - ovf_bound then NInf
      else mkfin (if x = 0 then zneg else x < 0) (round53 x))"

definition rnd :: "real \<Rightarrow> xreal" where
  "rnd x = rnd_s False x"

definition sinf :: "bool \<Rightarrow> xreal" where
  "sinf neg = (if neg then NInf else PInf)"

text \<open>Classification of a double: its finite value, its sign bit, infinities, zeros.\<close>

fun fv :: "xreal \<Rightarrow> real" where
  "fv (Fin a) = a"
| "fv _ = 0"

fun is_fin :: "xreal \<Rightarrow> bool" where
  "is_fin (Fin a) = True"
| "is_fin NZero = True"
| "is_fin _ = False"

fun signbit :: "xreal \<Rightarrow> bool" where
  "signbit (Fin a) = (a < 0)"
| "signbit NZero = True"
| "signbit NInf = True"
| "signbit _ = False"

definition is_inf :: "xreal \<Rightarrow> bool" where
  "is_inf x \<longleftrightarrow> x = PInf \<or> x = NInf"

definition is_zero :: "xreal \<Rightarrow> bool" where
  "is_zero x \<longleftrightarrow> x = Fin 0 \<or> x = NZero"

fun x_neg :: "xreal \<Rightarrow> xreal" where
  "x_neg (Fin a) = mkfin (a = 0) (- a)"
| "x_neg NZero = Fin 0"
| "x_neg PInf = NInf"
| "x_neg NInf = PInf"
| "x_neg NaN = NaN"

text \<open>
  Addition: an exact zero sum is \<open>+0\<close> except for \<open>-0 + -0\<close> (round to nearest).
\<close>

definition x_add :: "xreal \<Rightarrow> xreal \<Rightarrow> xreal" where
  "x_add x y =
     (if x = NaN \<or> y = NaN then NaN
      else if is_inf x \<or> is_inf y then
        (if x = PInf \<and> y = NInf \<or> x = NInf \<and> y = PInf then NaN
         else if x = PInf \<or> y = PInf then PInf else NInf)
      else rnd_s (x = NZero \<and> y = NZero) (fv x + fv y))"

definition x_sub :: "xreal \<Rightarrow> xreal \<Rightarrow> xreal" where
  "x_sub a b = x_add a (x_neg b)"

definition x_mul :: "xreal \<Rightarrow> xreal \<Rightarrow> xreal" where
  "x_mul x y =
     (let neg = (signbit x \<noteq> signbit y) in
      if x = NaN \<or> y = NaN then NaN
      else if is_inf x \<or> is_inf y then (if is_zero x \<or> is_zero y then NaN else sinf neg)
      else rnd_s neg (fv x * fv y))"

definition x_div :: "xreal \<Rightarrow> xreal \<Rightarrow> xreal" where
  "x_div x y =
     (let neg = (signbit x \<noteq> signbit y) in
      if x = NaN \<or> y = NaN then NaN
      else if is_inf x then (if is_inf y then NaN else sinf neg)
      else if is_inf y then mkfin neg 0
      else if is_zero y then (if is_zero x then NaN else sinf neg)
      else rnd_s neg (fv x / fv y))"

fun x_sqrt :: "xreal \<Rightarrow> xreal" where
  "x_sqrt (Fin a) = (if a < 0 then NaN else Fin (round53 (sqrt a)))"
| "x_sqrt NZero = NZero"
| "x_sqrt PInf = PInf"
| "x_sqrt _ = NaN"

fun x_log :: "(real \<Rightarrow> real) \<Rightarrow> xreal \<Rightarrow> xreal" where
  "x_log f (Fin a) = (if a < 0 then NaN else if a = 0 then NInf else rnd (f a))"
| "x_log f NZero = NInf"
| "x_log f PInf = PInf"
| "x_log f _ = NaN"

fun x_exp :: "xreal \<Rightarrow> xreal" where
  "x_exp (Fin a) = rnd (exp a)"
| "x_exp NZero = Fin 1"
| "x_exp PInf = PInf"
| "x_exp NInf = Fin 0"
| "x_exp NaN = NaN"

definition is_int :: "real \<Rightarrow> bool" where
  "is_int b \<longleftrightarrow> of_int \<lfloor>b\<rfloor> = b"

definition odd_int :: "real \<Rightarrow> bool" where
  "odd_int b \<longleftrightarrow> is_int b \<and> odd \<lfloor>b\<rfloor>"

text \<open>
  \<^verbatim>\<open>pow(x, y)\<close> by the cases of C99 F.9.4.4, in their order; \<open>oy\<close> says that \<open>y\<close> is a
  finite odd integer, and a finite negative base needs an integer exponent.
\<close>

definition x_pow :: "xreal \<Rightarrow> xreal \<Rightarrow> xreal" where
  "x_pow x y =
     (let oy = (is_fin y \<and> odd_int (fv y)) in
      if is_zero y \<or> x = Fin 1 then Fin 1
      else if x = NaN \<or> y = NaN then NaN
      else if is_zero x then
        (if signbit y then (if oy then sinf (signbit x) else PInf)
         else (if oy then x else Fin 0))
      else if x = Fin (-1) \<and> is_inf y then Fin 1
      else if y = NInf then (if \<bar>fv x\<bar> < 1 \<and> is_fin x then PInf else Fin 0)
      else if y = PInf then (if \<bar>fv x\<bar> < 1 \<and> is_fin x then Fin 0 else PInf)
      else if x = NInf then
        (if fv y < 0 then mkfin oy 0 else if oy then NInf else PInf)
      else if x = PInf then (if fv y < 0 then Fin 0 else PInf)
      else if fv x < 0 then
        (if is_int (fv y) then rnd_s oy (if oy then - ((- fv x) powr fv y) else (- fv x) powr fv y)
         else NaN)
      else rnd (fv x powr fv y))"

fun x_nonneg :: "xreal \<Rightarrow> bool" where
  "x_nonneg (Fin a) = (0 \<le> a)"
| "x_nonneg NZero = True"
| "x_nonneg PInf = True"
| "x_nonneg _ = False"

subsection \<open>\<^verbatim>\<open>std::stod\<close>\<close>

definition is_hex :: "char \<Rightarrow> bool" where
  "is_hex c \<longleftrightarrow> is_digit c \<or> (65::nat) \<le> of_char (toupper_c c) \<and> (of_char (toupper_c c) :: nat) \<le> 70"

definition hex_val :: "char \<Rightarrow> nat" where
  "hex_val c = (if is_digit c then digit_val c else of_char (toupper_c c) - 55)"

fun scan_hexdigits :: "string \<Rightarrow> nat \<Rightarrow> nat \<Rightarrow> nat \<times> nat \<times> string" where
  "scan_hexdigits [] v n = (v, n, [])"
| "scan_hexdigits (c # cs) v n =
     (if is_hex c then scan_hexdigits cs (16 * v + hex_val c) (Suc n) else (v, n, c # cs))"

definition scan_bexponent :: "string \<Rightarrow> int" where
  "scan_bexponent cs =
     (case cs of
        [] \<Rightarrow> 0
      | c # r \<Rightarrow>
          if toupper_c c = CHR ''P'' then
            (let (neg, r1) = scan_sign r; (v, n, _) = scan_digits r1 0 0
             in if n = 0 then 0 else if neg then - int v else int v)
          else 0)"

text \<open>\<open>scan_hex r\<close>: the value of the hexadecimal literal after \<^verbatim>\<open>0X\<close>, if it has a digit.\<close>

definition scan_hex :: "string \<Rightarrow> real option" where
  "scan_hex r =
     (let (ipart, ni, r2) = scan_hexdigits r 0 0;
          (fpart, nf, r3) =
            (case r2 of
               [] \<Rightarrow> (0, 0, [])
             | c # r' \<Rightarrow> if c = CHR ''.'' then scan_hexdigits r' 0 0 else (0, 0, r2));
          e = scan_bexponent r3;
          m = real ipart + real fpart / 16 ^ nf
      in if ni + nf = 0 then None
         else Some (m * (if 0 \<le> e then 2 ^ nat e else 1 / 2 ^ nat (- e))))"

definition in_range :: "bool \<Rightarrow> real \<Rightarrow> xreal option" where
  "in_range neg v =
     (if ovf_bound \<le> \<bar>v\<bar> \<or> (v \<noteq> 0 \<and> \<bar>v\<bar> < min_normal) then None
      else Some (mkfin neg (round53 v)))"

definition stod_double :: "string \<Rightarrow> xreal option" where
  "stod_double tok =
     (let (neg, r) = scan_sign tok; u = map toupper_c r in
      if prefix ''INF'' u then Some (sinf neg)
      else if prefix ''NAN'' u then Some NaN
      else (case (if prefix ''0X'' u then scan_hex (drop 2 r) else None) of
              Some v \<Rightarrow> in_range neg (if neg then - v else v)
            | None \<Rightarrow> (case stod_real tok of None \<Rightarrow> None | Some v \<Rightarrow> in_range neg v)))"

definition double_dom :: "xreal num_dom" where
  "double_dom =
     \<lparr>n_zero = Fin 0, n_add = x_add, n_sub = x_sub, n_mul = x_mul, n_div = x_div,
      n_pow = x_pow, n_sqrt = x_sqrt, n_log10 = x_log (log 10), n_ln = x_log ln,
      n_exp = x_exp, n_is_zero = is_zero, n_nonneg = x_nonneg,
      n_stod = stod_double\<rparr>"

subsection \<open>Properties of the instance\<close>

lemma double_dom_simps [simp]:
  "n_zero double_dom = Fin 0" "n_add double_dom = x_add" "n_sub double_dom = x_sub"
  "n_mul double_dom = x_mul" "n_div double_dom = x_div" "n_pow double_dom = x_pow"
  "n_sqrt double_dom = x_sqrt" "n_log10 double_dom = x_log (log 10)" "n_ln double_dom = x_log ln"
  "n_exp double_dom = x_exp" "n_is_zero double_dom = is_zero"
  "n_nonneg double_dom = x_nonneg" "n_stod double_dom = stod_double"
  by (simp_all add: double_dom_def)

lemma one_less_ovf_bound: "1 < ovf_bound"
  by (simp add: ovf_bound_def)

text \<open>
  C39. LOG and LON only reject zero: LOG on a register holding a negative value stores
  NaN in it, prints nothing and keeps the machine running.
\<close>

theorem log_negative_nan:
  assumes "pending s = ''LOG'' # t # rest" and "map_of registerSet t = Some r" and "0 < r"
    and "registers s ! r = Fin x" and "x < 0"
  shows "operations double_dom s = (advance (advance s))\<lparr>registers := (registers s)[r := NaN]\<rparr>"
  using assms registerSet_range [OF assms(2)] by (simp add: cycle_simps exec_LOG_def is_zero_def)

theorem log_negative_nan_witness:
  "operations double_dom
     ((init_vm double_dom [''LOG'', ''A''])\<lparr>registers := [Fin 0, Fin (-1), Fin 0, Fin 0, Fin 0, Fin 0, Fin 0]\<rparr>) =
   (advance (advance ((init_vm double_dom [''LOG'', ''A''])\<lparr>registers := [Fin 0, Fin (-1), Fin 0, Fin 0, Fin 0, Fin 0, Fin 0]\<rparr>)))
     \<lparr>registers := [Fin 0, NaN, Fin 0, Fin 0, Fin 0, Fin 0, Fin 0]\<rparr>"
  using log_negative_nan
    [of "(init_vm double_dom [''LOG'', ''A''])\<lparr>registers := [Fin 0, Fin (-1), Fin 0, Fin 0, Fin 0, Fin 0, Fin 0]\<rparr>"
        "''A''" "[]" 1 "-1"]
  by (simp add: registerSet_def)

text \<open>
  C40. Overflow: register-mode POW whose exact result reaches the overflow threshold of
  double stores \<open>+inf\<close> in the destination, with no diagnostic, and the machine runs on.
\<close>

theorem pow_overflow_register:
  assumes "pending s = ''POW'' # ta # tb # tc # rest"
    and "map_of registerSet ta = Some a" and "map_of registerSet tb = Some b"
    and "map_of registerSet tc = Some c" and "0 < a" and "0 < b" and "0 < c" and "a \<noteq> b"
    and "registers s ! a = Fin x" and "registers s ! b = Fin y" and "0 < x"
    and "ovf_bound \<le> x powr y"
  shows "registers (operations double_dom s) = (registers s)[c := PInf] \<and>
         isRunning (operations double_dom s) = isRunning s \<and> out (operations double_dom s) = out s"
proof -
  have r: "a \<le> 6" "b \<le> 6" "c \<le> 6" using registerSet_range assms(2-4) by blast+
  have "x \<noteq> 1" and "y \<noteq> 0" using assms(11,12) one_less_ovf_bound by auto
  with assms(11,12) have "x_pow (Fin x) (Fin y) = PInf"
    by (simp add: x_pow_def rnd_def rnd_s_def is_zero_def is_inf_def Let_def)
  with assms r show ?thesis by (simp add: cycle_simps exec_POW_def)
qed

theorem pow_overflow_register_witness:
  "registers (operations double_dom
     ((init_vm double_dom [''POW'', ''A'', ''B'', ''C''])\<lparr>registers := [Fin 0, Fin 10, Fin 309, Fin 0, Fin 0, Fin 0, Fin 0]\<rparr>)) =
   [Fin 0, Fin 10, Fin 309, PInf, Fin 0, Fin 0, Fin 0]"
proof -
  have "ovf_bound \<le> (10::real) powr 309" by (simp add: ovf_bound_def powr_numeral)
  then show ?thesis
    using pow_overflow_register
      [of "(init_vm double_dom [''POW'', ''A'', ''B'', ''C''])\<lparr>registers := [Fin 0, Fin 10, Fin 309, Fin 0, Fin 0, Fin 0, Fin 0]\<rparr>"
          "''A''" "''B''" "''C''" "[]" 1 2 3 10 309]
    by (simp add: registerSet_def)
qed

end
