(* ===== verification/Loader.thy ===== *)
theory Loader
  imports Run
begin

text \<open>
  The loader and the command line of \<^verbatim>\<open>main()\<close> (lines 868--898): the argument check,
  the \<^verbatim>\<open>.mk\<close> test, reading the file with \<^verbatim>\<open>file >> command\<close>, upper-casing each
  token with \<^verbatim>\<open>toupper\<close>, and the interpreter loop on the resulting token vector. The file
  system is a function from file names to contents (\<open>None\<close>: the file cannot be opened);
  characters are classified as in the C locale (\<open>isspace_c\<close> here, \<open>islower_c\<close> and
  \<open>toupper_c\<close> in \<^theory_text>\<open>Numeric\<close>, where \<^verbatim>\<open>std::stod\<close> also needs them).
\<close>

definition isspace_c :: "char \<Rightarrow> bool" where
  "isspace_c c \<longleftrightarrow> (of_char c :: nat) \<in> {9, 10, 11, 12, 13, 32}"

text \<open>
  \<open>tokenize\<close> is the loop \<^verbatim>\<open>while (file >> command)\<close>: each extraction skips white
  space and then reads characters up to the next white space or the end of the file.
\<close>

function tokenize :: "string \<Rightarrow> string list" where
  "tokenize [] = []"
| "tokenize (c # cs) =
     (if isspace_c c then tokenize cs
      else (c # takeWhile (\<lambda>x. \<not> isspace_c x) cs) # tokenize (dropWhile (\<lambda>x. \<not> isspace_c x) cs))"
  by pat_completeness auto
termination
  by (relation "measure length") (auto simp: le_imp_less_Suc length_dropWhile_le)

definition load :: "string \<Rightarrow> string list" where
  "load src = map (map toupper_c) (tokenize src)"

text \<open>\<open>has_substr p s\<close> is \<^verbatim>\<open>s.find(p) != std::string::npos\<close>.\<close>

fun has_substr :: "string \<Rightarrow> string \<Rightarrow> bool" where
  "has_substr p [] = (p = [])"
| "has_substr p (c # cs) = (prefix p (c # cs) \<or> has_substr p cs)"

datatype main_err = NoInputFile | WrongExtension | CouldNotRead string

text \<open>
  \<open>main_vm d args fs\<close>: \<open>args\<close> are \<^verbatim>\<open>argv[1..]\<close>; an \<open>Inl\<close> result is one of the
  three early \<^verbatim>\<open>return -1\<close> with its message, an \<open>Inr\<close> result the interpreter run
  on the loaded tokens (after which \<^verbatim>\<open>main\<close> returns 0, or \<^verbatim>\<open>execution()\<close> exits 0).
\<close>

definition main_vm ::
  "'v num_dom \<Rightarrow> string list \<Rightarrow> (string \<Rightarrow> string option) \<Rightarrow> main_err + 'v vm option" where
  "main_vm d args fs =
     (case args of
        [] \<Rightarrow> Inl NoInputFile
      | filename # _ \<Rightarrow>
          if \<not> has_substr ''.mk'' filename then Inl WrongExtension
          else (case fs filename of
                  None \<Rightarrow> Inl (CouldNotRead filename)
                | Some src \<Rightarrow> Inr (run d (load src))))"

definition exit_status :: "main_err + 'v vm option \<Rightarrow> int" where
  "exit_status r = (case r of Inl _ \<Rightarrow> -1 | Inr _ \<Rightarrow> 0)"

subsection \<open>Character classes\<close>

lemma toupper_c_space [simp]: "isspace_c (toupper_c c) = isspace_c c"
  by (auto simp: toupper_c_def isspace_c_def islower_c_def)

lemma toupper_c_not_lower [simp]: "\<not> islower_c (toupper_c c)"
  by (auto simp: toupper_c_def islower_c_def)

lemma toupper_c_idem [simp]: "toupper_c (toupper_c c) = toupper_c c"
  using toupper_c_not_lower [of c] by (simp only: toupper_c_def [of "toupper_c c"] if_False)

lemma tokenize_map_toupper:
  "tokenize (map toupper_c src) = map (map toupper_c) (tokenize src)"
proof (induction src rule: tokenize.induct)
  case 1
  then show ?case by simp
next
  case (2 c cs)
  have tw: "takeWhile (\<lambda>x. \<not> isspace_c x) (map toupper_c cs) =
            map toupper_c (takeWhile (\<lambda>x. \<not> isspace_c x) cs)"
    by (induction cs) simp_all
  have dw: "dropWhile (\<lambda>x. \<not> isspace_c x) (map toupper_c cs) =
            map toupper_c (dropWhile (\<lambda>x. \<not> isspace_c x) cs)"
    by (induction cs) simp_all
  show ?case
  proof (cases "isspace_c c")
    case True
    with "2.IH"(1) show ?thesis by simp
  next
    case False
    with "2.IH"(2) show ?thesis by (simp only: list.map tokenize.simps toupper_c_space tw dw if_False) simp
  qed
qed

lemma load_upper: "load src = tokenize (map toupper_c src)"
  by (simp add: load_def tokenize_map_toupper)

lemma tokenize_tokens:
  "t \<in> set (tokenize src) \<Longrightarrow> t \<noteq> [] \<and> (\<forall>c\<in>set t. \<not> isspace_c c)"
proof (induction src rule: tokenize.induct)
  case 1
  then show ?case by simp
next
  case (2 c cs)
  show ?case
  proof (cases "isspace_c c")
    case True
    with "2.IH"(1) "2.prems" show ?thesis by simp
  next
    case False
    then have "t = c # takeWhile (\<lambda>x. \<not> isspace_c x) cs \<or>
               t \<in> set (tokenize (dropWhile (\<lambda>x. \<not> isspace_c x) cs))"
      using "2.prems" by simp
    then show ?thesis
    proof
      assume "t = c # takeWhile (\<lambda>x. \<not> isspace_c x) cs"
      with False show ?thesis by (auto dest: set_takeWhileD)
    next
      assume "t \<in> set (tokenize (dropWhile (\<lambda>x. \<not> isspace_c x) cs))"
      with False "2.IH"(2) show ?thesis by blast
    qed
  qed
qed

subsection \<open>The loaded tokens\<close>

text \<open>
  C29. Every token the loader produces is non-empty, contains no white space and no
  lower-case letter: the token stream contract of section 6 of the spec.
\<close>

theorem load_tokens_wf:
  "\<forall>t\<in>set (load src). t \<noteq> [] \<and> (\<forall>c\<in>set t. \<not> isspace_c c \<and> \<not> islower_c c)"
proof
  fix t assume "t \<in> set (load src)"
  then obtain t' where t: "t = map toupper_c t'" and t': "t' \<in> set (tokenize src)"
    by (auto simp: load_def)
  from tokenize_tokens [OF t'] t show "t \<noteq> [] \<and> (\<forall>c\<in>set t. \<not> isspace_c c \<and> \<not> islower_c c)"
    by auto
qed

theorem load_tokens_wf_witness:
  "hd (load ''psh 5'') \<noteq> [] \<and> \<not> isspace_c (hd (hd (load ''psh 5''))) \<and>
   \<not> islower_c (hd (hd (load ''psh 5'')))"
proof -
  have "load ''psh 5'' \<noteq> []" by (simp add: load_def isspace_c_def)
  then have "hd (load ''psh 5'') \<in> set (load ''psh 5'')" by simp
  with load_tokens_wf [of "''psh 5''"] show ?thesis by (cases "hd (load ''psh 5'')") auto
qed

text \<open>
  C30. Round trip: a list of tokens that are non-empty and free of white space, written
  out each followed by a blank, is read back by the \<^verbatim>\<open>file >> command\<close> loop as
  the same list.
\<close>

theorem tokenize_unwords:
  assumes "\<forall>t\<in>set ts. t \<noteq> [] \<and> (\<forall>c\<in>set t. \<not> isspace_c c)"
  shows "tokenize (concat (map (\<lambda>t. t @ '' '') ts)) = ts"
  using assms
proof (induction ts)
  case Nil
  then show ?case by simp
next
  case (Cons t ts)
  have sp: "isspace_c (CHR '' '')" by (simp add: isspace_c_def)
  have t: "t \<noteq> []" "\<forall>x\<in>set t. \<not> isspace_c x" using Cons.prems by simp_all
  then obtain a t' where at: "t = a # t'" by (cases t) auto
  let ?rest = "concat (map (\<lambda>t. t @ '' '') ts)"
  have tw: "takeWhile (\<lambda>x. \<not> isspace_c x) (t' @ CHR '' '' # ?rest) = t'"
    using sp t at by (simp add: takeWhile_append2)
  have dw: "dropWhile (\<lambda>x. \<not> isspace_c x) (t' @ CHR '' '' # ?rest) = CHR '' '' # ?rest"
    using sp t at by (simp add: dropWhile_append2)
  have "tokenize (t @ CHR '' '' # ?rest) = t # tokenize ?rest"
    using sp t at by (simp add: tw dw)
  with Cons show ?case by simp
qed

theorem tokenize_unwords_witness:
  "tokenize (concat (map (\<lambda>t. t @ '' '') [''psh'', ''5''])) = [''psh'', ''5'']"
  using tokenize_unwords [of "[''psh'', ''5'']"] by (simp add: isspace_c_def)

text \<open>
  C31. The source language is case-insensitive: two files that agree up to the case of
  their letters load to the same token vector.
\<close>

theorem load_case_insensitive:
  assumes "map toupper_c a = map toupper_c b"
  shows "load a = load b"
  using assms by (simp add: load_upper)

theorem load_case_insensitive_witness:
  "load ''psh 5'' = load ''PsH 5''"
  using load_case_insensitive [of "''psh 5''" "''PsH 5''"]
  by (simp add: toupper_c_def islower_c_def char_of_def bit_simps)

text \<open>
  C32. The extension test \<^verbatim>\<open>filename.find(".mk") != npos\<close> is the library's
  contiguous-sublist relation: the name contains \<^verbatim>\<open>.mk\<close> somewhere, not
  necessarily at its end.
\<close>

theorem has_substr_is_sublist: "has_substr p s \<longleftrightarrow> sublist p s"
  by (induction s) (simp_all add: sublist_Cons_right)

subsection \<open>The command line\<close>

text \<open>
  C33. The three early exits of \<^verbatim>\<open>main()\<close>: no argument, a name without
  \<^verbatim>\<open>.mk\<close>, and a file that cannot be opened, each with its message and status -1,
  before any token is read.
\<close>

theorem main_vm_errors:
  "main_vm d [] fs = Inl NoInputFile \<and>
   (\<not> has_substr ''.mk'' f \<longrightarrow> main_vm d (f # r) fs = Inl WrongExtension) \<and>
   (has_substr ''.mk'' f \<and> fs f = None \<longrightarrow> main_vm d (f # r) fs = Inl (CouldNotRead f)) \<and>
   (\<forall>e. exit_status (Inl e :: main_err + 'v vm option) = -1)"
  by (simp add: main_vm_def exit_status_def)

theorem main_vm_errors_witness:
  "main_vm real_dom [] (\<lambda>_. None) = Inl NoInputFile \<and>
   main_vm real_dom [''prog.txt''] (\<lambda>_. None) = Inl WrongExtension \<and>
   main_vm real_dom [''prog.mk''] (\<lambda>_. None) = Inl (CouldNotRead ''prog.mk'')"
  using main_vm_errors [of real_dom "\<lambda>_. None" "''prog.txt''" "[]"]
    main_vm_errors [of real_dom "\<lambda>_. None" "''prog.mk''" "[]"]
  by simp blast

text \<open>
  C34. Composition of loader and interpreter: when the file is accepted, readable and
  holds at least one token, \<^verbatim>\<open>main()\<close> runs the interpreter on exactly the loaded
  tokens, the run halts with the final dump as its last line, and the process status is 0.
\<close>

theorem main_vm_runs:
  assumes "has_substr ''.mk'' f" and "fs f = Some src" and "load src \<noteq> []"
  shows "\<exists>s. main_vm d (f # r) fs = Inr (Some s) \<and> code s = load src \<and>
             \<not> isRunning s \<and> dumped s \<and> exit_status (main_vm d (f # r) fs) = 0"
proof -
  obtain s where rs: "run d (load src) = Some s" using run_Some [OF assms(3)] by blast
  have m: "main_vm d (f # r) fs = Inr (Some s)"
    using assms(1,2) rs by (simp add: main_vm_def)
  show ?thesis
    using m run_result(2-4) [OF rs assms(3)] by (simp add: exit_status_def)
qed

theorem main_vm_runs_witness:
  "\<exists>s. main_vm real_dom [''a.mk''] (\<lambda>_. Some ''hlt'') = Inr (Some s) \<and> code s = load ''hlt'' \<and>
       \<not> isRunning s \<and> dumped s \<and> exit_status (main_vm real_dom [''a.mk''] (\<lambda>_. Some ''hlt'')) = 0"
  using main_vm_runs [of "''a.mk''" "\<lambda>_. Some ''hlt''" "''hlt''" real_dom "[]"]
  by (simp add: load_def isspace_c_def)

end
