(* ===== verification/Output.thy ===== *)
theory Output
  imports Double Loader
begin

text \<open>
  The text VirtualMK writes to \<^verbatim>\<open>std::cout\<close>. The machine model records each printed
  line as a \<open>msg\<close> event; \<open>msg_text\<close> renders an event as the characters the C++
  prints for it: \<^verbatim>\<open>printVector\<close>/\<^verbatim>\<open>reversePrintVector\<close> (\<open>vec_text\<close>),
  \<^verbatim>\<open>printRegisters\<close> (\<open>reg_text\<close>), the diagnostics of the resolvers and of
  \<^verbatim>\<open>operations()\<close> (\<open>err_text\<close>), \<^verbatim>\<open>execution()\<close>, PRT, NOP and POP, and the
  messages of \<^verbatim>\<open>main()\<close>. Numbers are printed by a formatter passed as a parameter:
  \<open>nat_str\<close> prints the \<^verbatim>\<open>int\<close> counter, \<open>fmt_g\<close> is \<^verbatim>\<open>operator<<\<close> on a
  \<^verbatim>\<open>double\<close> in the default stream state (\<^verbatim>\<open>%g\<close> with precision 6: six significant
  digits rounded to nearest-even, fixed notation when the decimal exponent is in
  \<open>[-4, 6)\<close> and scientific notation otherwise, trailing zeros removed), and \<open>fmt_x\<close>
  extends it to the special values of \<open>xreal\<close>.
\<close>

definition nl :: string where
  "nl = [CHR 0x0A]"

fun nat_str :: "nat \<Rightarrow> string" where
  "nat_str n = (if n < 10 then [char_of (48 + n)] else nat_str (n div 10) @ [char_of (48 + n mod 10)])"

declare nat_str.simps [simp del]

subsection \<open>\<^verbatim>\<open>operator<<(double)\<close>\<close>

definition dec_exp :: "real \<Rightarrow> int" where
  "dec_exp a = \<lfloor>log 10 a\<rfloor>"

text \<open>\<open>sig6 a\<close> for \<open>a > 0\<close>: the decimal exponent and the six-digit mantissa of \<open>a\<close> rounded.\<close>

definition sig6 :: "real \<Rightarrow> int \<times> nat" where
  "sig6 a =
     (let x = dec_exp a; m = round_even (a / 10 powr of_int (x - 5))
      in if m = 10 ^ 6 then (x + 1, 10 ^ 5) else (x, nat m))"

definition strip_zeros :: "string \<Rightarrow> string" where
  "strip_zeros fr = rev (dropWhile (\<lambda>c. c = CHR ''0'') (rev fr))"

definition with_frac :: "string \<Rightarrow> string \<Rightarrow> string" where
  "with_frac ipart fr = (let f = strip_zeros fr in if f = [] then ipart else ipart @ ''.'' @ f)"

definition fmt_fixed :: "int \<Rightarrow> nat \<Rightarrow> string" where
  "fmt_fixed x m =
     (let ds = nat_str m in
      if 0 \<le> x then with_frac (take (nat x + 1) ds) (drop (nat x + 1) ds)
      else with_frac ''0'' (replicate (nat (- x) - 1) (CHR ''0'') @ ds))"

definition fmt_exp :: "int \<Rightarrow> string" where
  "fmt_exp x =
     ''e'' @ (if x < 0 then ''-'' else ''+'') @
     (let ds = nat_str (nat \<bar>x\<bar>) in if length ds < 2 then ''0'' @ ds else ds)"

definition fmt_sci :: "int \<Rightarrow> nat \<Rightarrow> string" where
  "fmt_sci x m = (let ds = nat_str m in with_frac (take 1 ds) (drop 1 ds) @ fmt_exp x)"

definition fmt_g :: "real \<Rightarrow> string" where
  "fmt_g v =
     (if v = 0 then ''0''
      else (if v < 0 then ''-'' else '''') @
           (let (x, m) = sig6 \<bar>v\<bar> in if - 4 \<le> x \<and> x < 6 then fmt_fixed x m else fmt_sci x m))"

fun fmt_x :: "xreal \<Rightarrow> string" where
  "fmt_x (Fin v) = fmt_g v"
| "fmt_x NZero = ''-0''"
| "fmt_x PInf = ''inf''"
| "fmt_x NInf = ''-inf''"
| "fmt_x NaN = ''nan''"

subsection \<open>Printed lines\<close>

definition vec_text :: "('v \<Rightarrow> string) \<Rightarrow> 'v list \<Rightarrow> string" where
  "vec_text f vs = (if vs = [] then ''empty'' else concat (map (\<lambda>v. f v @ '' '') vs)) @ nl"

definition reg_text :: "('v \<Rightarrow> string) \<Rightarrow> 'v list \<Rightarrow> string" where
  "reg_text f rs =
     ''Registers: '' @
     concat (map (\<lambda>(i, v). [char_of (65 + i)] @ '' = '' @ f v @ ''  '') (enumerate (0::nat) rs)) @ nl"

fun err_text :: "('v \<Rightarrow> string) \<Rightarrow> 'v err \<Rightarrow> string" where
  "err_text f NotEnoughInstructions = ''not enough instructions''"
| "err_text f (InstructionUnknown t) = ''instruction unknown: '' @ t"
| "err_text f (RegisterUnknown t) = ''register unknown: '' @ t"
| "err_text f (NumberIncorrect t) = ''number incorrect : '' @ t"
| "err_text f CouldNotPop = ''could not pop value, stack is empty ''"
| "err_text f StackNotEnoughValues = ''stack has not enough values''"
| "err_text f RegisterIncorrect = ''register is incorrect''"
| "err_text f DivideByZero = ''could not be divide by zero''"
| "err_text f (SqrtOfNegative v) = ''could not calculate square root from negative number: '' @ f v"
| "err_text f StackIsEmpty = ''stack is empty''"
| "err_text f StackValueZero = ''value on stack is zero''"
| "err_text f RegisterValueZero = ''register value is zero''"
| "err_text f (UnknownInstruction n) = ''unknown instruction: '' @ nat_str n"

fun msg_text :: "('v \<Rightarrow> string) \<Rightarrow> 'v msg \<Rightarrow> string" where
  "msg_text f (Error n e) = nat_str n @ '' | error: '' @ err_text f e @ nl"
| "msg_text f (Popped v) = ''popped value: '' @ f v @ nl"
| "msg_text f (StackDump st rg) = nl @ ''Stack: '' @ vec_text f st @ reg_text f rg @ nl"
| "msg_text f DoNothing = ''do nothing'' @ nl"
| "msg_text f (Finished st rg) =
     nl @ ''Finished execution '' @ nl @ '' '' @ nl @ ''Stack: '' @ vec_text f st @ reg_text f rg @ nl"

definition stdout_text :: "('v \<Rightarrow> string) \<Rightarrow> 'v msg list \<Rightarrow> string" where
  "stdout_text f msgs = concat (map (msg_text f) msgs)"



subsection \<open>The printers on integers\<close>

lemma nat_str_small: "n < 10 \<Longrightarrow> nat_str n = [char_of (48 + n)]"
  by (simp add: nat_str.simps)

lemma nat_str_mult10: "0 < n \<Longrightarrow> nat_str (n * 10) = nat_str n @ ''0''"
  by (subst nat_str.simps) (simp add: char_of_def bit_simps)

lemma nat_str_pow10: "0 < n \<Longrightarrow> nat_str (n * 10 ^ k) = nat_str n @ replicate k (CHR ''0'')"
proof (induction k)
  case 0
  then show ?case by simp
next
  case (Suc k)
  have "nat_str (n * 10 ^ Suc k) = nat_str (n * 10 ^ k * 10)" by (simp add: ac_simps)
  also have "\<dots> = nat_str (n * 10 ^ k) @ ''0''" using Suc.prems by (simp add: nat_str_mult10)
  finally show ?case using Suc by (simp add: replicate_append_same)
qed

lemma nat_str_length: "10 ^ k \<le> n \<Longrightarrow> n < 10 ^ Suc k \<Longrightarrow> length (nat_str n) = Suc k"
proof (induction k arbitrary: n)
  case 0
  then show ?case by (simp add: nat_str_small)
next
  case (Suc k)
  have "(10::nat) ^ Suc k div 10 \<le> n div 10" using Suc.prems(1) by (rule div_le_mono)
  then have lo: "10 ^ k \<le> n div 10" by simp
  have "n < 10 ^ Suc k * 10" using Suc.prems(2) by (simp add: ac_simps)
  then have hi: "n div 10 < 10 ^ Suc k" by (rule less_mult_imp_div_less)
  note lo hi
  with Suc.IH have "length (nat_str (n div 10)) = Suc k" by blast
  moreover have "(10::nat) \<le> 10 ^ Suc k" by simp
  then have "\<not> n < 10" using Suc.prems(1) by linarith
  ultimately show ?case by (subst nat_str.simps) simp
qed

lemma dec_exp_nat:
  assumes "10 ^ k \<le> n" and "n < 10 ^ Suc k"
  shows "dec_exp (real n) = int k"
proof -
  have "(0::nat) < 10 ^ k" by simp
  then have "0 < real n" using assms(1) by linarith
  moreover have p: "(10::real) powr real k = 10 ^ k" by (simp add: powr_realpow)
  have "real (10 ^ k) \<le> real n" and "real n < real (10 ^ Suc k)"
    using assms by (simp_all only: of_nat_le_iff of_nat_less_iff)
  then have "10 powr real k \<le> real n" and "real n < 10 powr (real k + 1)"
    by (simp_all add: p powr_add)
  ultimately show ?thesis
    by (simp add: dec_exp_def floor_log_eq_powr_iff)
qed

lemma round_even_of_int [simp]: "round_even (of_int m) = m"
  by (simp add: round_even_def)

lemma strip_zeros_replicate [simp]: "strip_zeros (replicate k (CHR ''0'')) = []"
  by (simp add: strip_zeros_def)

lemma fmt_g_nat_digits:
  assumes "k \<le> 5" and "10 ^ k \<le> n" and "n < 10 ^ Suc k"
  shows "fmt_g (real n) = nat_str n"
proof -
  have n0: "0 < n" using assms(2) by (metis le_less_trans not_le power_eq_0_iff zero_neq_numeral
      less_numeral_extra(3) gr0I)
  define m where "m = n * 10 ^ (5 - k)"
  have q: "real n / 10 powr of_int (int k - 5) = real m"
  proof -
    have e: "(of_int (int k - 5) :: real) = - real (5 - k)" using assms(1) by (simp add: of_nat_diff)
    have "(10::real) powr of_int (int k - 5) = 1 / 10 ^ (5 - k)"
      unfolding e by (simp add: powr_minus_divide powr_realpow)
    then show ?thesis by (simp add: m_def)
  qed
  have "m < 10 ^ 6"
  proof -
    have "m < 10 ^ Suc k * 10 ^ (5 - k)" using assms(3) by (simp add: m_def)
    also have "\<dots> = 10 ^ 6" using assms(1) by (simp add: power_add [symmetric])
    finally show ?thesis .
  qed
  have r: "round_even (real n / 10 powr of_int (int k - 5)) = int m"
    unfolding q by (metis of_int_of_nat_eq round_even_of_int)
  have "int m < int (10 ^ 6)" using \<open>m < 10 ^ 6\<close> by (simp only: of_nat_less_iff)
  then have m6: "int m \<noteq> 10 ^ 6" by simp
  have sig: "sig6 (real n) = (int k, m)"
    using r m6 dec_exp_nat [OF assms(2,3)] by (simp add: sig6_def Let_def)
  have ds: "nat_str m = nat_str n @ replicate (5 - k) (CHR ''0'')"
    using n0 by (simp add: m_def nat_str_pow10)
  have len: "length (nat_str n) = Suc k" using assms(2,3) by (rule nat_str_length)
  have "fmt_fixed (int k) m = nat_str n"
    using ds len by (simp add: fmt_fixed_def with_frac_def)
  then show ?thesis
    using n0 assms(1) sig by (simp add: fmt_g_def)
qed

lemma fmt_g_nat:
  assumes "0 < n" and "n < 10 ^ 6"
  shows "fmt_g (real n) = nat_str n"
proof -
  have "(n < 10 ^ 1) \<or> (10 ^ 1 \<le> n \<and> n < 10 ^ 2) \<or> (10 ^ 2 \<le> n \<and> n < 10 ^ 3) \<or>
        (10 ^ 3 \<le> n \<and> n < 10 ^ 4) \<or> (10 ^ 4 \<le> n \<and> n < 10 ^ 5) \<or> (10 ^ 5 \<le> n \<and> n < 10 ^ 6)"
    using assms(2) by auto
  moreover have "1 \<le> n" using assms(1) by simp
  ultimately show ?thesis
    using fmt_g_nat_digits [of 0 n] fmt_g_nat_digits [of 1 n] fmt_g_nat_digits [of 2 n]
      fmt_g_nat_digits [of 3 n] fmt_g_nat_digits [of 4 n] fmt_g_nat_digits [of 5 n]
    by auto
qed

lemma fmt_g_zero [simp]: "fmt_g 0 = ''0''"
  by (simp add: fmt_g_def)

lemma fmt_g_numeral [simp]:
  "numeral w < (10::nat) ^ 6 \<Longrightarrow> fmt_g (numeral w) = nat_str (numeral w)"
  using fmt_g_nat [of "numeral w"] by simp

lemma stdout_text_snoc: "stdout_text f (ms @ [m]) = stdout_text f ms @ msg_text f m"
  by (simp add: stdout_text_def)

lemma reg_text_seven:
  assumes "length rs = 7"
  shows "reg_text f (drop 1 rs) =
           ''Registers: A = '' @ f (rs ! 1) @ ''  B = '' @ f (rs ! 2) @ ''  C = '' @ f (rs ! 3) @
           ''  D = '' @ f (rs ! 4) @ ''  E = '' @ f (rs ! 5) @ ''  F = '' @ f (rs ! 6) @ ''  '' @ nl"
proof -
  obtain r0 r1 r2 r3 r4 r5 r6 where "rs = [r0, r1, r2, r3, r4, r5, r6]"
    using assms by (auto simp: length_Suc_conv numeral_eq_Suc)
  then show ?thesis by (simp add: reg_text_def char_of_def bit_simps)
qed

lemmas print_simps = stdout_text_def vec_text_def reg_text_def nl_def nat_str.simps char_of_def
  bit_simps

subsection \<open>The whole process\<close>


text \<open>
  C36. PRT prints the stack from top to bottom and the six registers, each with its letter
  A to F (\<^verbatim>\<open>printRegisters\<close> counts the letter up from \<^verbatim>\<open>'A'\<close>), framed by empty
  lines, and changes nothing else.
\<close>

theorem prt_prints_dump:
  assumes "pending s = ''PRT'' # rest" and "length (registers s) = 7"
  shows "stdout_text f (out (operations d s)) =
           stdout_text f (out s) @ nl @ ''Stack: '' @ vec_text f (rev (stack s)) @
           ''Registers: A = '' @ f (registers s ! 1) @ ''  B = '' @ f (registers s ! 2) @
           ''  C = '' @ f (registers s ! 3) @ ''  D = '' @ f (registers s ! 4) @
           ''  E = '' @ f (registers s ! 5) @ ''  F = '' @ f (registers s ! 6) @ ''  '' @ nl @ nl \<and>
         stack (operations d s) = stack s \<and> registers (operations d s) = registers s \<and>
         isRunning (operations d s) = isRunning s \<and> pending (operations d s) = rest"
  using assms reg_text_seven [OF assms(2), of f]
  by (simp add: cycle_simps exec_PRT_def stdout_text_snoc)

theorem prt_prints_dump_witness:
  "stdout_text fmt_g (out (operations real_dom ((init_vm real_dom [''PRT''])\<lparr>stack := [2, 7]\<rparr>))) =
     nl @ ''Stack: 7 2 '' @ nl @ ''Registers: A = 0  B = 0  C = 0  D = 0  E = 0  F = 0  '' @ nl @ nl"
  using prt_prints_dump [of "(init_vm real_dom [''PRT''])\<lparr>stack := [2, 7]\<rparr>" "[]" fmt_g real_dom]
  by (simp add: print_simps)


end
