(* ===== verification/Spec2Isabelle.thy ===== *)
theory Spec2Isabelle
  imports Semantics Program Output
begin

text \<open>
  \<^bold>\<open>A verified model of VirtualMK.\<close>

  VirtualMK (\<^verbatim>\<open>src/VirtualMK/VirtualMK.cpp\<close>, one C++ file) is a stack-and-register
  virtual machine. \<^verbatim>\<open>main()\<close> loads a \<^verbatim>\<open>.mk\<close> file, upper-cases it and splits it
  at white space into the token vector \<^verbatim>\<open>code\<close>, then calls \<^verbatim>\<open>operations()\<close> while
  \<^verbatim>\<open>isRunning\<close> holds. Each call is one fetch-decode-execute cycle: the resolver
  (\<^verbatim>\<open>pointerIncrement\<close>, \<^verbatim>\<open>getInstruction\<close>, \<^verbatim>\<open>getRegister\<close>,
  \<^verbatim>\<open>getNumber\<close>) consumes the opcode token and then the operands the opcode asks for;
  the executor (the \<^verbatim>\<open>switch\<close> of \<^verbatim>\<open>operations()\<close>) updates the value stack and
  the seven registers (slot 0, \<^verbatim>\<open>S\<close>, stands for the stack); the reporter prints
  diagnostics prefixed by \<^verbatim>\<open>commandCount\<close>, and \<^verbatim>\<open>execution()\<close> prints the final
  dump and ends the process. There is no control flow in the language: the cursor only
  moves forward.

  \<^bold>\<open>Theories.\<close>
  \<^item> \<^theory_text>\<open>Prelude\<close>: the halting-step result type \<open>('a, 's) exec\<close> with \<open>bindE\<close>,
    and \<open>set_back\<close> / \<open>swap_at\<close> for \<^verbatim>\<open>v.back() = x\<close> and \<^verbatim>\<open>std::swap\<close>.
  \<^item> \<^theory_text>\<open>Numeric\<close>: the interface \<open>num_dom\<close> to the floating-point library
    (\<^verbatim>\<open>double\<close> arithmetic, \<^verbatim>\<open><math.h>\<close>, \<^verbatim>\<open>std::stod\<close>) and its
    exact-real instance \<open>real_dom\<close> with a decimal literal parser \<open>stod_real\<close>.
  \<^item> \<^theory_text>\<open>Machine\<close>: the globals of lines 10--46 as the record \<open>vm\<close>, the
    mnemonic tables, \<open>execution\<close>, \<open>report\<close>, \<open>fatal\<close> and the resolvers
    (lines 84--135); \<open>pending\<close> and \<open>advance\<close> describe the cursor, and the
    \<open>getX_next\<close> lemmas say what each resolver returns on the next pending token.
  \<^item> \<^theory_text>\<open>Executor\<close>: one handler \<open>exec_X\<close> per \<^verbatim>\<open>case\<close> of
    \<^verbatim>\<open>operations()\<close> (lines 137--866), \<open>exec_op\<close> for the dispatch and
    \<open>operations\<close> for one cycle.
  \<^item> \<^theory_text>\<open>Invariant\<close>: the machine invariant \<open>vm_inv\<close>, the frame relation
    \<open>vm_step\<close>, and the proof that every resolver and every handler keeps them.
  \<^item> \<^theory_text>\<open>Run\<close>: the loop of \<^verbatim>\<open>main()\<close> (lines 894--898) as \<open>while_option\<close>,
    with termination (C1), the cycle invariant (C2), progress (C3), the counter bound (C4)
    and the final dump as last line of every run (C28, through the predicate \<open>dumped\<close>
    that \<^theory_text>\<open>Invariant\<close> carries in \<open>handler_ok\<close>).
  \<^item> \<^theory_text>\<open>Semantics\<close>: the contract of each instruction over the token stream,
    for every state whose pending tokens start with it (C5--C20, C22): PSH/POP, MOV, SET,
    the binary operations in both modes, the DIV guards, SQR, HLT, the fatal fetches, and the
    spec's scenarios (PSH PSH ADD, DIV by zero at the end of the program, an opcode without
    its operand) stated over any state; witnesses instantiate each at a concrete input.
  \<^item> \<^theory_text>\<open>Refactor\<close>: the redesign of section 9 of the spec (tagged operands
    \<open>operand\<close>, one binary handler \<open>binop_ref\<close> parameterised by the operator) and DIV as
    section 4.2 describes it (\<open>div_ref\<close>); the C++ ADD, SUB, MUL and POW blocks equal
    \<open>binop_ref\<close> (C23), the C++ DIV equals \<open>div_ref\<close> on valid operands (C24), and
    the two differ on a repeated zero register, which the C++ reports as a recoverable
    division by zero and the spec rejects as fatal (C25).
  \<^item> \<^theory_text>\<open>Program\<close>: the instruction-level contract. \<open>instr\<close> is the decoded
    instruction (operands tagged as in \<^theory_text>\<open>Refactor\<close>), \<open>tokens_of\<close> prints it,
    \<open>decode\<close>/\<open>parse\<close> read a token list under the operand rules of section 4 of the
    spec, and \<open>astep\<close>/\<open>aexec\<close> give each instruction's effect on an abstract machine
    \<open>astate\<close> (stack, registers, counter, output, halted). \<open>vm_abs\<close> forgets the cursor;
    the \<open>refine_X\<close> lemmas show that one call of \<open>operations\<close> on the tokens of an
    instruction moves \<open>vm_abs\<close> exactly as \<open>astep\<close>, \<open>loop_refines\<close> lifts this to
    the loop, and C26 states that \<open>run\<close> computes \<open>aexec\<close> on every program that
    decodes (and \<open>parse_tokens_of\<close> that printed well-formed instructions parse back); C27 states
    that a program without a halting instruction is read to its last token and ends with
    "not enough instructions" at the count of tokens plus one. Through the refinement, C37 states
    which instructions halt the machine (the fatal tier of section 7 of the spec) and C38
    bounds the final stack by the number of PSH instructions.
  \<^item> \<^theory_text>\<open>Loader\<close>: \<^verbatim>\<open>main()\<close> (lines 868--898). \<open>tokenize\<close> is the
    loop \<^verbatim>\<open>while (file >> command)\<close> (skip white space, read to the next white space),
    \<open>toupper_c\<close> the C-locale \<^verbatim>\<open>toupper\<close>, \<open>load\<close> their composition, \<open>has_substr\<close>
    the \<^verbatim>\<open>find(".mk")\<close> test and \<open>main_vm\<close> the whole process, with the file
    system as a map from names to contents and the three early exits as \<open>main_err\<close>.
    C29--C34: the loaded tokens meet the token contract, print/load round trip, case
    insensitivity, the extension test as \<open>sublist\<close> (so \<^verbatim>\<open>prog.mk.txt\<close> is
    accepted), the early exits, and the composition with the interpreter.
  \<^item> \<^theory_text>\<open>Double\<close>: a second instance of \<open>num_dom\<close>, \<open>double_dom\<close>, over
    \<open>xreal\<close> (finite reals, \<open>-0\<close>, \<open>+inf\<close>, \<open>-inf\<close>, NaN) with the IEEE 754 / C99 Annex F
    behaviour of the special values, rounding to nearest-even with overflow to infinity
    (\<open>rnd\<close>), and \<open>stod_double\<close>, which reads \<^verbatim>\<open>INF\<close>, \<^verbatim>\<open>NAN\<close>, hexadecimal
    and decimal literals and rejects out-of-range ones as \<^verbatim>\<open>std::stod\<close> does.
    C39: LOG of a negative value silently stores NaN; C40: POW overflows to \<open>+inf\<close>
    without a diagnostic.
  \<^item> \<^theory_text>\<open>Output\<close>: the characters written to \<^verbatim>\<open>std::cout\<close>. \<open>msg_text\<close>
    renders each \<open>msg\<close> event as the C++ prints it (\<open>vec_text\<close> for
    \<^verbatim>\<open>reversePrintVector\<close>, \<open>reg_text\<close> for \<^verbatim>\<open>printRegisters\<close>, \<open>err_text\<close>
    for the diagnostics, \<open>main_err_text\<close> for \<^verbatim>\<open>main()\<close>), with \<open>nat_str\<close> for
    the counter and \<open>fmt_g\<close> for \<^verbatim>\<open>operator<<(double)\<close> (\<^verbatim>\<open>%g\<close>,
    precision 6); \<open>fmt_g_nat\<close> shows that it prints integers below 10^6 as their digits.
    C35: the standard output of every accepted run ends with the final dump of the halted
    machine; C36: the exact text PRT prints, registers with their letters A to F.
  \<^item> this theory: the property that exposes the scratch use of register slot 0 in the
    DIV guard (C21).

  \<^bold>\<open>Modelling choices.\<close> The C++ state is passed explicitly; the machine records
  what it prints as a list of \<open>msg\<close> events carrying the printed values, and
  \<^theory_text>\<open>Output\<close> turns them into the characters of \<^verbatim>\<open>std::cout\<close>. \<^verbatim>\<open>exit(0)\<close> in \<^verbatim>\<open>execution()\<close> is the \<open>Inl\<close> branch of every
  step, so code after it never runs, as in the process. \<^verbatim>\<open>commandCount\<close> is a \<open>nat\<close>;
  C4 bounds it by the program length plus one, so the C++ \<^verbatim>\<open>int\<close> does not overflow on
  programs of fewer than 2^31 - 1 tokens. The loop is \<open>while_option\<close>, which is
  \<open>None\<close> on divergence; C1 proves it is \<open>Some\<close> on every non-empty program with the
  measure "pending tokens plus one while running", so no fuel bound is needed.
  The machine is parametric in the numeric domain. The witnesses run on exact reals
  (\<open>real_dom\<close>), which agree with IEEE doubles on their small literals and whose
  \<open>stod_real\<close> reads decimal literals; the special values, overflow and the other
  literal forms of \<^verbatim>\<open>std::stod\<close> are the business of \<open>double_dom\<close> in
  \<^theory_text>\<open>Double\<close>.

  \<^bold>\<open>Not modelled.\<close> The sign of a NaN when printed (glibc prints \<^verbatim>\<open>-nan\<close>
  for a NaN with its sign bit set, as the invalid operations of x86-64 produce; \<open>fmt_x\<close>
  prints \<^verbatim>\<open>nan\<close>), and the stream state other than the default (precision 6,
  no flags), which the program never changes. NaN payloads; \<open>double_dom\<close> rounds every finite result to
  nearest-even on the double grid (subnormals included) and overflows to infinity, but
  treats \<^verbatim>\<open>pow\<close>, \<^verbatim>\<open>exp\<close> and the logarithms as correctly rounded, which the C
  library guarantees only to within an ulp; \<open>real_dom\<close> has no rounding or special
  values at all, so the witnesses run on it hold for the C++ only where every value is
  exactly representable, as in theirs. The operating system behind
  \<^verbatim>\<open>std::ifstream\<close> is a function from names to contents; locales other than "C"
  for \<^verbatim>\<open>isspace\<close> and \<^verbatim>\<open>toupper\<close>. The behaviour on an empty token list (a file of
  white space only), where the C++ dereferences \<^verbatim>\<open>code.begin()\<close> of an empty vector
  (undefined behaviour); the loop theorems assume a non-empty program, and C34 shows that
  \<^verbatim>\<open>main()\<close> reaches the loop with exactly the loaded tokens.

  \<^bold>\<open>Further work.\<close> What remains unmodelled needs a bit-level IEEE model (NaN signs and payloads, the
  accuracy of the C library's \<^verbatim>\<open>pow\<close>, \<^verbatim>\<open>exp\<close> and logarithms), which the
  allowed libraries do not provide; the behaviour on token lists that do not decode is
  covered instruction by instruction (\<^theory_text>\<open>Semantics\<close>) rather than by C26.
\<close>

subsection \<open>Register slot 0 is state\<close>

text \<open>
  C21. In \<^verbatim>\<open>DIV A S Z\<close> with a non-zero A, the code tests \<^verbatim>\<open>registers[0]\<close> for zero
  before it rejects \<^verbatim>\<open>S\<close> as second operand: the instruction is a recoverable division
  by zero (the machine keeps running) exactly when slot 0, the scratch value the last
  stack-mode binary operation left there, is zero, and is fatal otherwise.
\<close>

theorem div_second_stack_operand:
  assumes "pending s = ''DIV'' # ''A'' # ''S'' # z # rest" and "map_of registerSet z = Some k"
    and "\<not> n_is_zero d (registers s ! 1)"
  shows "isRunning (operations d s) \<longleftrightarrow> isRunning s \<and> n_is_zero d (registers s ! 0)"
  using assms by (auto simp: cycle_simps exec_DIV_def registerSet_def)

theorem div_second_stack_operand_witness:
  "isRunning (operations real_dom
     ((init_vm real_dom [''DIV'', ''A'', ''S'', ''B''])\<lparr>registers := [0, 5, 0, 0, 0, 0, 0]\<rparr>)) \<and>
   \<not> isRunning (operations real_dom
     ((init_vm real_dom [''DIV'', ''A'', ''S'', ''B''])\<lparr>registers := [3, 5, 0, 0, 0, 0, 0]\<rparr>))"
proof -
  have "isRunning (operations real_dom
     ((init_vm real_dom [''DIV'', ''A'', ''S'', ''B''])\<lparr>registers := [0, 5, 0, 0, 0, 0, 0]\<rparr>))"
    using div_second_stack_operand
      [of "(init_vm real_dom [''DIV'', ''A'', ''S'', ''B''])\<lparr>registers := [0, 5, 0, 0, 0, 0, 0]\<rparr>"
          "''B''" "[]" 2 real_dom]
    by (simp add: registerSet_def)
  moreover have "\<not> isRunning (operations real_dom
     ((init_vm real_dom [''DIV'', ''A'', ''S'', ''B''])\<lparr>registers := [3, 5, 0, 0, 0, 0, 0]\<rparr>))"
    using div_second_stack_operand
      [of "(init_vm real_dom [''DIV'', ''A'', ''S'', ''B''])\<lparr>registers := [3, 5, 0, 0, 0, 0, 0]\<rparr>"
          "''B''" "[]" 2 real_dom]
    by (simp add: registerSet_def)
  ultimately show ?thesis by blast
qed

end
